theory Spec2Isabelle
  imports Main "HOL-Library.Finite_Map" "HOL-Library.Char_ord" "HOL-Library.List_Lexorder"
begin

section \<open>Group descriptions of the Galene server (package \<open>group\<close>, description.go)\<close>

text \<open>
  Go distinguishes a nil slice or map from an empty one: \<open>UpdateDescription\<close> tests
  \<open>desc.Users != nil\<close>, \<open>upgradeDescription\<close> tests \<open>desc.Op != nil\<close>, and
  \<open>omitempty\<close> drops both. A slice is therefore an optional list, \<open>None\<close> being nil.
\<close>

type_synonym 'a slice = "'a list option"

definition elems :: "'a slice \<Rightarrow> 'a list" where
  "elems s = (case s of None \<Rightarrow> [] | Some xs \<Rightarrow> xs)"

subsection \<open>Permissions\<close>

record Permissions =
  name :: string
  permissions :: "string slice"

definition permissionsMap :: "(string \<times> string list) list" where
  "permissionsMap =
     [(''op'', [''op'', ''present'', ''token'']),
      (''present'', [''present'']),
      (''observe'', []),
      (''admin'', [''admin''])]"

datatype perm_error = UnknownPermission string | InvalidPermissionFormat

definition NewPermissions :: "string \<Rightarrow> perm_error + Permissions" where
  "NewPermissions n =
     (case map_of permissionsMap n of
        None \<Rightarrow> Inl (UnknownPermission n)
      | Some _ \<Rightarrow> Inr \<lparr>name = n, permissions = None\<rparr>)"

subsection \<open>JSON values\<close>

text \<open>
  The documents handled by \<open>encoding/json\<close>, as syntax trees. Number literals are
  integers (the integer fields of a description accept nothing else); the members of an
  object keep the order in which they are written.
\<close>

datatype json =
    JNull
  | JBool bool
  | JNum int
  | JStr string
  | JArr "json list"
  | JObj "(string \<times> json) list"

subsection \<open>Users and descriptions\<close>

text \<open>
  Modelled from the spec: the declaration of \<open>Password\<close> is not among the sources.
  description.go builds \<open>Password{Type: "wildcard"}\<close> and otherwise copies passwords
  around, so the record has the field \<open>Type\<close> and holds every other field as one
  opaque credential, a string whose zero value is empty.
\<close>

record Password =
  Type :: string
  credential :: string

text \<open>
  Modelled from the spec: the declaration of \<open>ClientPattern\<close> is not among the sources
  either. \<open>upgradeDescription\<close> reads \<open>u.Username\<close>, a string, and \<open>u.Password\<close>, a
  pointer to a \<open>Password\<close> that may be nil.
\<close>

record ClientPattern =
  Username :: string
  Password :: "Password option"

record UserDescription =
  Password :: Password
  Permissions :: Permissions

text \<open>
  A \<open>time.Time\<close> is held as its \<open>UnixNano\<close> value and an \<open>int64\<close> file size as an
  integer. A \<open>map[string]interface{}\<close> of \<open>AuthKeys\<close> is held as the JSON value it was
  decoded from.
\<close>

record Description =
  FileName :: string
  modTime :: int
  fileSize :: int
  isSubgroup :: bool
  DisplayName :: string
  Description :: string
  Contact :: string
  Comment :: string
  Public :: bool
  Redirect :: string
  MaxClients :: int
  MaxHistoryAge :: int
  AllowRecording :: bool
  UnrestrictedTokens :: bool
  AutoSubgroups :: bool
  Autolock :: bool
  Autokick :: bool
  Users :: "(string, UserDescription) fmap option"
  FallbackUsers :: "UserDescription slice"
  AuthKeys :: "json slice"
  AuthServer :: string
  AuthPortal :: string
  Codecs :: "string slice"
  Op :: "ClientPattern slice"
  Presenter :: "ClientPattern slice"
  Other :: "ClientPattern slice"
  AllowSubgroups :: bool
  AllowAnonymous :: bool

text \<open>The zero value of the struct, which \<open>var desc Description\<close> declares.\<close>

definition zeroDescription :: Description where
  "zeroDescription =
     \<lparr>FileName = '''', modTime = 0, fileSize = 0, isSubgroup = False,
      DisplayName = '''', Description = '''', Contact = '''', Comment = '''',
      Public = False, Redirect = '''', MaxClients = 0, MaxHistoryAge = 0,
      AllowRecording = False, UnrestrictedTokens = False, AutoSubgroups = False,
      Autolock = False, Autokick = False, Users = None, FallbackUsers = None,
      AuthKeys = None, AuthServer = '''', AuthPortal = '''', Codecs = None,
      Op = None, Presenter = None, Other = None,
      AllowSubgroups = False, AllowAnonymous = False\<rparr>"

text \<open>
  \<open>(p Permissions) Permissions(desc *Description)\<close>, whose argument is a pointer that
  may be nil: an unnamed value returns its list as it is; a named one looks its name up in \<open>permissionsMap\<close> (nil for a name that is
  not a key), scans the list for the four capabilities and prepends \<open>record\<close> and
  \<open>token\<close> as the flags of the description allow.
\<close>

definition Permissions_Permissions :: "Permissions \<Rightarrow> Description option \<Rightarrow> string slice" where
  "Permissions_Permissions p desc =
     (if name p = '''' then permissions p
      else
        let perms = map_of permissionsMap (name p);
            op = (''op'' \<in> set (elems perms));
            present = (''present'' \<in> set (elems perms));
            token = (''token'' \<in> set (elems perms));
            record = (''record'' \<in> set (elems perms));
            perms1 =
              (if desc \<noteq> None \<and> AllowRecording (the desc) \<and> op \<and> \<not> record
               then Some (''record'' # elems perms) else perms);
            perms2 =
              (if desc \<noteq> None \<and> UnrestrictedTokens (the desc) \<and> present \<and> \<not> token
               then Some (''token'' # elems perms1) else perms1)
        in perms2)"

subsection \<open>Migration of the obsolete fields\<close>

text \<open>
  \<open>upgradeDescription\<close> and its three closures. The two calls of \<open>log.Printf\<close> write
  to the log only and are left out; the error the function returns is always nil, so the
  model returns the description.
\<close>

definition upgradePassword :: "Password option \<Rightarrow> Password" where
  "upgradePassword pw =
     (case pw of None \<Rightarrow> \<lparr>Type = ''wildcard'', credential = ''''\<rparr> | Some p \<Rightarrow> p)"

definition upgradeUser :: "ClientPattern \<Rightarrow> string \<Rightarrow> UserDescription" where
  "upgradeUser u p =
     \<lparr>Password = upgradePassword (ClientPattern.Password u),
      Permissions = \<lparr>name = p, permissions = None\<rparr>\<rparr>"

text \<open>The loop of \<open>upgradeUsers\<close> over the patterns, on the map and the fallback list.\<close>

fun upgradeLoop ::
  "(string, UserDescription) fmap \<Rightarrow> UserDescription slice \<Rightarrow> ClientPattern list \<Rightarrow> string
   \<Rightarrow> (string, UserDescription) fmap \<times> UserDescription slice" where
  "upgradeLoop us fb [] p = (us, fb)"
| "upgradeLoop us fb (u # ps) p =
     (if Username u = '''' then upgradeLoop us (Some (elems fb @ [upgradeUser u p])) ps p
      else if fmlookup us (Username u) \<noteq> None then upgradeLoop us fb ps p
      else upgradeLoop (fmupd (Username u) (upgradeUser u p) us) fb ps p)"

definition upgradeUsers :: "Description \<Rightarrow> ClientPattern list \<Rightarrow> string \<Rightarrow> Description" where
  "upgradeUsers desc ps p =
     (let us = (case Users desc of None \<Rightarrow> fmempty | Some m \<Rightarrow> m);
          r = upgradeLoop us (FallbackUsers desc) ps p
      in desc\<lparr>Users := Some (fst r), FallbackUsers := snd r\<rparr>)"

definition upgradeDescription :: "Description \<Rightarrow> Description" where
  "upgradeDescription desc =
     (let d1 = (if AllowAnonymous desc then desc\<lparr>AllowAnonymous := False\<rparr> else desc);
          d2 = (if AllowSubgroups d1
                then d1\<lparr>AutoSubgroups := True, AllowSubgroups := False\<rparr> else d1);
          d3 = (case Op d2 of None \<Rightarrow> d2
                | Some ps \<Rightarrow> (upgradeUsers d2 ps ''op'')\<lparr>Op := None\<rparr>);
          d4 = (case Presenter d3 of None \<Rightarrow> d3
                | Some ps \<Rightarrow> (upgradeUsers d3 ps ''present'')\<lparr>Presenter := None\<rparr>);
          d5 = (case Other d4 of None \<Rightarrow> d4
                | Some ps \<Rightarrow> (upgradeUsers d4 ps ''observe'')\<lparr>Other := None\<rparr>)
      in d5)"

text \<open>
  \<open>desc.Users[username]\<close>, as \<open>GetSanitisedUser\<close> reads it: a nil map has no key.
\<close>

definition usersLookup :: "Description \<Rightarrow> string \<Rightarrow> UserDescription option" where
  "usersLookup desc k = (case Users desc of None \<Rightarrow> None | Some m \<Rightarrow> fmlookup m k)"

subsection \<open>Encoding and decoding as JSON\<close>

text \<open>
  The work of \<open>encoding/json\<close> on a description, on JSON values: the methods
  \<open>MarshalJSON\<close> and \<open>UnmarshalJSON\<close> of \<open>Permissions\<close>, and what the library does
  with the tags of the structs. A string is its text (the escapes of the written
  document are below this level). How the library reports several errors of one
  document is not followed: the first error met ends the decoding.
\<close>

datatype json_error =
    UnknownField string
  | TypeMismatch
  | PermissionError perm_error
  | PasswordError string

definition encodePermissions :: "Permissions \<Rightarrow> json" where
  "encodePermissions p =
     (if name p \<noteq> '''' then JStr (name p)
      else (case permissions p of None \<Rightarrow> JNull | Some xs \<Rightarrow> JArr (map JStr xs)))"

text \<open>
  \<open>json.Unmarshal\<close> into a \<open>[]string\<close>: \<open>null\<close> gives the nil slice, an array gives
  its strings (a \<open>null\<close> element leaves the empty string), anything else is an error.
\<close>

definition stringElement :: "json \<Rightarrow> string option" where
  "stringElement x = (case x of JStr s \<Rightarrow> Some s | JNull \<Rightarrow> Some '''' | _ \<Rightarrow> None)"

definition decodeStrings :: "json \<Rightarrow> string slice option" where
  "decodeStrings b =
     (case b of
        JNull \<Rightarrow> Some None
      | JArr xs \<Rightarrow>
          if list_all (\<lambda>x. stringElement x \<noteq> None) xs
          then Some (Some (map (\<lambda>x. the (stringElement x)) xs)) else None
      | _ \<Rightarrow> None)"

definition decodePermissions :: "json \<Rightarrow> json_error + Permissions" where
  "decodePermissions b =
     (case decodeStrings b of
        Some a \<Rightarrow> Inr \<lparr>name = '''', permissions = a\<rparr>
      | None \<Rightarrow>
          (case b of
             JStr s \<Rightarrow>
               if map_of permissionsMap s = None
               then Inl (PermissionError (UnknownPermission s))
               else Inr \<lparr>name = s, permissions = None\<rparr>
           | _ \<Rightarrow> Inl (PermissionError InvalidPermissionFormat)))"

text \<open>
  Modelled from the spec: the methods with which \<open>Password\<close> is written to and read
  from JSON are not among the sources. They are arguments of the codec.
\<close>

record pwcodec =
  encPassword :: "Password \<Rightarrow> json"
  decPassword :: "json \<Rightarrow> string + Password"

text \<open>
  The members of a JSON object are decoded one after the other into the struct, each
  through the function of the struct's fields. A member is matched to a field by its
  name, or failing that by its name without regard to the case of its letters.
\<close>

fun decodeMembers ::
  "(string \<Rightarrow> json \<Rightarrow> 'a \<Rightarrow> json_error + 'a) \<Rightarrow> (string \<times> json) list \<Rightarrow> 'a \<Rightarrow> json_error + 'a" where
  "decodeMembers f [] a = Inr a"
| "decodeMembers f (m # ms) a =
     (case f (fst m) (snd m) a of Inl e \<Rightarrow> Inl e | Inr a' \<Rightarrow> decodeMembers f ms a')"

definition lowerChar :: "char \<Rightarrow> char" where
  "lowerChar c =
     (if CHR ''A'' \<le> c \<and> c \<le> CHR ''Z'' then char_of (of_char c + (32::nat)) else c)"

definition fieldName :: "string list \<Rightarrow> string \<Rightarrow> string option" where
  "fieldName names k =
     (if k \<in> set names then Some k
      else find (\<lambda>n. map lowerChar n = map lowerChar k) names)"

definition decString :: "json \<Rightarrow> string \<Rightarrow> json_error + string" where
  "decString v cur = (case v of JStr s \<Rightarrow> Inr s | JNull \<Rightarrow> Inr cur | _ \<Rightarrow> Inl TypeMismatch)"

definition decBool :: "json \<Rightarrow> bool \<Rightarrow> json_error + bool" where
  "decBool v cur = (case v of JBool b \<Rightarrow> Inr b | JNull \<Rightarrow> Inr cur | _ \<Rightarrow> Inl TypeMismatch)"

definition decInt :: "json \<Rightarrow> int \<Rightarrow> json_error + int" where
  "decInt v cur =
     (case v of
        JNum i \<Rightarrow> if - (2 ^ 63) \<le> i \<and> i < 2 ^ 63 then Inr i else Inl TypeMismatch
      | JNull \<Rightarrow> Inr cur
      | _ \<Rightarrow> Inl TypeMismatch)"

text \<open>An array, each element decoded into a new value by \<open>f\<close>.\<close>

fun decodeElements :: "(json \<Rightarrow> json_error + 'a) \<Rightarrow> json list \<Rightarrow> json_error + 'a list" where
  "decodeElements f [] = Inr []"
| "decodeElements f (x # xs) =
     (case f x of
        Inl e \<Rightarrow> Inl e
      | Inr a \<Rightarrow> (case decodeElements f xs of Inl e \<Rightarrow> Inl e | Inr as \<Rightarrow> Inr (a # as)))"

definition decSlice :: "(json \<Rightarrow> json_error + 'a) \<Rightarrow> json \<Rightarrow> json_error + 'a slice" where
  "decSlice f v =
     (case v of
        JNull \<Rightarrow> Inr None
      | JArr xs \<Rightarrow> (case decodeElements f xs of Inl e \<Rightarrow> Inl e | Inr as \<Rightarrow> Inr (Some as))
      | _ \<Rightarrow> Inl TypeMismatch)"

definition decStringElement :: "json \<Rightarrow> json_error + string" where
  "decStringElement x = decString x ''''"

text \<open>An element of \<open>AuthKeys\<close>: an object, or \<open>null\<close> for the nil map.\<close>

definition decAuthKey :: "json \<Rightarrow> json_error + json" where
  "decAuthKey x = (case x of JObj ms \<Rightarrow> Inr x | JNull \<Rightarrow> Inr x | _ \<Rightarrow> Inl TypeMismatch)"

subsubsection \<open>User descriptions and client patterns\<close>

definition zeroPassword :: Password where
  "zeroPassword = \<lparr>Type = '''', credential = ''''\<rparr>"

definition zeroUserDescription :: UserDescription where
  "zeroUserDescription =
     \<lparr>Password = zeroPassword, Permissions = \<lparr>name = '''', permissions = None\<rparr>\<rparr>"

definition encodeUserDescription :: "pwcodec \<Rightarrow> UserDescription \<Rightarrow> json" where
  "encodeUserDescription pc u =
     JObj [(''password'', encPassword pc (Password u)),
           (''permissions'', encodePermissions (Permissions u))]"

definition userField ::
  "pwcodec \<Rightarrow> bool \<Rightarrow> string \<Rightarrow> json \<Rightarrow> UserDescription \<Rightarrow> json_error + UserDescription" where
  "userField pc strict k v u =
     (case fieldName [''password'', ''permissions''] k of
        None \<Rightarrow> if strict then Inl (UnknownField k) else Inr u
      | Some f \<Rightarrow>
          if f = ''password'' then
            (case decPassword pc v of
               Inl msg \<Rightarrow> Inl (PasswordError msg) | Inr p \<Rightarrow> Inr (u\<lparr>Password := p\<rparr>))
          else
            (case decodePermissions v of
               Inl e \<Rightarrow> Inl e | Inr p \<Rightarrow> Inr (u\<lparr>Permissions := p\<rparr>)))"

definition decodeUserDescription :: "pwcodec \<Rightarrow> bool \<Rightarrow> json \<Rightarrow> json_error + UserDescription" where
  "decodeUserDescription pc strict v =
     (case v of
        JNull \<Rightarrow> Inr zeroUserDescription
      | JObj ms \<Rightarrow> decodeMembers (userField pc strict) ms zeroUserDescription
      | _ \<Rightarrow> Inl TypeMismatch)"

text \<open>
  Modelled from the spec: the tags of \<open>ClientPattern\<close> are not among the sources. The
  documents of the tests write a pattern with the members \<open>username\<close> and \<open>password\<close>,
  each left out when the field is empty or nil.
\<close>

definition encodeClientPattern :: "pwcodec \<Rightarrow> ClientPattern \<Rightarrow> json" where
  "encodeClientPattern pc c =
     JObj ((if Username c = '''' then [] else [(''username'', JStr (Username c))]) @
           (case ClientPattern.Password c of
              None \<Rightarrow> [] | Some p \<Rightarrow> [(''password'', encPassword pc p)]))"

definition patternField ::
  "pwcodec \<Rightarrow> bool \<Rightarrow> string \<Rightarrow> json \<Rightarrow> ClientPattern \<Rightarrow> json_error + ClientPattern" where
  "patternField pc strict k v c =
     (case fieldName [''username'', ''password''] k of
        None \<Rightarrow> if strict then Inl (UnknownField k) else Inr c
      | Some f \<Rightarrow>
          if f = ''username'' then
            (case decString v (Username c) of
               Inl e \<Rightarrow> Inl e | Inr s \<Rightarrow> Inr (c\<lparr>Username := s\<rparr>))
          else if v = JNull then Inr (c\<lparr>ClientPattern.Password := None\<rparr>)
          else
            (case decPassword pc v of
               Inl msg \<Rightarrow> Inl (PasswordError msg)
             | Inr p \<Rightarrow> Inr (c\<lparr>ClientPattern.Password := Some p\<rparr>)))"

definition decodeClientPattern :: "pwcodec \<Rightarrow> bool \<Rightarrow> json \<Rightarrow> json_error + ClientPattern" where
  "decodeClientPattern pc strict v =
     (case v of
        JNull \<Rightarrow> Inr \<lparr>Username = '''', Password = None\<rparr>
      | JObj ms \<Rightarrow> decodeMembers (patternField pc strict) ms \<lparr>Username = '''', Password = None\<rparr>
      | _ \<Rightarrow> Inl TypeMismatch)"

subsubsection \<open>The map of users\<close>

text \<open>
  A map is written as an object whose members are sorted by key, and read member by
  member into the map the field holds (a new one if the field is nil).
\<close>

definition encodeUsers :: "pwcodec \<Rightarrow> (string, UserDescription) fmap \<Rightarrow> json" where
  "encodeUsers pc m =
     JObj (map (\<lambda>k. (k, encodeUserDescription pc (the (fmlookup m k))))
             (sorted_list_of_fset (fmdom m)))"

definition usersMember ::
  "pwcodec \<Rightarrow> bool \<Rightarrow> string \<Rightarrow> json \<Rightarrow> (string, UserDescription) fmap
   \<Rightarrow> json_error + (string, UserDescription) fmap" where
  "usersMember pc strict k v m =
     (case decodeUserDescription pc strict v of
        Inl e \<Rightarrow> Inl e | Inr u \<Rightarrow> Inr (fmupd k u m))"

definition decUsers ::
  "pwcodec \<Rightarrow> bool \<Rightarrow> json \<Rightarrow> (string, UserDescription) fmap option
   \<Rightarrow> json_error + (string, UserDescription) fmap option" where
  "decUsers pc strict v cur =
     (case v of
        JNull \<Rightarrow> Inr None
      | JObj ms \<Rightarrow>
          (case decodeMembers (usersMember pc strict) ms
                  (case cur of None \<Rightarrow> fmempty | Some m \<Rightarrow> m) of
             Inl e \<Rightarrow> Inl e | Inr m \<Rightarrow> Inr (Some m))
      | _ \<Rightarrow> Inl TypeMismatch)"

subsubsection \<open>Descriptions\<close>

text \<open>
  The members of a description in the order of the fields of the struct. Every tag has
  \<open>omitempty\<close>: an empty string, a zero, \<open>false\<close>, and a nil or empty slice or map are
  left out. The four fields tagged \<open>json:"-"\<close> are never written.
\<close>

definition omitString :: "string \<Rightarrow> string \<Rightarrow> (string \<times> json) list" where
  "omitString k s = (if s = '''' then [] else [(k, JStr s)])"

definition omitBool :: "string \<Rightarrow> bool \<Rightarrow> (string \<times> json) list" where
  "omitBool k b = (if b then [(k, JBool True)] else [])"

definition omitInt :: "string \<Rightarrow> int \<Rightarrow> (string \<times> json) list" where
  "omitInt k i = (if i = 0 then [] else [(k, JNum i)])"

definition omitSlice :: "string \<Rightarrow> ('a \<Rightarrow> json) \<Rightarrow> 'a slice \<Rightarrow> (string \<times> json) list" where
  "omitSlice k f s = (if elems s = [] then [] else [(k, JArr (map f (elems s)))])"

definition omitUsers ::
  "pwcodec \<Rightarrow> (string, UserDescription) fmap option \<Rightarrow> (string \<times> json) list" where
  "omitUsers pc us =
     (case us of
        None \<Rightarrow> []
      | Some m \<Rightarrow> if m = fmempty then [] else [(''users'', encodeUsers pc m)])"

definition descriptionMembers :: "pwcodec \<Rightarrow> Description \<Rightarrow> (string \<times> json) list" where
  "descriptionMembers pc d =
     omitString ''displayName'' (DisplayName d) @
     omitString ''description'' (Description d) @
     omitString ''contact'' (Contact d) @
     omitString ''comment'' (Comment d) @
     omitBool ''public'' (Public d) @
     omitString ''redirect'' (Redirect d) @
     omitInt ''max-clients'' (MaxClients d) @
     omitInt ''max-history-age'' (MaxHistoryAge d) @
     omitBool ''allow-recording'' (AllowRecording d) @
     omitBool ''unrestricted-tokens'' (UnrestrictedTokens d) @
     omitBool ''auto-subgroups'' (AutoSubgroups d) @
     omitBool ''autolock'' (Autolock d) @
     omitBool ''autokick'' (Autokick d) @
     omitUsers pc (Users d) @
     omitSlice ''fallback-users'' (encodeUserDescription pc) (FallbackUsers d) @
     omitSlice ''authKeys'' (\<lambda>x. x) (AuthKeys d) @
     omitString ''authServer'' (AuthServer d) @
     omitString ''authPortal'' (AuthPortal d) @
     omitSlice ''codecs'' JStr (Codecs d) @
     omitSlice ''op'' (encodeClientPattern pc) (Op d) @
     omitSlice ''presenter'' (encodeClientPattern pc) (Presenter d) @
     omitSlice ''other'' (encodeClientPattern pc) (Other d) @
     omitBool ''allow-subgroups'' (AllowSubgroups d) @
     omitBool ''allow-anonymous'' (AllowAnonymous d)"

definition encodeDescription :: "pwcodec \<Rightarrow> Description \<Rightarrow> json" where
  "encodeDescription pc d = JObj (descriptionMembers pc d)"

definition descriptionFields :: "string list" where
  "descriptionFields =
     [''displayName'', ''description'', ''contact'', ''comment'', ''public'', ''redirect'',
      ''max-clients'', ''max-history-age'', ''allow-recording'', ''unrestricted-tokens'',
      ''auto-subgroups'', ''autolock'', ''autokick'', ''users'', ''fallback-users'',
      ''authKeys'', ''authServer'', ''authPortal'', ''codecs'', ''op'', ''presenter'',
      ''other'', ''allow-subgroups'', ''allow-anonymous'']"

definition setField ::
  "pwcodec \<Rightarrow> bool \<Rightarrow> string \<Rightarrow> json \<Rightarrow> Description \<Rightarrow> json_error + Description" where
  "setField pc strict f v d =
     (if f = ''displayName'' then map_sum id (\<lambda>x. d\<lparr>DisplayName := x\<rparr>) (decString v (DisplayName d))
      else if f = ''description'' then map_sum id (\<lambda>x. d\<lparr>Description := x\<rparr>) (decString v (Description d))
      else if f = ''contact'' then map_sum id (\<lambda>x. d\<lparr>Contact := x\<rparr>) (decString v (Contact d))
      else if f = ''comment'' then map_sum id (\<lambda>x. d\<lparr>Comment := x\<rparr>) (decString v (Comment d))
      else if f = ''public'' then map_sum id (\<lambda>x. d\<lparr>Public := x\<rparr>) (decBool v (Public d))
      else if f = ''redirect'' then map_sum id (\<lambda>x. d\<lparr>Redirect := x\<rparr>) (decString v (Redirect d))
      else if f = ''max-clients'' then map_sum id (\<lambda>x. d\<lparr>MaxClients := x\<rparr>) (decInt v (MaxClients d))
      else if f = ''max-history-age'' then
        map_sum id (\<lambda>x. d\<lparr>MaxHistoryAge := x\<rparr>) (decInt v (MaxHistoryAge d))
      else if f = ''allow-recording'' then
        map_sum id (\<lambda>x. d\<lparr>AllowRecording := x\<rparr>) (decBool v (AllowRecording d))
      else if f = ''unrestricted-tokens'' then
        map_sum id (\<lambda>x. d\<lparr>UnrestrictedTokens := x\<rparr>) (decBool v (UnrestrictedTokens d))
      else if f = ''auto-subgroups'' then
        map_sum id (\<lambda>x. d\<lparr>AutoSubgroups := x\<rparr>) (decBool v (AutoSubgroups d))
      else if f = ''autolock'' then map_sum id (\<lambda>x. d\<lparr>Autolock := x\<rparr>) (decBool v (Autolock d))
      else if f = ''autokick'' then map_sum id (\<lambda>x. d\<lparr>Autokick := x\<rparr>) (decBool v (Autokick d))
      else if f = ''users'' then map_sum id (\<lambda>x. d\<lparr>Users := x\<rparr>) (decUsers pc strict v (Users d))
      else if f = ''fallback-users'' then
        map_sum id (\<lambda>x. d\<lparr>FallbackUsers := x\<rparr>) (decSlice (decodeUserDescription pc strict) v)
      else if f = ''authKeys'' then map_sum id (\<lambda>x. d\<lparr>AuthKeys := x\<rparr>) (decSlice decAuthKey v)
      else if f = ''authServer'' then map_sum id (\<lambda>x. d\<lparr>AuthServer := x\<rparr>) (decString v (AuthServer d))
      else if f = ''authPortal'' then map_sum id (\<lambda>x. d\<lparr>AuthPortal := x\<rparr>) (decString v (AuthPortal d))
      else if f = ''codecs'' then map_sum id (\<lambda>x. d\<lparr>Codecs := x\<rparr>) (decSlice decStringElement v)
      else if f = ''op'' then
        map_sum id (\<lambda>x. d\<lparr>Op := x\<rparr>) (decSlice (decodeClientPattern pc strict) v)
      else if f = ''presenter'' then
        map_sum id (\<lambda>x. d\<lparr>Presenter := x\<rparr>) (decSlice (decodeClientPattern pc strict) v)
      else if f = ''other'' then
        map_sum id (\<lambda>x. d\<lparr>Other := x\<rparr>) (decSlice (decodeClientPattern pc strict) v)
      else if f = ''allow-subgroups'' then
        map_sum id (\<lambda>x. d\<lparr>AllowSubgroups := x\<rparr>) (decBool v (AllowSubgroups d))
      else map_sum id (\<lambda>x. d\<lparr>AllowAnonymous := x\<rparr>) (decBool v (AllowAnonymous d)))"

definition descriptionField ::
  "pwcodec \<Rightarrow> bool \<Rightarrow> string \<Rightarrow> json \<Rightarrow> Description \<Rightarrow> json_error + Description" where
  "descriptionField pc strict k v d =
     (case fieldName descriptionFields k of
        None \<Rightarrow> if strict then Inl (UnknownField k) else Inr d
      | Some f \<Rightarrow> setField pc strict f v d)"

text \<open>
  Decoding a document into \<open>var desc Description\<close>; \<open>strict\<close> is
  \<open>DisallowUnknownFields\<close>. The document \<open>null\<close> leaves the zero value.
\<close>

definition decodeDescription :: "pwcodec \<Rightarrow> bool \<Rightarrow> json \<Rightarrow> json_error + Description" where
  "decodeDescription pc strict v =
     (case v of
        JNull \<Rightarrow> Inr zeroDescription
      | JObj ms \<Rightarrow> decodeMembers (descriptionField pc strict) ms zeroDescription
      | _ \<Rightarrow> Inl TypeMismatch)"

text \<open>
  The descriptions that come back from their encoding: the four fields that are never
  written are zero, no slice or map is empty without being nil, the integers fit an
  \<open>int\<close> of 64 bits, a named permission is a key of the table and has no list, the
  elements of \<open>AuthKeys\<close> are objects, and the codec of passwords returns the passwords
  of the description (one held through a pointer is not written as \<open>null\<close>).
\<close>

definition validPermissions :: "Permissions \<Rightarrow> bool" where
  "validPermissions p =
     (name p = '''' \<or> (map_of permissionsMap (name p) \<noteq> None \<and> permissions p = None))"

definition validUser :: "pwcodec \<Rightarrow> UserDescription \<Rightarrow> bool" where
  "validUser pc u =
     (validPermissions (Permissions u) \<and> decPassword pc (encPassword pc (Password u)) = Inr (Password u))"

definition validPattern :: "pwcodec \<Rightarrow> ClientPattern \<Rightarrow> bool" where
  "validPattern pc c =
     (case ClientPattern.Password c of
        None \<Rightarrow> True
      | Some p \<Rightarrow> encPassword pc p \<noteq> JNull \<and> decPassword pc (encPassword pc p) = Inr p)"

definition validAuthKey :: "json \<Rightarrow> bool" where
  "validAuthKey x = (case x of JObj ms \<Rightarrow> True | JNull \<Rightarrow> True | _ \<Rightarrow> False)"

definition int64 :: "int \<Rightarrow> bool" where
  "int64 i = (- (2 ^ 63) \<le> i \<and> i < 2 ^ 63)"

definition persisted :: "pwcodec \<Rightarrow> Description \<Rightarrow> bool" where
  "persisted pc d =
     (FileName d = '''' \<and> modTime d = 0 \<and> fileSize d = 0 \<and> isSubgroup d = False \<and>
      int64 (MaxClients d) \<and> int64 (MaxHistoryAge d) \<and>
      Users d \<noteq> Some fmempty \<and> FallbackUsers d \<noteq> Some [] \<and> AuthKeys d \<noteq> Some [] \<and>
      Codecs d \<noteq> Some [] \<and> Op d \<noteq> Some [] \<and> Presenter d \<noteq> Some [] \<and> Other d \<noteq> Some [] \<and>
      (\<forall>k u. usersLookup d k = Some u \<longrightarrow> validUser pc u) \<and>
      list_all (validUser pc) (elems (FallbackUsers d)) \<and>
      list_all validAuthKey (elems (AuthKeys d)) \<and>
      list_all (validPattern pc) (elems (Op d)) \<and>
      list_all (validPattern pc) (elems (Presenter d)) \<and>
      list_all (validPattern pc) (elems (Other d)))"


subsection \<open>Paths\<close>

text \<open>
  The functions of the packages \<open>path\<close>, \<open>path/filepath\<close> and \<open>strings\<close> that the
  store calls, for a Unix file system: the separator is the slash.
  \<open>path.Split\<close> cuts after the last slash.
\<close>

definition path_Split :: "string \<Rightarrow> string \<times> string" where
  "path_Split p =
     (rev (dropWhile (\<lambda>c. c \<noteq> CHR ''/'') (rev p)), rev (takeWhile (\<lambda>c. c \<noteq> CHR ''/'') (rev p)))"

definition strings_TrimRight :: "string \<Rightarrow> string \<Rightarrow> string" where
  "strings_TrimRight s cutset = rev (dropWhile (\<lambda>c. c \<in> set cutset) (rev s))"

text \<open>The elements of a path: the pieces between the slashes.\<close>

fun elements :: "string \<Rightarrow> string list" where
  "elements [] = [[]]"
| "elements (c # cs) =
     (if c = CHR ''/'' then [] # elements cs
      else (case elements cs of [] \<Rightarrow> [[c]] | e # es \<Rightarrow> (c # e) # es))"

text \<open>
  \<open>path.Clean\<close>: empty and dot elements go; a dot-dot element removes the element
  before it, is dropped at the root, and stays at the start of a relative path. The
  elements kept so far are held last first.
\<close>

fun cleanElements :: "bool \<Rightarrow> string list \<Rightarrow> string list \<Rightarrow> string list" where
  "cleanElements rooted kept [] = rev kept"
| "cleanElements rooted kept (e # es) =
     (if e = '''' \<or> e = ''.'' then cleanElements rooted kept es
      else if e = ''..'' then
        (case kept of
           [] \<Rightarrow> if rooted then cleanElements rooted [] es else cleanElements rooted [e] es
         | k # ks \<Rightarrow> if k = ''..'' then cleanElements rooted (e # kept) es
                    else cleanElements rooted ks es)
      else cleanElements rooted (e # kept) es)"

fun joinElements :: "string list \<Rightarrow> string" where
  "joinElements [] = ''''"
| "joinElements [e] = e"
| "joinElements (e # es) = e @ ''/'' @ joinElements es"

definition path_Clean :: "string \<Rightarrow> string" where
  "path_Clean p =
     (let rooted = (p \<noteq> '''' \<and> hd p = CHR ''/'');
          out = (if rooted then ''/'' else '''') @ joinElements (cleanElements rooted [] (elements p))
      in if out = '''' then ''.'' else out)"

definition path_Dir :: "string \<Rightarrow> string" where
  "path_Dir p = path_Clean (fst (path_Split p))"

text \<open>\<open>filepath.Join\<close> of two elements: the empty ones are ignored, the rest is cleaned.\<close>

definition filepath_Join :: "string \<Rightarrow> string \<Rightarrow> string" where
  "filepath_Join a b =
     (if a \<noteq> '''' then path_Clean (a @ ''/'' @ b)
      else if b \<noteq> '''' then path_Clean b else '''')"

subsection \<open>The file system\<close>

text \<open>
  A file holds its bytes and its modification time (as \<open>UnixNano\<close>); its size is the
  number of its bytes. The third field says what the system refuses for the file:
  opening it, \<open>Stat\<close> on the opened file, or reading it.

  The file system says, for every path, what the operating system answers there: that
  nothing has the name (the error for which \<open>os.IsNotExist\<close> holds), a regular file, or
  another error (a component that is a regular file or too long, a directory that may
  not be searched), which \<open>Stat\<close>, \<open>Open\<close>, \<open>Remove\<close> and \<open>Rename\<close> then all return. The
  files of the store are regular files whose names end in \<open>.json\<close> or \<open>.temp\<close>;
  creating, renaming or removing one changes the answer for its own path only.
\<close>

datatype fileFault = NoFault | OpenFails string | FstatFails string | ReadFails string

record osFile =
  bytes :: string
  mtime :: int
  fault :: fileFault

datatype pathState = Missing | Present osFile | Failing string

type_synonym fsys = "string \<Rightarrow> pathState"

definition noFiles :: fsys where
  "noFiles = (\<lambda>p. Missing)"

definition Size :: "osFile \<Rightarrow> int" where
  "Size f = int (length (bytes f))"

text \<open>
  The errors. \<open>ErrOther\<close> stands for every error of the operating system other than the
  one of a missing file. What a failing system call answers is an \<open>oserror\<close>.
\<close>

datatype error =
    ErrNotExist
  | ErrExist
  | ErrTagMismatch
  | ErrNotSanitised
  | ErrPatternHasSeparator
  | ErrDecode string
  | ErrEncode string
  | ErrOther string

datatype oserror = ENOENT | EOTHER string

definition osError :: "oserror \<Rightarrow> error" where
  "osError e = (case e of ENOENT \<Rightarrow> ErrNotExist | EOTHER m \<Rightarrow> ErrOther m)"

definition os_IsNotExist :: "error \<Rightarrow> bool" where
  "os_IsNotExist e = (e = ErrNotExist)"

definition os_Stat :: "fsys \<Rightarrow> string \<Rightarrow> error + osFile" where
  "os_Stat fs p =
     (case fs p of
        Missing \<Rightarrow> Inl ErrNotExist
      | Failing m \<Rightarrow> Inl (ErrOther m)
      | Present f \<Rightarrow> Inr f)"

definition os_Open :: "fsys \<Rightarrow> string \<Rightarrow> error + osFile" where
  "os_Open fs p =
     (case fs p of
        Missing \<Rightarrow> Inl ErrNotExist
      | Failing m \<Rightarrow> Inl (ErrOther m)
      | Present f \<Rightarrow> (case fault f of OpenFails m \<Rightarrow> Inl (ErrOther m) | _ \<Rightarrow> Inr f))"

text \<open>\<open>r.Stat()\<close> on an opened file: its size and modification time.\<close>

definition File_Stat :: "osFile \<Rightarrow> error + int \<times> int" where
  "File_Stat r =
     (case fault r of FstatFails m \<Rightarrow> Inl (ErrOther m) | _ \<Rightarrow> Inr (Size r, mtime r))"

definition os_Remove :: "fsys \<Rightarrow> string \<Rightarrow> error + fsys" where
  "os_Remove fs p =
     (case fs p of
        Missing \<Rightarrow> Inl ErrNotExist
      | Failing m \<Rightarrow> Inl (ErrOther m)
      | Present f \<Rightarrow> Inr (fs(p := Missing)))"

definition os_Rename :: "fsys \<Rightarrow> string \<Rightarrow> string \<Rightarrow> error + fsys" where
  "os_Rename fs old new =
     (case fs old of
        Missing \<Rightarrow> Inl ErrNotExist
      | Failing m \<Rightarrow> Inl (ErrOther m)
      | Present f \<Rightarrow>
          (case fs new of
             Failing m \<Rightarrow> Inl (ErrOther m)
           | _ \<Rightarrow> Inr ((fs(old := Missing))(new := Present f))))"

text \<open>Decimal numerals, as \<open>%v\<close> prints an integer and as \<open>os.CreateTemp\<close> names a file.\<close>

fun uitoa :: "nat \<Rightarrow> string" where
  "uitoa n =
     (if n < 10 then [''0123456789'' ! n]
      else uitoa (n div 10) @ [''0123456789'' ! (n mod 10)])"

declare uitoa.simps [simp del]

definition itoa :: "int \<Rightarrow> string" where
  "itoa i = (if i < 0 then ''-'' @ uitoa (nat (- i)) else uitoa (nat i))"

text \<open>
  \<open>os.CreateTemp(dir, pattern)\<close> of the Go library. A pattern that contains a path
  separator is refused with the error \<open>pattern contains path separator\<close>, before any
  file is touched. Otherwise the last star of the pattern is replaced by a random
  number, the name is put under \<open>dir\<close>, and the file is created empty if nothing has
  that name; a name that is taken makes the library draw the next number, and any other
  answer of the system is returned. The numbers drawn are an argument here.
\<close>

definition prefixAndSuffix :: "string \<Rightarrow> error + string \<times> string" where
  "prefixAndSuffix pattern =
     (if CHR ''/'' \<in> set pattern then Inl ErrPatternHasSeparator
      else if CHR ''*'' \<in> set pattern
        then Inr (butlast (rev (dropWhile (\<lambda>c. c \<noteq> CHR ''*'') (rev pattern))),
                  rev (takeWhile (\<lambda>c. c \<noteq> CHR ''*'') (rev pattern)))
        else Inr (pattern, ''''))"

definition joinPath :: "string \<Rightarrow> string \<Rightarrow> string" where
  "joinPath dir n = (if dir \<noteq> '''' \<and> last dir = CHR ''/'' then dir @ n else dir @ ''/'' @ n)"

fun createExclusive :: "fsys \<Rightarrow> string \<Rightarrow> string \<Rightarrow> int \<Rightarrow> nat list \<Rightarrow> error + string \<times> fsys" where
  "createExclusive fs prefix suffix now [] = Inl ErrExist"
| "createExclusive fs prefix suffix now (r # rs) =
     (let n = prefix @ uitoa r @ suffix
      in case fs n of
           Missing \<Rightarrow> Inr (n, fs(n := Present \<lparr>bytes = '''', mtime = now, fault = NoFault\<rparr>))
         | Present f \<Rightarrow> createExclusive fs prefix suffix now rs
         | Failing m \<Rightarrow> Inl (ErrOther m))"

definition os_CreateTemp :: "fsys \<Rightarrow> string \<Rightarrow> string \<Rightarrow> int \<Rightarrow> nat list \<Rightarrow> error + string \<times> fsys" where
  "os_CreateTemp fs dir pattern now rs =
     (case prefixAndSuffix pattern of
        Inl e \<Rightarrow> Inl e
      | Inr (prefix, suffix) \<Rightarrow> createExclusive fs (joinPath dir prefix) suffix now rs)"

subsection \<open>The store\<close>

text \<open>
  What the store takes from outside: the directory of the group files (the variable
  \<open>Directory\<close>), and the decoder and encoder of \<open>encoding/json\<close> on the bytes of a
  file, the decoder being the strict one that \<open>readDescription\<close> sets up with
  \<open>DisallowUnknownFields\<close>. Both are arguments, so that what is proved of the store
  holds for whatever they compute.
\<close>

record sys =
  Directory :: string
  decode :: "string \<Rightarrow> string + Description"
  encode :: "Description \<Rightarrow> string + string"

text \<open>
  What the environment decides during one call: the time, the random numbers of
  \<open>os.CreateTemp\<close>, and which of the operations fails for a reason of the operating
  system, and with which error (a directory that is missing, a full disk). A failed
  write has put the first \<open>k\<close> bytes into the file. \<open>failRemoveTemp\<close> is the failure of
  an \<open>os.Remove(temp)\<close>, and \<open>failRemove\<close> that of the \<open>os.Remove\<close> of
  \<open>DeleteDescription\<close>.
\<close>

record env =
  now :: int
  rands :: "nat list"
  failCreateTemp :: "oserror option"
  failWrite :: "(nat \<times> oserror) option"
  failSync :: "oserror option"
  failClose :: "oserror option"
  failRename :: "oserror option"
  failRemoveTemp :: bool
  failRemove :: "oserror option"

definition descriptionFileName :: "sys \<Rightarrow> string \<Rightarrow> string" where
  "descriptionFileName s n = filepath_Join (Directory s) (path_Clean (''/'' @ n) @ ''.json'')"

definition parentName :: "string \<Rightarrow> string" where
  "parentName n = strings_TrimRight (fst (path_Split n)) ''/''"

text \<open>
  \<open>getDescriptionFile\<close>: the loop walks from the name to its ancestors until \<open>get\<close>
  answers with something else than a missing file. \<open>isParent\<close> is false in the first
  round and true afterwards. A result with a non-nil error is the error.
\<close>

function getDescriptionFileFrom ::
  "sys \<Rightarrow> (string \<Rightarrow> error + 'r) \<Rightarrow> bool \<Rightarrow> string \<Rightarrow> error + 'r \<times> string \<times> bool" where
  "getDescriptionFileFrom s get isParent n =
     (if n = '''' then Inl ErrNotExist
      else
        let fileName = descriptionFileName s n
        in case get fileName of
             Inr r \<Rightarrow> Inr (r, fileName, isParent)
           | Inl e \<Rightarrow> if os_IsNotExist e then getDescriptionFileFrom s get True (parentName n)
                      else Inl e)"
  by pat_completeness auto
termination
proof (relation "measure (\<lambda>(s, get, isParent, n). length n)")
  show "wf (measure (\<lambda>(s, get, isParent, n). length n))" by simp
next
  fix s :: sys and get :: "string \<Rightarrow> error + 'r" and isParent :: bool and n :: string
    and fileName :: string and e :: error
  assume n: "n \<noteq> ''''"
  define d where "d = dropWhile (\<lambda>c. c \<noteq> CHR ''/'') (rev n)"
  have le: "length d \<le> length n"
    unfolding d_def using length_dropWhile_le [of "\<lambda>c. c \<noteq> CHR ''/''" "rev n"] by simp
  have pn: "length (parentName n) = length (dropWhile (\<lambda>c. c = CHR ''/'') d)"
    unfolding d_def by (simp add: parentName_def path_Split_def strings_TrimRight_def)
  have "length (dropWhile (\<lambda>c. c = CHR ''/'') d) < length n"
  proof (cases d)
    case Nil
    then show ?thesis using n by simp
  next
    case (Cons y ys)
    have "d \<noteq> []" using Cons by simp
    then have "\<not> (hd d \<noteq> CHR ''/'')"
      unfolding d_def by (rule hd_dropWhile)
    then have y: "y = CHR ''/''" using Cons by simp
    have "length (dropWhile (\<lambda>c. c = CHR ''/'') ys) \<le> length ys"
      by (rule length_dropWhile_le)
    then show ?thesis using le unfolding Cons y by simp
  qed
  then show "((s, get, True, parentName n), (s, get, isParent, n))
     \<in> measure (\<lambda>(s, get, isParent, n). length n)"
    using pn by simp
qed

declare getDescriptionFileFrom.simps [simp del]

definition getDescriptionFile ::
  "sys \<Rightarrow> string \<Rightarrow> (string \<Rightarrow> error + 'r) \<Rightarrow> error + 'r \<times> string \<times> bool" where
  "getDescriptionFile s n get = getDescriptionFileFrom s get False n"

definition makeETag :: "int \<Rightarrow> int \<Rightarrow> string" where
  "makeETag sz t = [CHR 0x22] @ itoa sz @ ''-'' @ itoa t @ [CHR 0x22]"

definition GetDescriptionTag :: "sys \<Rightarrow> fsys \<Rightarrow> string \<Rightarrow> error + string" where
  "GetDescriptionTag s fs n =
     (case getDescriptionFile s n (os_Stat fs) of
        Inl e \<Rightarrow> Inl e
      | Inr (fi, fileName, isParent) \<Rightarrow>
          if isParent then Inl ErrNotExist else Inr (makeETag (Size fi) (mtime fi)))"

text \<open>
  \<open>d.Decode(&desc)\<close> on the opened file: an error of the read, or what the decoder
  makes of the bytes.
\<close>

definition File_Decode :: "sys \<Rightarrow> osFile \<Rightarrow> error + Description" where
  "File_Decode s r =
     (case fault r of
        ReadFails m \<Rightarrow> Inl (ErrOther m)
      | _ \<Rightarrow> (case decode s (bytes r) of Inl msg \<Rightarrow> Inl (ErrDecode msg) | Inr desc \<Rightarrow> Inr desc))"

text \<open>
  \<open>readDescription\<close>. The file is opened, its size and time are taken from the open
  file, and its bytes are decoded into a zero description. The test of
  \<open>AutoSubgroups\<close> for a file found at an ancestor comes before the call of
  \<open>upgradeDescription\<close>, as in the source.
\<close>

definition readDescription :: "sys \<Rightarrow> fsys \<Rightarrow> string \<Rightarrow> error + Description" where
  "readDescription s fs n =
     (case getDescriptionFile s n (os_Open fs) of
        Inl e \<Rightarrow> Inl e
      | Inr (r, fileName, isParent) \<Rightarrow>
          (case File_Stat r of
             Inl e \<Rightarrow> Inl e
           | Inr fi \<Rightarrow>
               (case File_Decode s r of
                  Inl e \<Rightarrow> Inl e
                | Inr desc \<Rightarrow>
                    if isParent \<and> \<not> AutoSubgroups desc then Inl ErrNotExist
                    else
                      let desc1 = (if isParent
                                   then desc\<lparr>isSubgroup := True, Public := False,
                                             Description := ''''\<rparr>
                                   else desc);
                          desc2 = desc1\<lparr>FileName := fileName, fileSize := fst fi,
                                        modTime := snd fi\<rparr>
                      in Inr (upgradeDescription desc2))))"

definition descriptionUnchanged :: "sys \<Rightarrow> fsys \<Rightarrow> string \<Rightarrow> Description \<Rightarrow> bool" where
  "descriptionUnchanged s fs n desc =
     (case getDescriptionFile s n (os_Stat fs) of
        Inl e \<Rightarrow> False
      | Inr (fi, fileName, isParent) \<Rightarrow>
          if fileName \<noteq> FileName desc then False
          else if Size fi \<noteq> fileSize desc \<or> mtime fi \<noteq> modTime desc then False
          else True)"

text \<open>
  \<open>GetDescription\<close>. The registry of groups is not among the sources; \<open>cached\<close> is
  the description of the group that \<open>Get(name)\<close> finds, if it finds one.
\<close>

definition GetDescription :: "sys \<Rightarrow> fsys \<Rightarrow> Description option \<Rightarrow> string \<Rightarrow> error + Description" where
  "GetDescription s fs cached n =
     (case cached of
        Some g \<Rightarrow> if descriptionUnchanged s fs n g then Inr g else readDescription s fs n
      | None \<Rightarrow> readDescription s fs n)"

definition GetSanitisedDescription ::
  "sys \<Rightarrow> fsys \<Rightarrow> Description option \<Rightarrow> string \<Rightarrow> error + Description \<times> string" where
  "GetSanitisedDescription s fs cached n =
     (case GetDescription s fs cached n of
        Inl e \<Rightarrow> Inl e
      | Inr d \<Rightarrow>
          if isSubgroup d then Inl ErrNotExist
          else Inr (d\<lparr>Users := None, FallbackUsers := None, AuthKeys := None\<rparr>,
                    makeETag (fileSize d) (modTime d)))"

text \<open>
  \<open>DeleteDescription\<close> and \<open>UpdateDescription\<close> return an error or nil, and change
  the file system; the model returns both. The two definitions are the calls from the
  point where they hold the mutex \<open>groups.mu\<close> to their return, as one step; the mutex
  itself follows below.
\<close>

definition DeleteDescription :: "sys \<Rightarrow> env \<Rightarrow> fsys \<Rightarrow> string \<Rightarrow> string \<Rightarrow> error option \<times> fsys" where
  "DeleteDescription s ev fs n etag =
     (case getDescriptionFile s n (os_Stat fs) of
        Inl e \<Rightarrow> (Some e, fs)
      | Inr (fi, fileName, isParent) \<Rightarrow>
          if isParent then (Some ErrNotExist, fs)
          else if etag \<noteq> makeETag (Size fi) (mtime fi) then (Some ErrTagMismatch, fs)
          else (case failRemove ev of
                  Some e \<Rightarrow> (Some (osError e), fs)
                | None \<Rightarrow>
                    (case os_Remove fs fileName of
                       Inl e \<Rightarrow> (Some e, fs)
                     | Inr fs' \<Rightarrow> (None, fs'))))"

text \<open>
  The calls \<open>os.Remove(temp)\<close> of the error paths. The source drops their result: when
  the removal fails the temporary file stays.
\<close>

definition removeTemp :: "env \<Rightarrow> fsys \<Rightarrow> string \<Rightarrow> fsys" where
  "removeTemp ev fs temp =
     (if failRemoveTemp ev then fs
      else (case os_Remove fs temp of Inl e \<Rightarrow> fs | Inr fs' \<Rightarrow> fs'))"

text \<open>
  The second half of \<open>UpdateDescription\<close>, from \<open>os.CreateTemp\<close> to \<open>os.Rename\<close>:
  \<open>writeDescription s ev fs n filename newdesc\<close>.
\<close>

definition writeDescription ::
  "sys \<Rightarrow> env \<Rightarrow> fsys \<Rightarrow> string \<Rightarrow> string \<Rightarrow> Description \<Rightarrow> error option \<times> fsys" where
  "writeDescription s ev fs n filename newdesc =
     (case failCreateTemp ev of
        Some e \<Rightarrow> (Some (osError e), fs)
      | None \<Rightarrow>
        (case os_CreateTemp fs (path_Dir filename) (n @ ''*.temp'') (now ev) (rands ev) of
          Inl e \<Rightarrow> (Some e, fs)
        | Inr (temp, fs1) \<Rightarrow>
            (case encode s newdesc of
               Inl msg \<Rightarrow> (Some (ErrEncode msg), removeTemp ev fs1 temp)
             | Inr b \<Rightarrow>
                 (case failWrite ev of
                    Some (k, e) \<Rightarrow>
                      (Some (osError e),
                       removeTemp ev
                         (fs1(temp := Present \<lparr>bytes = take k b, mtime = now ev, fault = NoFault\<rparr>))
                         temp)
                  | None \<Rightarrow>
                      let fs2 = fs1(temp := Present \<lparr>bytes = b, mtime = now ev, fault = NoFault\<rparr>)
                      in case failSync ev of
                           Some e \<Rightarrow> (Some (osError e), removeTemp ev fs2 temp)
                         | None \<Rightarrow>
                            (case failClose ev of
                               Some e \<Rightarrow> (Some (osError e), removeTemp ev fs2 temp)
                             | None \<Rightarrow>
                                (case failRename ev of
                                   Some e \<Rightarrow> (Some (osError e), removeTemp ev fs2 temp)
                                 | None \<Rightarrow>
                                    (case os_Rename fs2 temp filename of
                                       Inl e \<Rightarrow> (Some e, removeTemp ev fs2 temp)
                                     | Inr fs3 \<Rightarrow> (None, fs3))))))))"

definition UpdateDescription ::
  "sys \<Rightarrow> env \<Rightarrow> fsys \<Rightarrow> string \<Rightarrow> string \<Rightarrow> Description \<Rightarrow> error option \<times> fsys" where
  "UpdateDescription s ev fs n etag desc =
     (if Users desc \<noteq> None \<or> FallbackUsers desc \<noteq> None \<or> AuthKeys desc \<noteq> None
      then (Some ErrNotSanitised, fs)
      else
        case readDescription s fs n of
          Inr old \<Rightarrow>
            if makeETag (fileSize old) (modTime old) \<noteq> etag then (Some ErrTagMismatch, fs)
            else writeDescription s ev fs n (FileName old)
                   (desc\<lparr>Users := Users old, FallbackUsers := FallbackUsers old,
                         AuthKeys := AuthKeys old\<rparr>)
        | Inl e \<Rightarrow>
            if os_IsNotExist e then
              (if '''' \<noteq> etag then (Some ErrTagMismatch, fs)
               else writeDescription s ev fs n
                      (filepath_Join (Directory s) (path_Clean (''/'' @ n) @ ''.json'')) desc)
            else (Some e, fs))"

text \<open>
  The mutex \<open>groups.mu\<close>. The store is the file system and the mutex; \<open>Lock\<close> does not
  return while another call holds the mutex, which is the value \<open>None\<close> here. A call of
  \<open>DeleteDescription\<close> locks, does all its work, and unlocks on return.
  \<open>UpdateDescription\<close> tests the description before it locks.
\<close>

record store =
  files :: fsys
  mu :: bool

definition mu_Lock :: "store \<Rightarrow> store option" where
  "mu_Lock st = (if mu st then None else Some (st\<lparr>mu := True\<rparr>))"

definition mu_Unlock :: "store \<Rightarrow> store" where
  "mu_Unlock st = st\<lparr>mu := False\<rparr>"

definition DeleteDescription_call ::
  "sys \<Rightarrow> env \<Rightarrow> store \<Rightarrow> string \<Rightarrow> string \<Rightarrow> (error option \<times> store) option" where
  "DeleteDescription_call s ev st n etag =
     (case mu_Lock st of
        None \<Rightarrow> None
      | Some st1 \<Rightarrow>
          let r = DeleteDescription s ev (files st1) n etag
          in Some (fst r, mu_Unlock (st1\<lparr>files := snd r\<rparr>)))"

definition UpdateDescription_call ::
  "sys \<Rightarrow> env \<Rightarrow> store \<Rightarrow> string \<Rightarrow> string \<Rightarrow> Description \<Rightarrow> (error option \<times> store) option" where
  "UpdateDescription_call s ev st n etag desc =
     (if Users desc \<noteq> None \<or> FallbackUsers desc \<noteq> None \<or> AuthKeys desc \<noteq> None
      then Some (Some ErrNotSanitised, st)
      else
        (case mu_Lock st of
           None \<Rightarrow> None
         | Some st1 \<Rightarrow>
             let r = UpdateDescription s ev (files st1) n etag desc
             in Some (fst r, mu_Unlock (st1\<lparr>files := snd r\<rparr>))))"

subsection \<open>Example values\<close>



definition docAuto :: string where
  "docAuto = ''{\"description\":\"Main room\",\"public\":true,\"auto-subgroups\":true}''"

definition docLegacy :: string where
  "docLegacy = ''{\"allow-subgroups\":true}''"

definition docRoom :: string where
  "docRoom = ''{\"displayName\":\"Room\"}''"

definition docUsers :: string where
  "docUsers =
     ''{\"displayName\":\"Room\",\"users\":{\"jch\":{\"password\":\"topsecret\",\"permissions\":\"op\"}}}''"

definition docHall :: string where
  "docHall =
     ''{\"displayName\":\"Hall\",\"users\":{\"jch\":{\"password\":\"topsecret\",\"permissions\":\"op\"}}}''"

definition docOp :: string where
  "docOp = ''{\"op\":[{\"username\":\"jch\",\"password\":\"topsecret\"}]}''"

definition newline :: string where
  "newline = [CHR 0x0A]"

definition jchUsers :: "(string, UserDescription) fmap" where
  "jchUsers =
     fmupd ''jch'' \<lparr>Password = \<lparr>Type = ''plain'', credential = ''topsecret''\<rparr>,
                     Permissions = \<lparr>name = ''op'', permissions = None\<rparr>\<rparr> fmempty"

definition chomp :: "string \<Rightarrow> string" where
  "chomp b = (if b \<noteq> '''' \<and> last b = CHR 0x0A then butlast b else b)"

definition exampleDecode :: "string \<Rightarrow> string + Description" where
  "exampleDecode b =
     (if chomp b = docAuto
        then Inr (zeroDescription\<lparr>Description := ''Main room'', Public := True,
                                  AutoSubgroups := True\<rparr>)
      else if chomp b = docLegacy then Inr (zeroDescription\<lparr>AllowSubgroups := True\<rparr>)
      else if chomp b = docRoom then Inr (zeroDescription\<lparr>DisplayName := ''Room''\<rparr>)
      else if chomp b = docUsers
        then Inr (zeroDescription\<lparr>DisplayName := ''Room'', Users := Some jchUsers\<rparr>)
      else if chomp b = docHall
        then Inr (zeroDescription\<lparr>DisplayName := ''Hall'', Users := Some jchUsers\<rparr>)
      else if chomp b = docOp
        then Inr (zeroDescription
               \<lparr>Op := Some [\<lparr>Username = ''jch'',
                     Password = Some \<lparr>Type = ''plain'', credential = ''topsecret''\<rparr>\<rparr>]\<rparr>)
      else Inl ''invalid character'')"

definition exampleEncode :: "Description \<Rightarrow> string + string" where
  "exampleEncode d =
     (if DisplayName d = '''' then Inl ''unsupported value''
      else if d\<lparr>FileName := '''', modTime := 0, fileSize := 0, isSubgroup := False\<rparr> =
              zeroDescription\<lparr>DisplayName := DisplayName d\<rparr>
        then Inr (''{\"displayName\":\"'' @ DisplayName d @ ''\"}'' @ newline)
      else if d\<lparr>FileName := '''', modTime := 0, fileSize := 0, isSubgroup := False\<rparr> =
              zeroDescription\<lparr>DisplayName := DisplayName d, Users := Some jchUsers\<rparr>
        then Inr (''{\"displayName\":\"'' @ DisplayName d @
                  ''\",\"users\":{\"jch\":{\"password\":\"topsecret\",\"permissions\":\"op\"}}}'' @
                  newline)
      else Inl ''unsupported value'')"

definition exampleSys :: sys where
  "exampleSys = \<lparr>Directory = ''groups'', decode = exampleDecode, encode = exampleEncode\<rparr>"

definition plainFile :: "string \<Rightarrow> int \<Rightarrow> pathState" where
  "plainFile b t = Present \<lparr>bytes = b, mtime = t, fault = NoFault\<rparr>"

definition fsAuto :: fsys where
  "fsAuto = noFiles(''groups/group.json'' := plainFile docAuto 100)"

definition fsLegacy :: fsys where
  "fsLegacy = noFiles(''groups/group.json'' := plainFile docLegacy 100)"

definition fsBoth :: fsys where
  "fsBoth = noFiles(''groups/group.json'' := plainFile docAuto 100,
                    ''groups/group/subgroup.json'' := plainFile docRoom 200)"

definition fsUsers :: fsys where
  "fsUsers = noFiles(''groups/room.json'' := plainFile docUsers 100)"

definition fsHall :: fsys where
  "fsHall = noFiles(''groups/room.json'' := plainFile (docHall @ newline) 300)"

definition fsSame :: fsys where
  "fsSame = noFiles(''groups/room.json'' := plainFile (docUsers @ newline) 300)"

definition fsOp :: fsys where
  "fsOp = noFiles(''groups/room.json'' := plainFile docOp 100)"

definition fsBad :: fsys where
  "fsBad = noFiles(''groups/room.json'' := plainFile ''{'' 100)"

definition quietEnv :: env where
  "quietEnv = \<lparr>now = 300, rands = [7], failCreateTemp = None, failWrite = None,
               failSync = None, failClose = None, failRename = None,
               failRemoveTemp = False, failRemove = None\<rparr>"

text \<open>A codec of passwords for the examples: a plain password is written as its string.\<close>

definition examplePw :: pwcodec where
  "examplePw =
     \<lparr>encPassword = (\<lambda>p. if Type p = ''plain'' then JStr (credential p)
                          else JObj [(''type'', JStr (Type p))]),
      decPassword = (\<lambda>v. case v of
                        JStr s \<Rightarrow> Inr \<lparr>Type = ''plain'', credential = s\<rparr>
                      | JObj [(k, JStr t)] \<Rightarrow>
                          if k = ''type'' then Inr \<lparr>Type = t, credential = ''''\<rparr>
                          else Inl ''unknown field''
                      | _ \<Rightarrow> Inl ''invalid password'')\<rparr>"

section \<open>Properties\<close>

subsection \<open>Resolution of permissions\<close>

lemma Permissions_named:
  "map_of permissionsMap role = Some base \<Longrightarrow>
     Permissions_Permissions \<lparr>name = role, permissions = ps\<rparr> (Some d) =
       Some ((if UnrestrictedTokens d \<and> ''present'' \<in> set base \<and> ''token'' \<notin> set base
              then [''token''] else []) @
             (if AllowRecording d \<and> ''op'' \<in> set base \<and> ''record'' \<notin> set base
              then [''record''] else []) @ base)"
  by (auto simp add: Permissions_Permissions_def permissionsMap_def elems_def Let_def
      split: if_splits)

lemma Permissions_named_nil:
  "map_of permissionsMap role = Some base \<Longrightarrow>
     Permissions_Permissions \<lparr>name = role, permissions = ps\<rparr> None = Some base"
  by (auto simp add: Permissions_Permissions_def permissionsMap_def elems_def Let_def
      split: if_splits)

text \<open>
  C4. An unnamed value resolves to its own list, whatever the list holds and whatever
  the flags of the group are. A named role resolves to its entry of the table, with
  \<open>record\<close> put in front exactly when the entry has \<open>op\<close> but not \<open>record\<close> and the
  group allows recording, and \<open>token\<close> put in front exactly when the entry has
  \<open>present\<close> but not \<open>token\<close> and the group has unrestricted tokens; each test reads the
  entry of the table, so neither depends on the other. Hence \<open>op\<close> gives op, present,
  token and gains record under \<open>AllowRecording\<close>, \<open>present\<close> gains token under
  \<open>UnrestrictedTokens\<close>, and \<open>observe\<close> gives the empty list under all flags.
\<close>

theorem Permissions_resolve:
  "(name p = '''' \<longrightarrow> Permissions_Permissions p desc = permissions p) \<and>
   (\<forall>role base ps d. map_of permissionsMap role = Some base \<longrightarrow>
      Permissions_Permissions \<lparr>name = role, permissions = ps\<rparr> (Some d) =
        Some ((if UnrestrictedTokens d \<and> ''present'' \<in> set base \<and> ''token'' \<notin> set base
               then [''token''] else []) @
              (if AllowRecording d \<and> ''op'' \<in> set base \<and> ''record'' \<notin> set base
               then [''record''] else []) @ base)) \<and>
   (\<forall>role base ps. map_of permissionsMap role = Some base \<longrightarrow>
      Permissions_Permissions \<lparr>name = role, permissions = ps\<rparr> None = Some base) \<and>
   Permissions_Permissions \<lparr>name = ''op'', permissions = qs\<rparr> (Some g) =
     Some ((if AllowRecording g then [''record''] else []) @ [''op'', ''present'', ''token'']) \<and>
   Permissions_Permissions \<lparr>name = ''present'', permissions = qs\<rparr> (Some g) =
     Some ((if UnrestrictedTokens g then [''token''] else []) @ [''present'']) \<and>
   Permissions_Permissions \<lparr>name = ''observe'', permissions = qs\<rparr> (Some g) = Some []"
proof -
  have explicit: "name p = '''' \<longrightarrow> Permissions_Permissions p desc = permissions p"
    by (simp add: Permissions_Permissions_def)
  have opE: "map_of permissionsMap ''op'' = Some [''op'', ''present'', ''token'']"
    and prE: "map_of permissionsMap ''present'' = Some [''present'']"
    and obE: "map_of permissionsMap ''observe'' = Some []"
    by (simp_all add: permissionsMap_def)
  show ?thesis
    using explicit Permissions_named [OF opE, of qs g] Permissions_named [OF prE, of qs g]
      Permissions_named [OF obE, of qs g]
    by (simp add: Permissions_named Permissions_named_nil)
qed

theorem Permissions_resolve_witness:
  "name \<lparr>name = '''', permissions = Some [''op'', ''present'']\<rparr> = '''' \<and>
   Permissions_Permissions \<lparr>name = '''', permissions = Some [''op'', ''present'']\<rparr>
     (Some (zeroDescription\<lparr>AllowRecording := True, UnrestrictedTokens := True\<rparr>)) =
       Some [''op'', ''present''] \<and>
   map_of permissionsMap ''op'' = Some [''op'', ''present'', ''token''] \<and>
   Permissions_Permissions \<lparr>name = ''op'', permissions = None\<rparr>
     (Some (zeroDescription\<lparr>AllowRecording := True\<rparr>)) =
       Some [''record'', ''op'', ''present'', ''token''] \<and>
   map_of permissionsMap ''present'' = Some [''present''] \<and>
   Permissions_Permissions \<lparr>name = ''present'', permissions = None\<rparr>
     (Some (zeroDescription\<lparr>UnrestrictedTokens := True\<rparr>)) = Some [''token'', ''present''] \<and>
   Permissions_Permissions \<lparr>name = ''present'', permissions = None\<rparr> None = Some [''present'']"
proof -
  have opE: "map_of permissionsMap ''op'' = Some [''op'', ''present'', ''token'']"
    and prE: "map_of permissionsMap ''present'' = Some [''present'']"
    by (simp_all add: permissionsMap_def)
  show ?thesis
    using opE prE
      Permissions_resolve [of "\<lparr>name = '''', permissions = Some [''op'', ''present'']\<rparr>"
        "Some (zeroDescription\<lparr>AllowRecording := True, UnrestrictedTokens := True\<rparr>)"
        None "zeroDescription"]
    by (simp add: zeroDescription_def)
qed

subsection \<open>Migration\<close>

lemma upgradeUsers_fields [simp]:
  "Op (upgradeUsers d ps p) = Op d"
  "Presenter (upgradeUsers d ps p) = Presenter d"
  "Other (upgradeUsers d ps p) = Other d"
  "AllowSubgroups (upgradeUsers d ps p) = AllowSubgroups d"
  "AllowAnonymous (upgradeUsers d ps p) = AllowAnonymous d"
  by (simp_all add: upgradeUsers_def Let_def)

lemma upgradeDescription_obsolete:
  "AllowAnonymous (upgradeDescription d) = False"
  "AllowSubgroups (upgradeDescription d) = False"
  "Op (upgradeDescription d) = None"
  "Presenter (upgradeDescription d) = None"
  "Other (upgradeDescription d) = None"
  by (simp_all add: upgradeDescription_def Let_def split: option.splits)

lemma upgradeDescription_fixpoint:
  "\<not> AllowAnonymous d \<Longrightarrow> \<not> AllowSubgroups d \<Longrightarrow> Op d = None \<Longrightarrow> Presenter d = None \<Longrightarrow>
   Other d = None \<Longrightarrow> upgradeDescription d = d"
  by (simp add: upgradeDescription_def Let_def)

text \<open>
  C7. The migration is idempotent: after one application the three obsolete lists are
  nil and the two obsolete flags are false, and a description in that state is left as
  it is, so that a second application changes nothing.
\<close>

theorem upgradeDescription_idempotent:
  "upgradeDescription (upgradeDescription d) = upgradeDescription d \<and>
   Op (upgradeDescription d) = None \<and> Presenter (upgradeDescription d) = None \<and>
   Other (upgradeDescription d) = None \<and>
   AllowSubgroups (upgradeDescription d) = False \<and>
   AllowAnonymous (upgradeDescription d) = False"
  by (simp add: upgradeDescription_obsolete upgradeDescription_fixpoint)











lemma usersLookup_obsolete [simp]:
  "usersLookup (d\<lparr>Op := x\<rparr>) k = usersLookup d k"
  "usersLookup (d\<lparr>Presenter := x\<rparr>) k = usersLookup d k"
  "usersLookup (d\<lparr>Other := x\<rparr>) k = usersLookup d k"
  "usersLookup (d\<lparr>AllowAnonymous := b\<rparr>) k = usersLookup d k"
  "usersLookup (d\<lparr>AllowSubgroups := b\<rparr>) k = usersLookup d k"
  "usersLookup (d\<lparr>AutoSubgroups := b\<rparr>) k = usersLookup d k"
  by (simp_all add: usersLookup_def)











lemma FallbackUsers_obsolete [simp]:
  "FallbackUsers (d\<lparr>Op := x\<rparr>) = FallbackUsers d"
  "FallbackUsers (d\<lparr>Presenter := x\<rparr>) = FallbackUsers d"
  "FallbackUsers (d\<lparr>Other := x\<rparr>) = FallbackUsers d"
  by simp_all








subsection \<open>Reading a description\<close>

lemma parentName_Nil [simp]: "parentName '''' = ''''"
  by (simp add: parentName_def path_Split_def strings_TrimRight_def)

lemma funpow_parentName_Nil [simp]: "(parentName ^^ k) '''' = ''''"
  by (induction k) simp_all

lemma funpow_parentName_nonempty:
  "(parentName ^^ k) n \<noteq> '''' \<Longrightarrow> j \<le> k \<Longrightarrow> (parentName ^^ j) n \<noteq> ''''"
proof
  assume a: "(parentName ^^ k) n \<noteq> ''''" "j \<le> k" and b: "(parentName ^^ j) n = ''''"
  have "(parentName ^^ k) n = (parentName ^^ (k - j)) ((parentName ^^ j) n)"
    using a(2) funpow_add [of "k - j" j parentName] by simp
  then show False using a(1) b by simp
qed

lemma getDescriptionFileFrom_found:
  "n \<noteq> '''' \<Longrightarrow> get (descriptionFileName s n) = Inr r \<Longrightarrow>
   getDescriptionFileFrom s get b n = Inr (r, descriptionFileName s n, b)"
  by (subst getDescriptionFileFrom.simps) (simp add: Let_def)

lemma getDescriptionFileFrom_missing:
  "n \<noteq> '''' \<Longrightarrow> get (descriptionFileName s n) = Inl ErrNotExist \<Longrightarrow>
   getDescriptionFileFrom s get b n = getDescriptionFileFrom s get True (parentName n)"
  by (subst getDescriptionFileFrom.simps) (simp add: Let_def os_IsNotExist_def)

lemma getDescriptionFileFrom_walk:
  "0 < k \<Longrightarrow> (parentName ^^ k) n \<noteq> '''' \<Longrightarrow>
   \<forall>j < k. get (descriptionFileName s ((parentName ^^ j) n)) = Inl ErrNotExist \<Longrightarrow>
   getDescriptionFileFrom s get b n = getDescriptionFileFrom s get True ((parentName ^^ k) n)"
proof (induction k arbitrary: n b)
  case 0
  then show ?case by simp
next
  case (Suc k)
  have n: "n \<noteq> ''''"
    using funpow_parentName_nonempty [OF Suc.prems(2), of 0] by simp
  have g0: "get (descriptionFileName s n) = Inl ErrNotExist"
    using Suc.prems(3) by (metis funpow_0 zero_less_Suc)
  have step: "getDescriptionFileFrom s get b n = getDescriptionFileFrom s get True (parentName n)"
    using n g0 by (rule getDescriptionFileFrom_missing)
  show ?case
  proof (cases "k = 0")
    case True
    then show ?thesis using step by simp
  next
    case False
    have a: "(parentName ^^ k) (parentName n) \<noteq> ''''"
      using Suc.prems(2) by (simp add: funpow_swap1)
    have b: "\<forall>j < k. get (descriptionFileName s ((parentName ^^ j) (parentName n))) = Inl ErrNotExist"
    proof (intro allI impI)
      fix j assume "j < k"
      then have "Suc j < Suc k" by simp
      then have "get (descriptionFileName s ((parentName ^^ Suc j) n)) = Inl ErrNotExist"
        using Suc.prems(3) by blast
      then show "get (descriptionFileName s ((parentName ^^ j) (parentName n))) = Inl ErrNotExist"
        by (simp add: funpow_swap1)
    qed
    have "getDescriptionFileFrom s get True (parentName n) =
          getDescriptionFileFrom s get True ((parentName ^^ k) (parentName n))"
      using Suc.IH [of "parentName n" True] False a b by simp
    then show ?thesis using step by (simp add: funpow_swap1)
  qed
qed

lemma getDescriptionFileFrom_none:
  "\<forall>j. (parentName ^^ j) n \<noteq> '''' \<longrightarrow>
        get (descriptionFileName s ((parentName ^^ j) n)) = Inl ErrNotExist \<Longrightarrow>
   getDescriptionFileFrom s get b n = Inl ErrNotExist"
proof (induction s get b n rule: getDescriptionFileFrom.induct)
  case (1 s get isParent n)
  show ?case
  proof (cases "n = ''''")
    case True
    then show ?thesis by (subst getDescriptionFileFrom.simps) simp
  next
    case False
    have g0: "get (descriptionFileName s n) = Inl ErrNotExist"
      using "1.prems" False by (metis funpow_0)
    have rest: "\<forall>j. (parentName ^^ j) (parentName n) \<noteq> '''' \<longrightarrow>
        get (descriptionFileName s ((parentName ^^ j) (parentName n))) = Inl ErrNotExist"
    proof (intro allI impI)
      fix j assume "(parentName ^^ j) (parentName n) \<noteq> ''''"
      then have "(parentName ^^ Suc j) n \<noteq> ''''" by (simp add: funpow_swap1)
      then have "get (descriptionFileName s ((parentName ^^ Suc j) n)) = Inl ErrNotExist"
        using "1.prems" by blast
      then show "get (descriptionFileName s ((parentName ^^ j) (parentName n))) = Inl ErrNotExist"
        by (simp add: funpow_swap1)
    qed
    have "getDescriptionFileFrom s get True (parentName n) = Inl ErrNotExist"
      using "1.IH" [OF False refl g0] rest by (simp add: os_IsNotExist_def)
    then show ?thesis using getDescriptionFileFrom_missing [of n get s isParent] False g0 by simp
  qed
qed


lemma getDescriptionFileFrom_error:
  "n \<noteq> '''' \<Longrightarrow> get (descriptionFileName s n) = Inl e \<Longrightarrow> e \<noteq> ErrNotExist \<Longrightarrow>
   getDescriptionFileFrom s get b n = Inl e"
  by (subst getDescriptionFileFrom.simps) (simp add: Let_def os_IsNotExist_def)

lemma os_Open_Missing: "fs p = Missing \<Longrightarrow> os_Open fs p = Inl ErrNotExist"
  by (simp add: os_Open_def)

lemma os_Open_Failing: "fs p = Failing m \<Longrightarrow> os_Open fs p = Inl (ErrOther m)"
  by (simp add: os_Open_def)

lemma os_Open_Present:
  "fs p = Present f \<Longrightarrow>
   os_Open fs p = (case fault f of OpenFails m \<Rightarrow> Inl (ErrOther m) | _ \<Rightarrow> Inr f)"
  by (simp add: os_Open_def)

lemma os_Stat_Missing: "fs p = Missing \<Longrightarrow> os_Stat fs p = Inl ErrNotExist"
  by (simp add: os_Stat_def)

lemma os_Stat_Failing: "fs p = Failing m \<Longrightarrow> os_Stat fs p = Inl (ErrOther m)"
  by (simp add: os_Stat_def)

lemma os_Stat_Present: "fs p = Present f \<Longrightarrow> os_Stat fs p = Inr f"
  by (simp add: os_Stat_def)

lemma getDescriptionFile_at:
  assumes "(parentName ^^ k) n \<noteq> ''''"
    "\<forall>j < k. get (descriptionFileName s ((parentName ^^ j) n)) = Inl ErrNotExist"
  shows "getDescriptionFile s n get =
         getDescriptionFileFrom s get (0 < k) ((parentName ^^ k) n)"
proof (cases "k = 0")
  case True
  then show ?thesis by (simp add: getDescriptionFile_def)
next
  case False
  then have "0 < k" by simp
  from getDescriptionFileFrom_walk [OF this assms(1) assms(2), of False] \<open>0 < k\<close>
  show ?thesis by (simp add: getDescriptionFile_def)
qed

lemma getDescriptionFile_own:
  "n \<noteq> '''' \<Longrightarrow> get (descriptionFileName s n) = Inr r \<Longrightarrow>
   getDescriptionFile s n get = Inr (r, descriptionFileName s n, False)"
  by (simp add: getDescriptionFile_def getDescriptionFileFrom_found)

lemma getDescriptionFile_found:
  assumes "(parentName ^^ k) n \<noteq> ''''"
    "\<forall>j < k. get (descriptionFileName s ((parentName ^^ j) n)) = Inl ErrNotExist"
    "get (descriptionFileName s ((parentName ^^ k) n)) = Inr r"
  shows "getDescriptionFile s n get =
         Inr (r, descriptionFileName s ((parentName ^^ k) n), 0 < k)"
  using getDescriptionFile_at [OF assms(1) assms(2)] assms
    getDescriptionFileFrom_found [of "(parentName ^^ k) n" get s r "0 < k"]
  by simp

lemma getDescriptionFile_error:
  assumes "(parentName ^^ k) n \<noteq> ''''"
    "\<forall>j < k. get (descriptionFileName s ((parentName ^^ j) n)) = Inl ErrNotExist"
    "get (descriptionFileName s ((parentName ^^ k) n)) = Inl e" "e \<noteq> ErrNotExist"
  shows "getDescriptionFile s n get = Inl e"
  using getDescriptionFile_at [OF assms(1) assms(2)] assms
    getDescriptionFileFrom_error [of "(parentName ^^ k) n" get s e "0 < k"]
  by simp

lemma getDescriptionFile_none:
  "\<forall>j. (parentName ^^ j) n \<noteq> '''' \<longrightarrow>
        get (descriptionFileName s ((parentName ^^ j) n)) = Inl ErrNotExist \<Longrightarrow>
   getDescriptionFile s n get = Inl ErrNotExist"
  by (simp add: getDescriptionFile_def getDescriptionFileFrom_none)

lemma upgradeUsers_subgroup:
  "upgradeUsers (d\<lparr>isSubgroup := a, Public := b, Description := c\<rparr>) ps p =
   (upgradeUsers d ps p)\<lparr>isSubgroup := a, Public := b, Description := c\<rparr>"
  by (cases d) (simp add: upgradeUsers_def Let_def)

lemma upgradeDescription_subgroup:
  "upgradeDescription (d\<lparr>isSubgroup := a, Public := b, Description := c\<rparr>) =
   (upgradeDescription d)\<lparr>isSubgroup := a, Public := b, Description := c\<rparr>"
proof -
  define d1 where "d1 = (if AllowAnonymous d then d\<lparr>AllowAnonymous := False\<rparr> else d)"
  define d2 where "d2 = (if AllowSubgroups d1
                then d1\<lparr>AutoSubgroups := True, AllowSubgroups := False\<rparr> else d1)"
  define d3 where "d3 = (case Op d2 of None \<Rightarrow> d2
                | Some ps \<Rightarrow> (upgradeUsers d2 ps ''op'')\<lparr>Op := None\<rparr>)"
  define d4 where "d4 = (case Presenter d3 of None \<Rightarrow> d3
                | Some ps \<Rightarrow> (upgradeUsers d3 ps ''present'')\<lparr>Presenter := None\<rparr>)"
  define d5 where "d5 = (case Other d4 of None \<Rightarrow> d4
                | Some ps \<Rightarrow> (upgradeUsers d4 ps ''observe'')\<lparr>Other := None\<rparr>)"
  let ?S = "\<lambda>x. x\<lparr>isSubgroup := a, Public := b, Description := c\<rparr>"
  have u: "upgradeDescription d = d5"
    unfolding upgradeDescription_def Let_def d5_def d4_def d3_def d2_def d1_def ..
  have e1: "(if AllowAnonymous (?S d) then (?S d)\<lparr>AllowAnonymous := False\<rparr> else ?S d) = ?S d1"
    by (cases d) (simp add: d1_def)
  have e2: "(if AllowSubgroups (?S d1)
       then (?S d1)\<lparr>AutoSubgroups := True, AllowSubgroups := False\<rparr> else ?S d1) = ?S d2"
    by (cases d1) (simp add: d2_def)
  have e3: "(case Op (?S d2) of None \<Rightarrow> ?S d2
       | Some ps \<Rightarrow> (upgradeUsers (?S d2) ps ''op'')\<lparr>Op := None\<rparr>) = ?S d3"
    by (cases "Op d2") (simp_all add: d3_def upgradeUsers_subgroup)
  have e4: "(case Presenter (?S d3) of None \<Rightarrow> ?S d3
       | Some ps \<Rightarrow> (upgradeUsers (?S d3) ps ''present'')\<lparr>Presenter := None\<rparr>) = ?S d4"
    by (cases "Presenter d3") (simp_all add: d4_def upgradeUsers_subgroup)
  have e5: "(case Other (?S d4) of None \<Rightarrow> ?S d4
       | Some ps \<Rightarrow> (upgradeUsers (?S d4) ps ''observe'')\<lparr>Other := None\<rparr>) = ?S d5"
    by (cases "Other d4") (simp_all add: d5_def upgradeUsers_subgroup)
  have "upgradeDescription (?S d) = ?S d5"
    unfolding upgradeDescription_def Let_def e1 e2 e3 e4 e5 ..
  then show ?thesis using u by simp
qed

lemma subgroup_updates_reorder:
  "d\<lparr>isSubgroup := a, Public := b, Description := c, FileName := x, fileSize := y, modTime := z\<rparr> =
   d\<lparr>FileName := x, fileSize := y, modTime := z, isSubgroup := a, Public := b, Description := c\<rparr>"
  by (cases d) simp

lemma readDescription_found:
  assumes "(parentName ^^ k) n \<noteq> ''''"
    "\<forall>j < k. fs (descriptionFileName s ((parentName ^^ j) n)) = Missing"
    "fs (descriptionFileName s ((parentName ^^ k) n)) = Present f" "fault f = NoFault"
  shows "readDescription s fs n =
     (case decode s (bytes f) of
        Inl msg \<Rightarrow> Inl (ErrDecode msg)
      | Inr d \<Rightarrow>
          if 0 < k \<and> \<not> AutoSubgroups d then Inl ErrNotExist
          else if 0 < k
            then Inr ((upgradeDescription
              (d\<lparr>FileName := descriptionFileName s ((parentName ^^ k) n),
                 fileSize := Size f, modTime := mtime f\<rparr>))
                \<lparr>isSubgroup := True, Public := False, Description := ''''\<rparr>)
            else Inr (upgradeDescription
              (d\<lparr>FileName := descriptionFileName s ((parentName ^^ k) n),
                 fileSize := Size f, modTime := mtime f\<rparr>)))"
proof -
  have m: "\<forall>j < k. os_Open fs (descriptionFileName s ((parentName ^^ j) n)) = Inl ErrNotExist"
    using assms(2) by (simp add: os_Open_Missing)
  have o: "os_Open fs (descriptionFileName s ((parentName ^^ k) n)) = Inr f"
    using assms(3,4) by (simp add: os_Open_Present)
  have g: "getDescriptionFile s n (os_Open fs) =
           Inr (f, descriptionFileName s ((parentName ^^ k) n), 0 < k)"
    using assms(1) m o by (rule getDescriptionFile_found)
  show ?thesis
    unfolding readDescription_def g
    using assms(4)
    by (simp add: File_Stat_def File_Decode_def Let_def subgroup_updates_reorder
        upgradeDescription_subgroup split: sum.splits)
qed

lemma readDescription_own:
  assumes "n \<noteq> ''''" "fs (descriptionFileName s n) = Present f" "fault f = NoFault"
  shows "readDescription s fs n =
     (case decode s (bytes f) of
        Inl msg \<Rightarrow> Inl (ErrDecode msg)
      | Inr d \<Rightarrow> Inr (upgradeDescription
          (d\<lparr>FileName := descriptionFileName s n, fileSize := Size f, modTime := mtime f\<rparr>)))"
  using readDescription_found [of 0 n fs s f] assms by (simp split: sum.splits)

lemma readDescription_ancestor:
  assumes "0 < k" "(parentName ^^ k) n \<noteq> ''''"
    "\<forall>j < k. fs (descriptionFileName s ((parentName ^^ j) n)) = Missing"
    "fs (descriptionFileName s ((parentName ^^ k) n)) = Present f" "fault f = NoFault"
  shows "readDescription s fs n =
     (case decode s (bytes f) of
        Inl msg \<Rightarrow> Inl (ErrDecode msg)
      | Inr d \<Rightarrow>
          if \<not> AutoSubgroups d then Inl ErrNotExist
          else Inr ((upgradeDescription
            (d\<lparr>FileName := descriptionFileName s ((parentName ^^ k) n),
               fileSize := Size f, modTime := mtime f\<rparr>))
              \<lparr>isSubgroup := True, Public := False, Description := ''''\<rparr>))"
  using readDescription_found [of k n fs s f] assms by (simp split: sum.splits)

lemma readDescription_failing:
  assumes "(parentName ^^ k) n \<noteq> ''''"
    "\<forall>j < k. fs (descriptionFileName s ((parentName ^^ j) n)) = Missing"
    "fs (descriptionFileName s ((parentName ^^ k) n)) = Failing m"
  shows "readDescription s fs n = Inl (ErrOther m)"
proof -
  have m: "\<forall>j < k. os_Open fs (descriptionFileName s ((parentName ^^ j) n)) = Inl ErrNotExist"
    using assms(2) by (simp add: os_Open_Missing)
  have o: "os_Open fs (descriptionFileName s ((parentName ^^ k) n)) = Inl (ErrOther m)"
    using assms(3) by (simp add: os_Open_Failing)
  have "getDescriptionFile s n (os_Open fs) = Inl (ErrOther m)"
    using assms(1) m o by (rule getDescriptionFile_error) simp
  then show ?thesis by (simp add: readDescription_def)
qed

lemma readDescription_faulty:
  assumes "(parentName ^^ k) n \<noteq> ''''"
    "\<forall>j < k. fs (descriptionFileName s ((parentName ^^ j) n)) = Missing"
    "fs (descriptionFileName s ((parentName ^^ k) n)) = Present f"
    "fault f = OpenFails m \<or> fault f = FstatFails m \<or> fault f = ReadFails m"
  shows "readDescription s fs n = Inl (ErrOther m)"
proof -
  have mm: "\<forall>j < k. os_Open fs (descriptionFileName s ((parentName ^^ j) n)) = Inl ErrNotExist"
    using assms(2) by (simp add: os_Open_Missing)
  show ?thesis
  proof (cases "fault f = OpenFails m")
    case True
    have o: "os_Open fs (descriptionFileName s ((parentName ^^ k) n)) = Inl (ErrOther m)"
      using assms(3) True by (simp add: os_Open_Present)
    have "getDescriptionFile s n (os_Open fs) = Inl (ErrOther m)"
      using assms(1) mm o by (rule getDescriptionFile_error) simp
    then show ?thesis by (simp add: readDescription_def)
  next
    case False
    then have f: "fault f = FstatFails m \<or> fault f = ReadFails m" using assms(4) by simp
    have o: "os_Open fs (descriptionFileName s ((parentName ^^ k) n)) = Inr f"
      using assms(3) f by (auto simp: os_Open_Present)
    have g: "getDescriptionFile s n (os_Open fs) =
           Inr (f, descriptionFileName s ((parentName ^^ k) n), 0 < k)"
      using assms(1) mm o by (rule getDescriptionFile_found)
    show ?thesis
      unfolding readDescription_def g using f
      by (auto simp: File_Stat_def File_Decode_def)
  qed
qed

lemma readDescription_none:
  assumes "\<forall>j. (parentName ^^ j) n \<noteq> '''' \<longrightarrow>
             fs (descriptionFileName s ((parentName ^^ j) n)) = Missing"
  shows "readDescription s fs n = Inl ErrNotExist"
proof -
  have "\<forall>j. (parentName ^^ j) n \<noteq> '''' \<longrightarrow>
          os_Open fs (descriptionFileName s ((parentName ^^ j) n)) = Inl ErrNotExist"
    using assms by (simp add: os_Open_Missing)
  from getDescriptionFile_none [OF this] show ?thesis
    by (simp add: readDescription_def)
qed

lemma example_names:
  "parentName ''group/subgroup'' = ''group''"
  "parentName ''group'' = ''''"
  "descriptionFileName exampleSys ''group/subgroup'' = ''groups/group/subgroup.json''"
  "descriptionFileName exampleSys ''group'' = ''groups/group.json''"
  by (simp_all add: parentName_def path_Split_def strings_TrimRight_def descriptionFileName_def
      exampleSys_def path_Clean_def Let_def filepath_Join_def)



text \<open>
  C6. The claim is that a file which sets only the obsolete \<open>allow-subgroups\<close> serves
  its subgroups, the flag being translated on load. \<open>readDescription\<close> tests
  \<open>AutoSubgroups\<close> before it calls \<open>upgradeDescription\<close>: with the one file
  \<open>groups/group.json\<close> holding \<open>{"allow-subgroups":true}\<close>, the group itself is read
  with \<open>AutoSubgroups\<close> set, and the read of \<open>group/subgroup\<close> fails with
  \<open>ErrNotExist\<close>.
\<close>

theorem readDescription_obsolete_flag:
  "readDescription exampleSys fsLegacy ''group'' =
     Inr (zeroDescription\<lparr>AutoSubgroups := True, FileName := ''groups/group.json'',
            fileSize := 24, modTime := 100\<rparr>) \<and>
   readDescription exampleSys fsLegacy ''group/subgroup'' = Inl ErrNotExist"
proof -
  let ?f = "\<lparr>bytes = docLegacy, mtime = 100, fault = NoFault\<rparr>"
  let ?d = "zeroDescription\<lparr>AllowSubgroups := True\<rparr>"
  have p: "(parentName ^^ 1) ''group/subgroup'' = ''group''"
    by (simp add: example_names)
  have m: "\<forall>j < (1::nat). fsLegacy (descriptionFileName exampleSys ((parentName ^^ j) ''group/subgroup'')) = Missing"
    by (simp add: example_names fsLegacy_def noFiles_def)
  have a: "fsLegacy (descriptionFileName exampleSys ''group'') = Present ?f"
    by (simp add: example_names fsLegacy_def plainFile_def)
  have d: "decode exampleSys (bytes ?f) = Inr ?d"
    by (simp add: exampleSys_def exampleDecode_def chomp_def docLegacy_def docAuto_def)
  have own: "readDescription exampleSys fsLegacy ''group'' =
     Inr (zeroDescription\<lparr>AutoSubgroups := True, FileName := ''groups/group.json'',
            fileSize := 24, modTime := 100\<rparr>)"
    using readDescription_own [of "''group''" fsLegacy exampleSys ?f] a d
    by (simp add: example_names Size_def docLegacy_def upgradeDescription_def zeroDescription_def)
  have sub: "readDescription exampleSys fsLegacy ''group/subgroup'' = Inl ErrNotExist"
    using readDescription_ancestor [of 1 "''group/subgroup''" fsLegacy exampleSys ?f] p m a d
    by (simp add: zeroDescription_def)
  show ?thesis using own sub by simp
qed

subsection \<open>Writing a description\<close>

lemma uitoa_digits: "set (uitoa r) \<subseteq> set ''0123456789''"
proof (induction r rule: uitoa.induct)
  case (1 n)
  have d: "\<And>m. m < 10 \<Longrightarrow> ''0123456789'' ! m \<in> set ''0123456789''"
    by (rule nth_mem) simp
  show ?case
  proof (cases "n < 10")
    case True
    then show ?thesis using d [of n] by (subst uitoa.simps) simp
  next
    case False
    have "n mod 10 < 10" by simp
    then have "''0123456789'' ! (n mod 10) \<in> set ''0123456789''" by (rule d)
    then show ?thesis using False "1.IH" by (subst uitoa.simps) simp
  qed
qed

lemma uitoa_no_slash: "CHR ''/'' \<notin> set (uitoa r)"
  using uitoa_digits [of r] by auto

lemma uitoa_nonempty [simp]: "uitoa r \<noteq> ''''"
  by (subst uitoa.simps) simp

lemma createExclusive_result:
  "createExclusive fs prefix suffix t0 rs = Inr (t, fs1) \<Longrightarrow>
   fs t = Missing \<and> fs1 = fs(t := Present \<lparr>bytes = '''', mtime = t0, fault = NoFault\<rparr>) \<and>
   (\<exists>r \<in> set rs. t = prefix @ uitoa r @ suffix)"
  by (induction rs) (auto simp: Let_def split: pathState.splits)

lemma createExclusive_errors:
  "createExclusive fs prefix suffix t0 rs = Inl e \<Longrightarrow> e = ErrExist \<or> (\<exists>m. e = ErrOther m)"
  by (induction rs) (auto simp: Let_def split: pathState.splits)

lemma prefixAndSuffix_temp:
  "CHR ''/'' \<notin> set n \<Longrightarrow> prefixAndSuffix (n @ ''*.temp'') = Inr (n, ''.temp'')"
  by (simp add: prefixAndSuffix_def)

lemma joinPath_append: "joinPath dir x @ y = joinPath dir (x @ y)"
  by (simp add: joinPath_def)

lemma os_CreateTemp_separator:
  "CHR ''/'' \<in> set pattern \<Longrightarrow> os_CreateTemp fs dir pattern t0 rs = Inl ErrPatternHasSeparator"
  by (simp add: os_CreateTemp_def prefixAndSuffix_def)

lemma os_CreateTemp_temp:
  assumes "os_CreateTemp fs dir (n @ ''*.temp'') t0 rs = Inr (t, fs1)"
  shows "CHR ''/'' \<notin> set n \<and> fs t = Missing \<and>
         fs1 = fs(t := Present \<lparr>bytes = '''', mtime = t0, fault = NoFault\<rparr>) \<and>
         (\<exists>r \<in> set rs. t = joinPath dir (n @ uitoa r @ ''.temp''))"
proof -
  have ns: "CHR ''/'' \<notin> set n"
    using assms os_CreateTemp_separator [of "n @ ''*.temp''" fs dir t0 rs] by auto
  have ce: "createExclusive fs (joinPath dir n) ''.temp'' t0 rs = Inr (t, fs1)"
    using assms ns by (simp add: os_CreateTemp_def prefixAndSuffix_temp)
  from createExclusive_result [OF ce] show ?thesis
    using ns by (simp add: joinPath_append)
qed

lemma os_CreateTemp_errors:
  "os_CreateTemp fs dir pattern t0 rs = Inl e \<Longrightarrow>
   e = ErrPatternHasSeparator \<or> e = ErrExist \<or> (\<exists>m. e = ErrOther m)"
  by (auto simp: os_CreateTemp_def prefixAndSuffix_def dest: createExclusive_errors
      split: sum.splits if_splits)

lemma os_CreateTemp_fresh:
  "CHR ''/'' \<notin> set n \<Longrightarrow> fs (joinPath dir (n @ uitoa r @ ''.temp'')) = Missing \<Longrightarrow>
   os_CreateTemp fs dir (n @ ''*.temp'') t0 (r # rs) =
     Inr (joinPath dir (n @ uitoa r @ ''.temp''),
          fs(joinPath dir (n @ uitoa r @ ''.temp'') :=
               Present \<lparr>bytes = '''', mtime = t0, fault = NoFault\<rparr>))"
  by (simp add: os_CreateTemp_def prefixAndSuffix_temp Let_def joinPath_append)

lemma osError_kinds [simp]:
  "osError e \<noteq> ErrTagMismatch" "osError e \<noteq> ErrNotSanitised"
  by (cases e; simp add: osError_def)+

lemma removeTemp_fresh:
  "fs t = Missing \<Longrightarrow>
   removeTemp ev (fs(t := Present a)) t = (if failRemoveTemp ev then fs(t := Present a) else fs)"
  by (auto simp: removeTemp_def os_Remove_def)

lemma os_Rename_fresh:
  "fs t = Missing \<Longrightarrow>
   os_Rename (fs(t := Present b)) t target =
     (case (fs(t := Present b)) target of
        Failing m \<Rightarrow> Inl (ErrOther m)
      | _ \<Rightarrow> Inr (fs(target := Present b)))"
  by (auto simp: os_Rename_def fun_upd_idem split: pathState.splits)

text \<open>
  What a call of \<open>writeDescription\<close> comes to. Either it returns an error, which is
  neither of the two errors of the tests before it, and the file system is the one
  before the call, or, when the removal of the temporary file fails, the one before the
  call with one more file at a new name that ends in \<open>.temp\<close>; or every step went
  well and the target holds the encoded description.
\<close>

lemma writeDescription_cases:
  "(\<exists>e. fst (writeDescription s ev fs n filename nd) = Some e \<and> e \<noteq> ErrTagMismatch \<and>
        e \<noteq> ErrNotSanitised \<and>
        (snd (writeDescription s ev fs n filename nd) = fs \<or>
         failRemoveTemp ev \<and>
         (\<exists>r \<in> set (rands ev). \<exists>a.
            fs (joinPath (path_Dir filename) (n @ uitoa r @ ''.temp'')) = Missing \<and>
            snd (writeDescription s ev fs n filename nd) =
              fs(joinPath (path_Dir filename) (n @ uitoa r @ ''.temp'') := Present a)))) \<or>
   (\<exists>r \<in> set (rands ev). \<exists>b.
      CHR ''/'' \<notin> set n \<and>
      fs (joinPath (path_Dir filename) (n @ uitoa r @ ''.temp'')) = Missing \<and>
      encode s nd = Inr b \<and> failCreateTemp ev = None \<and> failWrite ev = None \<and>
      failSync ev = None \<and> failClose ev = None \<and> failRename ev = None \<and>
      writeDescription s ev fs n filename nd =
        (None, fs(filename := Present \<lparr>bytes = b, mtime = now ev, fault = NoFault\<rparr>)))"
proof (cases "failCreateTemp ev")
  case (Some e)
  then show ?thesis by (simp add: writeDescription_def)
next
  case nf: None
  show ?thesis
  proof (cases "os_CreateTemp fs (path_Dir filename) (n @ ''*.temp'') (now ev) (rands ev)")
    case (Inl e)
    then show ?thesis using nf os_CreateTemp_errors [OF Inl]
      by (auto simp: writeDescription_def)
  next
    case (Inr p)
    obtain temp fs1 where p: "p = (temp, fs1)" by (cases p)
    note ct = os_CreateTemp_temp [OF Inr [unfolded p]]
    have ns: "CHR ''/'' \<notin> set n" and fresh: "fs temp = Missing"
      and fs1: "fs1 = fs(temp := Present \<lparr>bytes = '''', mtime = now ev, fault = NoFault\<rparr>)"
      using ct by simp_all
    obtain r where r: "r \<in> set (rands ev)"
      "temp = joinPath (path_Dir filename) (n @ uitoa r @ ''.temp'')"
      using ct by blast
    have rm: "\<And>a. removeTemp ev (fs(temp := Present a)) temp =
                   (if failRemoveTemp ev then fs(temp := Present a) else fs)"
      using fresh by (rule removeTemp_fresh)
    {
      fix e a
      assume e: "e \<noteq> ErrTagMismatch" "e \<noteq> ErrNotSanitised"
        and w: "writeDescription s ev fs n filename nd =
                  (Some e, removeTemp ev (fs(temp := Present a)) temp)"
      have ?thesis
      proof (cases "failRemoveTemp ev")
        case True
        have "fs temp = Missing \<and>
              snd (writeDescription s ev fs n filename nd) = fs(temp := Present a)"
          using w fresh True by (simp add: rm)
        then have "fs (joinPath (path_Dir filename) (n @ uitoa r @ ''.temp'')) = Missing \<and>
              snd (writeDescription s ev fs n filename nd) =
                fs(joinPath (path_Dir filename) (n @ uitoa r @ ''.temp'') := Present a)"
          unfolding r(2) .
        then show ?thesis using e w r(1) True by fastforce
      next
        case False
        then show ?thesis using e w by (simp add: rm)
      qed
    }
    note left = this
    show ?thesis
    proof (cases "encode s nd")
      case (Inl msg)
      then have "writeDescription s ev fs n filename nd =
          (Some (ErrEncode msg),
           removeTemp ev (fs(temp := Present \<lparr>bytes = '''', mtime = now ev, fault = NoFault\<rparr>)) temp)"
        using nf Inr p fs1 by (simp add: writeDescription_def)
      then show ?thesis using left by simp
    next
      case eb: (Inr b)
      show ?thesis
      proof (cases "failWrite ev")
        case (Some ke)
        obtain k e where ke: "ke = (k, e)" by (cases ke)
        have "writeDescription s ev fs n filename nd =
          (Some (osError e),
           removeTemp ev (fs(temp := Present \<lparr>bytes = take k b, mtime = now ev, fault = NoFault\<rparr>)) temp)"
          using nf Inr p fs1 eb Some ke by (simp add: writeDescription_def)
        then show ?thesis using left by simp
      next
        case nw: None
        let ?fs2 = "fs(temp := Present \<lparr>bytes = b, mtime = now ev, fault = NoFault\<rparr>)"
        show ?thesis
        proof (cases "\<exists>e. failSync ev = Some e \<or> failSync ev = None \<and> failClose ev = Some e \<or>
            failSync ev = None \<and> failClose ev = None \<and> failRename ev = Some e")
          case True
          then obtain e where e: "failSync ev = Some e \<or> failSync ev = None \<and> failClose ev = Some e \<or>
            failSync ev = None \<and> failClose ev = None \<and> failRename ev = Some e" by blast
          have "writeDescription s ev fs n filename nd =
              (Some (osError e), removeTemp ev ?fs2 temp)"
            using nf Inr p fs1 eb nw e by (auto simp: writeDescription_def Let_def)
          then show ?thesis using left by simp
        next
          case False
          then have q1: "failSync ev = None" by (cases "failSync ev") auto
          have q2: "failClose ev = None" using False q1 by (cases "failClose ev") auto
          have q3: "failRename ev = None" using False q1 q2 by (cases "failRename ev") auto
          note q = q1 q2 q3
          have w: "writeDescription s ev fs n filename nd =
              (case os_Rename ?fs2 temp filename of
                 Inl e \<Rightarrow> (Some e, removeTemp ev ?fs2 temp)
               | Inr fs3 \<Rightarrow> (None, fs3))"
            using nf Inr p fs1 eb nw q
            by (simp add: writeDescription_def Let_def split: sum.splits)
          show ?thesis
          proof (cases "?fs2 filename")
            case (Failing m)
            then have "os_Rename ?fs2 temp filename = Inl (ErrOther m)"
              using fresh by (simp add: os_Rename_fresh)
            then have "writeDescription s ev fs n filename nd =
                (Some (ErrOther m), removeTemp ev ?fs2 temp)"
              using w by simp
            then show ?thesis using left by simp
          next
            case Missing
            then have "os_Rename ?fs2 temp filename =
                Inr (fs(filename := Present \<lparr>bytes = b, mtime = now ev, fault = NoFault\<rparr>))"
              using fresh os_Rename_fresh [of fs temp _ filename] by simp
            then show ?thesis using w ns fresh r eb nf nw q by auto
          next
            case (Present g)
            then have "os_Rename ?fs2 temp filename =
                Inr (fs(filename := Present \<lparr>bytes = b, mtime = now ev, fault = NoFault\<rparr>))"
              using fresh os_Rename_fresh [of fs temp _ filename] by simp
            then show ?thesis using w ns fresh r eb nf nw q by auto
          qed
        qed
      qed
    qed
  qed
qed

lemma writeDescription_separator:
  "CHR ''/'' \<in> set n \<Longrightarrow> failCreateTemp ev = None \<Longrightarrow>
   writeDescription s ev fs n filename nd = (Some ErrPatternHasSeparator, fs)"
  by (simp add: writeDescription_def os_CreateTemp_separator)

lemma writeDescription_quiet:
  assumes "failCreateTemp ev = None" "failWrite ev = None" "failSync ev = None"
    "failClose ev = None" "failRename ev = None"
    "CHR ''/'' \<notin> set n" "rands ev = r # rs"
    "fs (joinPath (path_Dir filename) (n @ uitoa r @ ''.temp'')) = Missing"
    "encode s nd = Inr b" "\<forall>m. fs filename \<noteq> Failing m"
  shows "writeDescription s ev fs n filename nd =
           (None, fs(filename := Present \<lparr>bytes = b, mtime = now ev, fault = NoFault\<rparr>))"
proof -
  let ?t = "joinPath (path_Dir filename) (n @ uitoa r @ ''.temp'')"
  let ?fs2 = "fs(?t := Present \<lparr>bytes = b, mtime = now ev, fault = NoFault\<rparr>)"
  have ct: "os_CreateTemp fs (path_Dir filename) (n @ ''*.temp'') (now ev) (rands ev) =
      Inr (?t, fs(?t := Present \<lparr>bytes = '''', mtime = now ev, fault = NoFault\<rparr>))"
    unfolding assms(7) using assms(6,8) by (rule os_CreateTemp_fresh)
  have nf: "\<forall>m. ?fs2 filename \<noteq> Failing m" using assms(10) by simp
  have rn: "os_Rename ?fs2 ?t filename =
      Inr (fs(filename := Present \<lparr>bytes = b, mtime = now ev, fault = NoFault\<rparr>))"
    using nf assms(8)
      os_Rename_fresh [of fs ?t "\<lparr>bytes = b, mtime = now ev, fault = NoFault\<rparr>" filename]
    by (cases "?fs2 filename") simp_all
  show ?thesis
    using assms(1-5,9) ct rn by (simp add: writeDescription_def Let_def)
qed

subsection \<open>The names of the files\<close>

lemma elements_plain: "CHR ''/'' \<notin> set y \<Longrightarrow> elements y = [y]"
  by (induction y) auto

lemma elements_not_Nil [simp]: "elements x \<noteq> []"
  by (induction x) (auto split: list.splits)

lemma elements_append:
  "CHR ''/'' \<notin> set y \<Longrightarrow>
   elements (x @ y) = butlast (elements x) @ [last (elements x) @ y]"
proof (induction x)
  case Nil
  then show ?case by (simp add: elements_plain)
next
  case (Cons c cs)
  show ?case
  proof (cases "c = CHR ''/''")
    case True
    then show ?thesis using Cons by simp
  next
    case False
    obtain e es where E: "elements cs = e # es"
      by (cases "elements cs") simp_all
    show ?thesis
    proof (cases "es = []")
      case True
      then show ?thesis using False Cons E by simp
    next
      case ne: False
      then obtain b bs where "butlast (e # es) = b # bs" "b = e"
        by (cases es) simp_all
      then show ?thesis using False Cons E ne by simp
    qed
  qed
qed

lemma cleanElements_last:
  "e \<noteq> '''' \<Longrightarrow> e \<noteq> ''.'' \<Longrightarrow> e \<noteq> ''..'' \<Longrightarrow>
   \<exists>ks. cleanElements rooted kept (es @ [e]) = ks @ [e]"
proof (induction es arbitrary: kept)
  case Nil
  then show ?case by simp
next
  case (Cons a es)
  show ?case
  proof (cases "a = '''' \<or> a = ''.''")
    case True
    then show ?thesis using Cons.IH [OF Cons.prems, of kept] by auto
  next
    case n1: False
    show ?thesis
    proof (cases "a = ''..''")
      case True
      show ?thesis
      proof (cases kept)
        case Nil
        then show ?thesis
          using True Cons.IH [OF Cons.prems, of "[]"] Cons.IH [OF Cons.prems, of "[a]"]
          by auto
      next
        case (Cons k ks)
        then show ?thesis
          using True Cons.IH [OF Cons.prems, of "a # kept"] Cons.IH [OF Cons.prems, of ks]
          by auto
      qed
    next
      case False
      then show ?thesis using n1 Cons.IH [OF Cons.prems, of "a # kept"] by auto
    qed
  qed
qed

lemma joinElements_last: "\<exists>p. joinElements (ks @ [e]) = p @ e"
proof (induction ks)
  case Nil
  then show ?case by simp
next
  case (Cons k ks)
  then obtain p where p: "joinElements (ks @ [e]) = p @ e" by blast
  obtain x xs where x: "ks @ [e] = x # xs" by (cases "ks @ [e]") simp_all
  have "joinElements (k # x # xs) = k @ ''/'' @ joinElements (x # xs)" by simp
  then have "joinElements ((k # ks) @ [e]) = (k @ ''/'' @ p) @ e"
    using p x by simp
  then show ?case by blast
qed

lemma path_Clean_json: "\<exists>p. path_Clean (x @ ''.json'') = p @ ''.json''"
proof -
  let ?e = "last (elements x) @ ''.json''"
  have el: "elements (x @ ''.json'') = butlast (elements x) @ [?e]"
    by (rule elements_append) simp
  have "length ?e \<ge> 5" by simp
  then have ne: "?e \<noteq> ''''" "?e \<noteq> ''.''" "?e \<noteq> ''..''" by auto
  obtain ks where ks: "cleanElements (x @ ''.json'' \<noteq> '''' \<and> hd (x @ ''.json'') = CHR ''/'') []
      (butlast (elements x) @ [?e]) = ks @ [?e]"
    using cleanElements_last [OF ne] by blast
  obtain p where p: "joinElements (ks @ [?e]) = p @ ?e"
    using joinElements_last by blast
  show ?thesis
    unfolding path_Clean_def Let_def el ks p by auto
qed

lemma descriptionFileName_json: "\<exists>p. descriptionFileName s n = p @ ''.json''"
proof -
  let ?b = "path_Clean (''/'' @ n) @ ''.json''"
  have b: "?b \<noteq> ''''" by simp
  show ?thesis
  proof (cases "Directory s = ''''")
    case True
    then show ?thesis
      using path_Clean_json [of "path_Clean (''/'' @ n)"]
      by (simp add: descriptionFileName_def filepath_Join_def)
  next
    case False
    have "Directory s @ ''/'' @ ?b = (Directory s @ ''/'' @ path_Clean (''/'' @ n)) @ ''.json''"
      by simp
    then show ?thesis
      using False path_Clean_json [of "Directory s @ ''/'' @ path_Clean (''/'' @ n)"]
      by (simp add: descriptionFileName_def filepath_Join_def)
  qed
qed

lemma joinPath_temp: "\<exists>p. joinPath dir (x @ ''.temp'') = p @ ''.temp''"
proof (cases "dir \<noteq> '''' \<and> last dir = CHR ''/''")
  case True
  then have "joinPath dir (x @ ''.temp'') = (dir @ x) @ ''.temp''" by (simp add: joinPath_def)
  then show ?thesis by blast
next
  case False
  then have "joinPath dir (x @ ''.temp'') = (dir @ ''/'' @ x) @ ''.temp''"
    by (auto simp: joinPath_def)
  then show ?thesis by blast
qed

lemma temp_not_description: "joinPath dir (x @ ''.temp'') \<noteq> descriptionFileName s n"
proof
  assume a: "joinPath dir (x @ ''.temp'') = descriptionFileName s n"
  obtain p where p: "joinPath dir (x @ ''.temp'') = p @ ''.temp''"
    using joinPath_temp by blast
  obtain q where q: "descriptionFileName s n = q @ ''.json''"
    using descriptionFileName_json by blast
  have "last (p @ ''.temp'') = last (q @ ''.json'')" using a p q by simp
  then show False by simp
qed

lemma parentName_slash: "parentName n \<noteq> '''' \<Longrightarrow> CHR ''/'' \<in> set n"
proof (rule ccontr)
  assume a: "parentName n \<noteq> ''''" and b: "CHR ''/'' \<notin> set n"
  have d: "dropWhile (\<lambda>c. c \<noteq> CHR ''/'') (rev n) = []"
    using b by (auto simp: dropWhile_eq_Nil_conv)
  have "parentName n = ''''"
    unfolding parentName_def path_Split_def strings_TrimRight_def fst_conv d by simp
  then show False using a by simp
qed

lemma funpow_parentName_slash:
  "0 < k \<Longrightarrow> (parentName ^^ k) n \<noteq> '''' \<Longrightarrow> CHR ''/'' \<in> set n"
  using funpow_parentName_nonempty [of k n 1] parentName_slash [of n] by simp

lemma plain_name_parent: "CHR ''/'' \<notin> set n \<Longrightarrow> 0 < k \<Longrightarrow> (parentName ^^ k) n = ''''"
  using funpow_parentName_slash [of k n] by blast

subsection \<open>Updating and deleting\<close>

lemma getDescriptionFileFrom_Inr:
  "getDescriptionFileFrom s get b n = Inr (r, f, b') \<Longrightarrow>
   \<exists>k. (parentName ^^ k) n \<noteq> '''' \<and> f = descriptionFileName s ((parentName ^^ k) n) \<and>
       get f = Inr r \<and>
       (\<forall>j < k. get (descriptionFileName s ((parentName ^^ j) n)) = Inl ErrNotExist) \<and>
       b' = (b \<or> 0 < k)"
proof (induction s get b n rule: getDescriptionFileFrom.induct)
  case (1 s get isParent n)
  have n: "n \<noteq> ''''"
    using "1.prems" by (subst (asm) getDescriptionFileFrom.simps) (auto split: if_splits)
  show ?case
  proof (cases "get (descriptionFileName s n)")
    case (Inr x)
    then have "r = x \<and> f = descriptionFileName s n \<and> b' = isParent"
      using "1.prems" n by (subst (asm) getDescriptionFileFrom.simps) (simp add: Let_def)
    then show ?thesis using n Inr by (intro exI [of _ 0]) simp
  next
    case (Inl e)
    show ?thesis
    proof (cases "os_IsNotExist e")
      case False
      then show ?thesis using "1.prems" n Inl
        by (subst (asm) getDescriptionFileFrom.simps) (simp add: Let_def)
    next
      case True
      then have e: "e = ErrNotExist" by (simp add: os_IsNotExist_def)
      have rec: "getDescriptionFileFrom s get True (parentName n) = Inr (r, f, b')"
        using "1.prems" n Inl True
        by (subst (asm) getDescriptionFileFrom.simps) (simp add: Let_def)
      from "1.IH" [OF n refl Inl True rec] obtain k where
        k: "(parentName ^^ k) (parentName n) \<noteq> ''''"
          "f = descriptionFileName s ((parentName ^^ k) (parentName n))"
          "get f = Inr r"
          "\<forall>j < k. get (descriptionFileName s ((parentName ^^ j) (parentName n))) = Inl ErrNotExist"
          "b'"
        by auto
      have "\<forall>j < Suc k. get (descriptionFileName s ((parentName ^^ j) n)) = Inl ErrNotExist"
      proof (intro allI impI)
        fix j assume j: "j < Suc k"
        show "get (descriptionFileName s ((parentName ^^ j) n)) = Inl ErrNotExist"
        proof (cases j)
          case 0
          then show ?thesis using Inl e by simp
        next
          case (Suc i)
          then have "i < k" using j by simp
          then show ?thesis using k(4) Suc by (simp add: funpow_swap1)
        qed
      qed
      then show ?thesis using k by (intro exI [of _ "Suc k"]) (simp add: funpow_swap1)
    qed
  qed
qed

lemma getDescriptionFileFrom_Inl:
  "getDescriptionFileFrom s get b n = Inl e \<Longrightarrow>
   e = ErrNotExist \<or>
   (\<exists>k. (parentName ^^ k) n \<noteq> '''' \<and>
        get (descriptionFileName s ((parentName ^^ k) n)) = Inl e \<and>
        (\<forall>j < k. get (descriptionFileName s ((parentName ^^ j) n)) = Inl ErrNotExist))"
proof (induction s get b n rule: getDescriptionFileFrom.induct)
  case (1 s get isParent n)
  show ?case
  proof (cases "n = ''''")
    case True
    then show ?thesis using "1.prems" by (subst (asm) getDescriptionFileFrom.simps) simp
  next
    case n: False
    show ?thesis
    proof (cases "get (descriptionFileName s n)")
      case (Inr x)
      then show ?thesis using "1.prems" n
        by (subst (asm) getDescriptionFileFrom.simps) (simp add: Let_def)
    next
      case (Inl e0)
      show ?thesis
      proof (cases "os_IsNotExist e0")
        case False
        then have "e = e0" using "1.prems" n Inl
          by (subst (asm) getDescriptionFileFrom.simps) (simp add: Let_def)
        then have "(parentName ^^ 0) n \<noteq> '''' \<and>
            get (descriptionFileName s ((parentName ^^ 0) n)) = Inl e \<and>
            (\<forall>j < 0. get (descriptionFileName s ((parentName ^^ j) n)) = Inl ErrNotExist)"
          using n Inl by simp
        then show ?thesis by blast
      next
        case True
        then have e0: "e0 = ErrNotExist" by (simp add: os_IsNotExist_def)
        have rec: "getDescriptionFileFrom s get True (parentName n) = Inl e"
          using "1.prems" n Inl True
          by (subst (asm) getDescriptionFileFrom.simps) (simp add: Let_def)
        from "1.IH" [OF n refl Inl True rec] show ?thesis
        proof
          assume "e = ErrNotExist"
          then show ?thesis by simp
        next
          assume "\<exists>k. (parentName ^^ k) (parentName n) \<noteq> '''' \<and>
            get (descriptionFileName s ((parentName ^^ k) (parentName n))) = Inl e \<and>
            (\<forall>j < k. get (descriptionFileName s ((parentName ^^ j) (parentName n))) =
                       Inl ErrNotExist)"
          then obtain k where
            k: "(parentName ^^ k) (parentName n) \<noteq> ''''"
              "get (descriptionFileName s ((parentName ^^ k) (parentName n))) = Inl e"
              "\<forall>j < k. get (descriptionFileName s ((parentName ^^ j) (parentName n))) =
                         Inl ErrNotExist"
            by blast
          have "\<forall>j < Suc k. get (descriptionFileName s ((parentName ^^ j) n)) = Inl ErrNotExist"
          proof (intro allI impI)
            fix j assume j: "j < Suc k"
            show "get (descriptionFileName s ((parentName ^^ j) n)) = Inl ErrNotExist"
            proof (cases j)
              case 0
              then show ?thesis using Inl e0 by simp
            next
              case (Suc i)
              then have "i < k" using j by simp
              then show ?thesis using k(3) Suc by (simp add: funpow_swap1)
            qed
          qed
          then have "(parentName ^^ Suc k) n \<noteq> '''' \<and>
            get (descriptionFileName s ((parentName ^^ Suc k) n)) = Inl e \<and>
            (\<forall>j < Suc k. get (descriptionFileName s ((parentName ^^ j) n)) = Inl ErrNotExist)"
            using k by (simp add: funpow_swap1)
          then show ?thesis by blast
        qed
      qed
    qed
  qed
qed

lemma os_Open_Inr:
  "os_Open fs p = Inr r \<Longrightarrow> fs p = Present r \<and> (\<forall>m. fault r \<noteq> OpenFails m)"
  by (auto simp: os_Open_def split: pathState.splits fileFault.splits)

lemma os_Open_NotExist: "os_Open fs p = Inl ErrNotExist \<Longrightarrow> fs p = Missing"
  by (auto simp: os_Open_def split: pathState.splits fileFault.splits)

lemma os_Stat_Inr: "os_Stat fs p = Inr r \<Longrightarrow> fs p = Present r"
  by (auto simp: os_Stat_def split: pathState.splits)

lemma os_Stat_NotExist: "os_Stat fs p = Inl ErrNotExist \<Longrightarrow> fs p = Missing"
  by (auto simp: os_Stat_def split: pathState.splits)

lemma os_Stat_Inl:
  "os_Stat fs p = Inl e \<Longrightarrow>
   e = ErrNotExist \<and> fs p = Missing \<or> (\<exists>m. e = ErrOther m \<and> fs p = Failing m)"
  by (auto simp: os_Stat_def split: pathState.splits)

lemma upgradeUsers_file:
  "upgradeUsers (d\<lparr>FileName := a, fileSize := b, modTime := c\<rparr>) ps p =
   (upgradeUsers d ps p)\<lparr>FileName := a, fileSize := b, modTime := c\<rparr>"
  by (cases d) (simp add: upgradeUsers_def Let_def)

lemma upgradeDescription_file:
  "upgradeDescription (d\<lparr>FileName := a, fileSize := b, modTime := c\<rparr>) =
   (upgradeDescription d)\<lparr>FileName := a, fileSize := b, modTime := c\<rparr>"
proof -
  define d1 where "d1 = (if AllowAnonymous d then d\<lparr>AllowAnonymous := False\<rparr> else d)"
  define d2 where "d2 = (if AllowSubgroups d1
                then d1\<lparr>AutoSubgroups := True, AllowSubgroups := False\<rparr> else d1)"
  define d3 where "d3 = (case Op d2 of None \<Rightarrow> d2
                | Some ps \<Rightarrow> (upgradeUsers d2 ps ''op'')\<lparr>Op := None\<rparr>)"
  define d4 where "d4 = (case Presenter d3 of None \<Rightarrow> d3
                | Some ps \<Rightarrow> (upgradeUsers d3 ps ''present'')\<lparr>Presenter := None\<rparr>)"
  define d5 where "d5 = (case Other d4 of None \<Rightarrow> d4
                | Some ps \<Rightarrow> (upgradeUsers d4 ps ''observe'')\<lparr>Other := None\<rparr>)"
  let ?S = "\<lambda>x. x\<lparr>FileName := a, fileSize := b, modTime := c\<rparr>"
  have u: "upgradeDescription d = d5"
    unfolding upgradeDescription_def Let_def d5_def d4_def d3_def d2_def d1_def ..
  have e1: "(if AllowAnonymous (?S d) then (?S d)\<lparr>AllowAnonymous := False\<rparr> else ?S d) = ?S d1"
    by (cases d) (simp add: d1_def)
  have e2: "(if AllowSubgroups (?S d1)
       then (?S d1)\<lparr>AutoSubgroups := True, AllowSubgroups := False\<rparr> else ?S d1) = ?S d2"
    by (cases d1) (simp add: d2_def)
  have e3: "(case Op (?S d2) of None \<Rightarrow> ?S d2
       | Some ps \<Rightarrow> (upgradeUsers (?S d2) ps ''op'')\<lparr>Op := None\<rparr>) = ?S d3"
    by (cases "Op d2") (simp_all add: d3_def upgradeUsers_file)
  have e4: "(case Presenter (?S d3) of None \<Rightarrow> ?S d3
       | Some ps \<Rightarrow> (upgradeUsers (?S d3) ps ''present'')\<lparr>Presenter := None\<rparr>) = ?S d4"
    by (cases "Presenter d3") (simp_all add: d4_def upgradeUsers_file)
  have e5: "(case Other (?S d4) of None \<Rightarrow> ?S d4
       | Some ps \<Rightarrow> (upgradeUsers (?S d4) ps ''observe'')\<lparr>Other := None\<rparr>) = ?S d5"
    by (cases "Other d4") (simp_all add: d5_def upgradeUsers_file)
  have "upgradeDescription (?S d) = ?S d5"
    unfolding upgradeDescription_def Let_def e1 e2 e3 e4 e5 ..
  then show ?thesis using u by simp
qed

lemma upgradeUsers_AuthKeys [simp]: "AuthKeys (upgradeUsers d ps p) = AuthKeys d"
  by (simp add: upgradeUsers_def Let_def)

lemma upgradeDescription_AuthKeys [simp]: "AuthKeys (upgradeDescription d) = AuthKeys d"
  by (simp add: upgradeDescription_def Let_def split: option.splits)

lemma upgradeDescription_verbatim:
  "Op d = None \<Longrightarrow> Presenter d = None \<Longrightarrow> Other d = None \<Longrightarrow>
   Users (upgradeDescription d) = Users d \<and>
   FallbackUsers (upgradeDescription d) = FallbackUsers d"
  by (simp add: upgradeDescription_def Let_def)

text \<open>What a description that was read is, in terms of the file it was read from.\<close>

lemma readDescription_Inr:
  assumes "readDescription s fs n = Inr old"
  shows "\<exists>k f d. (parentName ^^ k) n \<noteq> '''' \<and>
     (\<forall>j < k. fs (descriptionFileName s ((parentName ^^ j) n)) = Missing) \<and>
     fs (descriptionFileName s ((parentName ^^ k) n)) = Present f \<and> fault f = NoFault \<and>
     decode s (bytes f) = Inr d \<and> (0 < k \<longrightarrow> AutoSubgroups d) \<and>
     FileName old = descriptionFileName s ((parentName ^^ k) n) \<and>
     fileSize old = Size f \<and> modTime old = mtime f \<and>
     Users old = Users (upgradeDescription d) \<and>
     FallbackUsers old = FallbackUsers (upgradeDescription d) \<and>
     AuthKeys old = AuthKeys d"
proof -
  obtain r fileName isParent where
    g: "getDescriptionFile s n (os_Open fs) = Inr (r, fileName, isParent)"
    using assms by (auto simp: readDescription_def split: sum.splits)
  from getDescriptionFileFrom_Inr [OF g [unfolded getDescriptionFile_def]] obtain k where
    k: "(parentName ^^ k) n \<noteq> ''''" "fileName = descriptionFileName s ((parentName ^^ k) n)"
      "os_Open fs fileName = Inr r"
      "\<forall>j < k. os_Open fs (descriptionFileName s ((parentName ^^ j) n)) = Inl ErrNotExist"
    by blast
  have p: "fs (descriptionFileName s ((parentName ^^ k) n)) = Present r"
    "\<forall>m. fault r \<noteq> OpenFails m"
    using os_Open_Inr [OF k(3)] k(2) by simp_all
  have miss: "\<forall>j < k. fs (descriptionFileName s ((parentName ^^ j) n)) = Missing"
    using k(4) os_Open_NotExist by blast
  have nf: "fault r = NoFault"
    using assms p(2) unfolding readDescription_def g
    by (cases "fault r") (auto simp: File_Stat_def File_Decode_def split: sum.splits)
  obtain d where d: "decode s (bytes r) = Inr d"
    using assms nf unfolding readDescription_def g
    by (cases "decode s (bytes r)") (auto simp: File_Stat_def File_Decode_def split: sum.splits)
  note rd = readDescription_found [OF k(1) miss p(1) nf]
  have au: "0 < k \<longrightarrow> AutoSubgroups d"
    using rd assms d by (auto split: if_splits)
  have old: "old = (if 0 < k
      then (upgradeDescription
              (d\<lparr>FileName := descriptionFileName s ((parentName ^^ k) n),
                 fileSize := Size r, modTime := mtime r\<rparr>))
                \<lparr>isSubgroup := True, Public := False, Description := ''''\<rparr>
      else upgradeDescription
              (d\<lparr>FileName := descriptionFileName s ((parentName ^^ k) n),
                 fileSize := Size r, modTime := mtime r\<rparr>))"
    using rd assms d by (auto split: if_splits)
  have "FileName old = descriptionFileName s ((parentName ^^ k) n) \<and>
     fileSize old = Size r \<and> modTime old = mtime r \<and>
     Users old = Users (upgradeDescription d) \<and>
     FallbackUsers old = FallbackUsers (upgradeDescription d) \<and>
     AuthKeys old = AuthKeys d"
    unfolding old upgradeDescription_file by simp
  then show ?thesis using k(1) miss p(1) nf d au by blast
qed

lemma readDescription_NotExist_own:
  assumes "n \<noteq> ''''" "readDescription s fs n = Inl ErrNotExist"
  shows "fs (descriptionFileName s n) = Missing"
proof (cases "fs (descriptionFileName s n)")
  case Missing
  then show ?thesis .
next
  case (Failing m)
  then show ?thesis
    using readDescription_failing [of 0 n fs s m] assms by simp
next
  case (Present f)
  show ?thesis
  proof (cases "fault f = NoFault")
    case True
    then show ?thesis
      using readDescription_found [of 0 n fs s f] assms Present
      by (auto split: sum.splits)
  next
    case False
    then obtain m where "fault f = OpenFails m \<or> fault f = FstatFails m \<or> fault f = ReadFails m"
      by (cases "fault f") auto
    then show ?thesis
      using readDescription_faulty [of 0 n fs s f m] assms Present by simp
  qed
qed

lemma readDescription_Nil: "readDescription s fs '''' = Inl ErrNotExist"
  by (simp add: readDescription_def getDescriptionFile_def getDescriptionFileFrom.simps)

lemma UpdateDescription_unsanitised:
  "Users desc \<noteq> None \<or> FallbackUsers desc \<noteq> None \<or> AuthKeys desc \<noteq> None \<Longrightarrow>
   UpdateDescription s ev fs n etag desc = (Some ErrNotSanitised, fs)"
  by (simp add: UpdateDescription_def)

lemma UpdateDescription_found:
  assumes "Users desc = None" "FallbackUsers desc = None" "AuthKeys desc = None"
    and "(parentName ^^ k) n \<noteq> ''''"
    and "\<forall>j < k. fs (descriptionFileName s ((parentName ^^ j) n)) = Missing"
    and "fs (descriptionFileName s ((parentName ^^ k) n)) = Present f" "fault f = NoFault"
    and "decode s (bytes f) = Inr d" "0 < k \<longrightarrow> AutoSubgroups d"
  shows "UpdateDescription s ev fs n etag desc =
     (if makeETag (Size f) (mtime f) \<noteq> etag then (Some ErrTagMismatch, fs)
      else writeDescription s ev fs n (descriptionFileName s ((parentName ^^ k) n))
             (desc\<lparr>Users := Users (upgradeDescription d),
                   FallbackUsers := FallbackUsers (upgradeDescription d),
                   AuthKeys := AuthKeys d\<rparr>))"
proof -
  let ?x = "upgradeDescription
              (d\<lparr>FileName := descriptionFileName s ((parentName ^^ k) n),
                 fileSize := Size f, modTime := mtime f\<rparr>)"
  let ?old = "if 0 < k then ?x\<lparr>isSubgroup := True, Public := False, Description := ''''\<rparr>
              else ?x"
  have rd: "readDescription s fs n = Inr ?old"
    using readDescription_found [OF assms(4-7)] assms(8,9) by auto
  have fl: "FileName ?old = descriptionFileName s ((parentName ^^ k) n) \<and>
     fileSize ?old = Size f \<and> modTime ?old = mtime f \<and>
     Users ?old = Users (upgradeDescription d) \<and>
     FallbackUsers ?old = FallbackUsers (upgradeDescription d) \<and>
     AuthKeys ?old = AuthKeys d"
    unfolding upgradeDescription_file by simp
  show ?thesis
    unfolding UpdateDescription_def rd using assms(1-3) fl by simp
qed

lemma UpdateDescription_absent:
  assumes "Users desc = None" "FallbackUsers desc = None" "AuthKeys desc = None"
    and "readDescription s fs n = Inl ErrNotExist"
  shows "UpdateDescription s ev fs n etag desc =
     (if '''' \<noteq> etag then (Some ErrTagMismatch, fs)
      else writeDescription s ev fs n (descriptionFileName s n) desc)"
  using assms by (simp add: UpdateDescription_def os_IsNotExist_def descriptionFileName_def)

lemma UpdateDescription_read_error:
  assumes "Users desc = None" "FallbackUsers desc = None" "AuthKeys desc = None"
    and "readDescription s fs n = Inl e" "e \<noteq> ErrNotExist"
  shows "UpdateDescription s ev fs n etag desc = (Some e, fs)"
  using assms by (simp add: UpdateDescription_def os_IsNotExist_def)

lemma makeETag_nonempty: "makeETag a b \<noteq> ''''"
  by (simp add: makeETag_def)

text \<open>
  What a call of \<open>UpdateDescription\<close> comes to. Either it returns an error, and the
  file system is the one before the call or, when the removal of the temporary file has
  failed, the one before the call with one more file, at a new name that ends in
  \<open>.temp\<close>, in the directory of the file the name resolves to. Or it returns nil: then
  the description was sanitised, the name has no slash, no step failed, and the file of
  the name holds the encoded description, which carries the users and keys of the file
  that was there, or is the description of the caller when there was none.
\<close>

lemma UpdateDescription_outcome:
  "(\<exists>e. fst (UpdateDescription s ev fs n etag desc) = Some e \<and>
        (snd (UpdateDescription s ev fs n etag desc) = fs \<or>
         failRemoveTemp ev \<and>
         (\<exists>k. \<exists>r \<in> set (rands ev). \<exists>a.
            fs (joinPath (path_Dir (descriptionFileName s ((parentName ^^ k) n)))
                  (n @ uitoa r @ ''.temp'')) = Missing \<and>
            snd (UpdateDescription s ev fs n etag desc) =
              fs(joinPath (path_Dir (descriptionFileName s ((parentName ^^ k) n)))
                   (n @ uitoa r @ ''.temp'') := Present a)))) \<or>
   (Users desc = None \<and> FallbackUsers desc = None \<and> AuthKeys desc = None \<and>
    CHR ''/'' \<notin> set n \<and>
    failCreateTemp ev = None \<and> failWrite ev = None \<and> failSync ev = None \<and>
    failClose ev = None \<and> failRename ev = None \<and>
    (\<exists>r \<in> set (rands ev). \<exists>b.
       fs (joinPath (path_Dir (descriptionFileName s n)) (n @ uitoa r @ ''.temp'')) = Missing \<and>
       UpdateDescription s ev fs n etag desc =
         (None, fs(descriptionFileName s n :=
                     Present \<lparr>bytes = b, mtime = now ev, fault = NoFault\<rparr>)) \<and>
       ((\<exists>f d. n \<noteq> '''' \<and> fs (descriptionFileName s n) = Present f \<and> fault f = NoFault \<and>
               decode s (bytes f) = Inr d \<and> etag = makeETag (Size f) (mtime f) \<and>
               encode s (desc\<lparr>Users := Users (upgradeDescription d),
                               FallbackUsers := FallbackUsers (upgradeDescription d),
                               AuthKeys := AuthKeys d\<rparr>) = Inr b) \<or>
        ((n = '''' \<or> fs (descriptionFileName s n) = Missing) \<and> etag = '''' \<and>
         encode s desc = Inr b))))"
  (is "?E \<or> ?S")
proof (cases "Users desc \<noteq> None \<or> FallbackUsers desc \<noteq> None \<or> AuthKeys desc \<noteq> None")
  case True
  then have ?E by (simp add: UpdateDescription_unsanitised)
  then show ?thesis ..
next
  case False
  then have san: "Users desc = None" "FallbackUsers desc = None" "AuthKeys desc = None"
    by simp_all
  show ?thesis
  proof (cases "readDescription s fs n")
    case (Inl e)
    show ?thesis
    proof (cases "e = ErrNotExist")
      case False
      then have ?E using UpdateDescription_read_error [OF san Inl] by simp
      then show ?thesis ..
    next
      case True
      note u = UpdateDescription_absent [OF san Inl [unfolded True], of ev etag]
      show ?thesis
      proof (cases "'''' \<noteq> etag")
        case True
        then have ?E using u by simp
        then show ?thesis ..
      next
        case tag: False
        then have w: "UpdateDescription s ev fs n etag desc =
            writeDescription s ev fs n (descriptionFileName s n) desc"
          using u by simp
        from writeDescription_cases [of s ev fs n "descriptionFileName s n" desc]
        show ?thesis
        proof
          assume "\<exists>e. fst (writeDescription s ev fs n (descriptionFileName s n) desc) = Some e \<and>
            e \<noteq> ErrTagMismatch \<and> e \<noteq> ErrNotSanitised \<and>
            (snd (writeDescription s ev fs n (descriptionFileName s n) desc) = fs \<or>
             failRemoveTemp ev \<and>
             (\<exists>r \<in> set (rands ev). \<exists>a.
                fs (joinPath (path_Dir (descriptionFileName s n)) (n @ uitoa r @ ''.temp'')) =
                  Missing \<and>
                snd (writeDescription s ev fs n (descriptionFileName s n) desc) =
                  fs(joinPath (path_Dir (descriptionFileName s n)) (n @ uitoa r @ ''.temp'') :=
                       Present a)))"
          then obtain e where e: "fst (UpdateDescription s ev fs n etag desc) = Some e"
            and f: "snd (UpdateDescription s ev fs n etag desc) = fs \<or>
             failRemoveTemp ev \<and>
             (\<exists>r \<in> set (rands ev). \<exists>a.
                fs (joinPath (path_Dir (descriptionFileName s ((parentName ^^ 0) n)))
                      (n @ uitoa r @ ''.temp'')) = Missing \<and>
                snd (UpdateDescription s ev fs n etag desc) =
                  fs(joinPath (path_Dir (descriptionFileName s ((parentName ^^ 0) n)))
                       (n @ uitoa r @ ''.temp'') := Present a))"
            unfolding w by auto
          have ?E using e f by blast
          then show ?thesis ..
        next
          assume "\<exists>r \<in> set (rands ev). \<exists>b.
            CHR ''/'' \<notin> set n \<and>
            fs (joinPath (path_Dir (descriptionFileName s n)) (n @ uitoa r @ ''.temp'')) =
              Missing \<and>
            encode s desc = Inr b \<and> failCreateTemp ev = None \<and> failWrite ev = None \<and>
            failSync ev = None \<and> failClose ev = None \<and> failRename ev = None \<and>
            writeDescription s ev fs n (descriptionFileName s n) desc =
              (None, fs(descriptionFileName s n :=
                          Present \<lparr>bytes = b, mtime = now ev, fault = NoFault\<rparr>))"
          then obtain r b where r: "r \<in> set (rands ev)" and ns: "CHR ''/'' \<notin> set n"
            and fr: "fs (joinPath (path_Dir (descriptionFileName s n)) (n @ uitoa r @ ''.temp'')) =
              Missing"
            and enc: "encode s desc = Inr b"
            and q: "failCreateTemp ev = None" "failWrite ev = None" "failSync ev = None"
              "failClose ev = None" "failRename ev = None"
            and res: "UpdateDescription s ev fs n etag desc =
              (None, fs(descriptionFileName s n :=
                          Present \<lparr>bytes = b, mtime = now ev, fault = NoFault\<rparr>))"
            unfolding w by blast
          have own: "n = '''' \<or> fs (descriptionFileName s n) = Missing"
            using readDescription_NotExist_own [of n s fs] Inl True by blast
          have ?S using san ns q r fr res own tag enc by blast
          then show ?thesis ..
        qed
      qed
    qed
  next
    case (Inr old)
    from readDescription_Inr [OF Inr] obtain k f d where
      k: "(parentName ^^ k) n \<noteq> ''''"
        "\<forall>j < k. fs (descriptionFileName s ((parentName ^^ j) n)) = Missing"
        "fs (descriptionFileName s ((parentName ^^ k) n)) = Present f" "fault f = NoFault"
        "decode s (bytes f) = Inr d" "0 < k \<longrightarrow> AutoSubgroups d"
      by blast
    let ?nd = "desc\<lparr>Users := Users (upgradeDescription d),
                     FallbackUsers := FallbackUsers (upgradeDescription d),
                     AuthKeys := AuthKeys d\<rparr>"
    let ?fn = "descriptionFileName s ((parentName ^^ k) n)"
    note u = UpdateDescription_found [OF san k, of ev etag]
    show ?thesis
    proof (cases "makeETag (Size f) (mtime f) \<noteq> etag")
      case True
      then have ?E using u by simp
      then show ?thesis ..
    next
      case tag: False
      then have w: "UpdateDescription s ev fs n etag desc = writeDescription s ev fs n ?fn ?nd"
        using u by simp
      from writeDescription_cases [of s ev fs n ?fn ?nd]
      show ?thesis
      proof
        assume "\<exists>e. fst (writeDescription s ev fs n ?fn ?nd) = Some e \<and>
            e \<noteq> ErrTagMismatch \<and> e \<noteq> ErrNotSanitised \<and>
            (snd (writeDescription s ev fs n ?fn ?nd) = fs \<or>
             failRemoveTemp ev \<and>
             (\<exists>r \<in> set (rands ev). \<exists>a.
                fs (joinPath (path_Dir ?fn) (n @ uitoa r @ ''.temp'')) = Missing \<and>
                snd (writeDescription s ev fs n ?fn ?nd) =
                  fs(joinPath (path_Dir ?fn) (n @ uitoa r @ ''.temp'') := Present a)))"
        then have ?E unfolding w by blast
        then show ?thesis ..
      next
        assume "\<exists>r \<in> set (rands ev). \<exists>b.
            CHR ''/'' \<notin> set n \<and>
            fs (joinPath (path_Dir ?fn) (n @ uitoa r @ ''.temp'')) = Missing \<and>
            encode s ?nd = Inr b \<and> failCreateTemp ev = None \<and> failWrite ev = None \<and>
            failSync ev = None \<and> failClose ev = None \<and> failRename ev = None \<and>
            writeDescription s ev fs n ?fn ?nd =
              (None, fs(?fn := Present \<lparr>bytes = b, mtime = now ev, fault = NoFault\<rparr>))"
        then obtain r b where r: "r \<in> set (rands ev)" and ns: "CHR ''/'' \<notin> set n"
          and fr: "fs (joinPath (path_Dir ?fn) (n @ uitoa r @ ''.temp'')) = Missing"
          and enc: "encode s ?nd = Inr b"
          and q: "failCreateTemp ev = None" "failWrite ev = None" "failSync ev = None"
            "failClose ev = None" "failRename ev = None"
          and res: "UpdateDescription s ev fs n etag desc =
            (None, fs(?fn := Present \<lparr>bytes = b, mtime = now ev, fault = NoFault\<rparr>))"
          unfolding w by blast
        have k0: "k = 0"
          using funpow_parentName_slash [of k n] k(1) ns by (cases "k = 0") auto
        have n: "n \<noteq> ''''" using k(1) k0 by simp
        have fd: "\<exists>f d. n \<noteq> '''' \<and> fs (descriptionFileName s n) = Present f \<and>
               fault f = NoFault \<and>
               decode s (bytes f) = Inr d \<and> etag = makeETag (Size f) (mtime f) \<and>
               encode s (desc\<lparr>Users := Users (upgradeDescription d),
                               FallbackUsers := FallbackUsers (upgradeDescription d),
                               AuthKeys := AuthKeys d\<rparr>) = Inr b"
          using n k(3,4,5) tag enc unfolding k0 by auto
        have ?S using san ns q r fr res fd unfolding k0 by auto
        then show ?thesis ..
      qed
    qed
  qed
qed

lemma getDescriptionFile_Stat_own:
  "n \<noteq> '''' \<Longrightarrow> fs (descriptionFileName s n) = Present f \<Longrightarrow>
   getDescriptionFile s n (os_Stat fs) = Inr (f, descriptionFileName s n, False)"
  using getDescriptionFile_own [of n "os_Stat fs" s f] by (simp add: os_Stat_Present)

lemma GetDescriptionTag_own:
  "n \<noteq> '''' \<Longrightarrow> fs (descriptionFileName s n) = Present f \<Longrightarrow>
   GetDescriptionTag s fs n = Inr (makeETag (Size f) (mtime f))"
  by (simp add: GetDescriptionTag_def getDescriptionFile_Stat_own)

lemma DeleteDescription_own:
  "n \<noteq> '''' \<Longrightarrow> fs (descriptionFileName s n) = Present f \<Longrightarrow>
   DeleteDescription s ev fs n etag =
     (if etag \<noteq> makeETag (Size f) (mtime f) then (Some ErrTagMismatch, fs)
      else (case failRemove ev of
              Some e \<Rightarrow> (Some (osError e), fs)
            | None \<Rightarrow> (None, fs(descriptionFileName s n := Missing))))"
  by (simp add: DeleteDescription_def getDescriptionFile_Stat_own os_Remove_def
      split: option.splits)

lemma DeleteDescription_failing:
  assumes "n \<noteq> ''''" "fs (descriptionFileName s n) = Failing m"
  shows "DeleteDescription s ev fs n etag = (Some (ErrOther m), fs)"
proof -
  have "getDescriptionFile s n (os_Stat fs) = Inl (ErrOther m)"
    using getDescriptionFile_error [of 0 n "os_Stat fs" s "ErrOther m"] assms
    by (simp add: os_Stat_Failing)
  then show ?thesis by (simp add: DeleteDescription_def)
qed

lemma DeleteDescription_missing:
  assumes "n = '''' \<or> fs (descriptionFileName s n) = Missing"
  shows "DeleteDescription s ev fs n etag = (Some ErrNotExist, fs) \<or>
     (\<exists>j m. 0 < j \<and> (parentName ^^ j) n \<noteq> '''' \<and>
            fs (descriptionFileName s ((parentName ^^ j) n)) = Failing m \<and>
            DeleteDescription s ev fs n etag = (Some (ErrOther m), fs))"
proof (cases "getDescriptionFile s n (os_Stat fs)")
  case (Inl e)
  then have d: "DeleteDescription s ev fs n etag = (Some e, fs)"
    by (simp add: DeleteDescription_def)
  from getDescriptionFileFrom_Inl [OF Inl [unfolded getDescriptionFile_def]]
  show ?thesis
  proof
    assume "e = ErrNotExist"
    then show ?thesis using d by simp
  next
    assume "\<exists>k. (parentName ^^ k) n \<noteq> '''' \<and>
        os_Stat fs (descriptionFileName s ((parentName ^^ k) n)) = Inl e \<and>
        (\<forall>j < k. os_Stat fs (descriptionFileName s ((parentName ^^ j) n)) = Inl ErrNotExist)"
    then obtain k where k: "(parentName ^^ k) n \<noteq> ''''"
      "os_Stat fs (descriptionFileName s ((parentName ^^ k) n)) = Inl e"
      by blast
    from os_Stat_Inl [OF k(2)] show ?thesis
    proof
      assume "e = ErrNotExist \<and> fs (descriptionFileName s ((parentName ^^ k) n)) = Missing"
      then show ?thesis using d by simp
    next
      assume "\<exists>m. e = ErrOther m \<and> fs (descriptionFileName s ((parentName ^^ k) n)) = Failing m"
      then obtain m where m: "e = ErrOther m"
        "fs (descriptionFileName s ((parentName ^^ k) n)) = Failing m" by blast
      have "0 < k" using assms k(1) m(2) by (cases "k = 0") auto
      then show ?thesis using k(1) m d by blast
    qed
  qed
next
  case (Inr x)
  obtain fi fileName isParent where x: "x = (fi, fileName, isParent)" by (cases x)
  from getDescriptionFileFrom_Inr [OF Inr [unfolded getDescriptionFile_def x]] obtain k where
    k: "(parentName ^^ k) n \<noteq> ''''" "fileName = descriptionFileName s ((parentName ^^ k) n)"
      "os_Stat fs fileName = Inr fi" "isParent = (False \<or> 0 < k)"
    by blast
  have "fs (descriptionFileName s ((parentName ^^ k) n)) = Present fi"
    using os_Stat_Inr [OF k(3)] k(2) by simp
  then have "0 < k" using assms k(1) by (cases "k = 0") auto
  then have "isParent" using k(4) by simp
  then show ?thesis using Inr x by (simp add: DeleteDescription_def)
qed

lemma DeleteDescription_success:
  assumes "DeleteDescription s ev fs n etag = (None, fs')"
  shows "n \<noteq> '''' \<and> failRemove ev = None \<and>
     (\<exists>f. fs (descriptionFileName s n) = Present f \<and> etag = makeETag (Size f) (mtime f)) \<and>
     fs' = fs(descriptionFileName s n := Missing)"
proof (cases "n = '''' \<or> fs (descriptionFileName s n) = Missing")
  case True
  from DeleteDescription_missing [of n fs s ev etag] True show ?thesis using assms by auto
next
  case False
  then have n: "n \<noteq> ''''" by simp
  show ?thesis
  proof (cases "fs (descriptionFileName s n)")
    case Missing
    then show ?thesis using False by simp
  next
    case (Failing m)
    then show ?thesis using DeleteDescription_failing [of n fs s m ev etag] n assms by simp
  next
    case (Present f)
    show ?thesis
      using DeleteDescription_own [of n fs s f ev etag] assms Present n
      by (auto split: if_splits option.splits)
  qed
qed

subsection \<open>The tag\<close>

lemma digit_table_inj:
  "a < 10 \<Longrightarrow> b < 10 \<Longrightarrow> ''0123456789'' ! a = ''0123456789'' ! b \<Longrightarrow> a = b"
proof -
  assume a: "a < 10" "b < 10" "''0123456789'' ! a = ''0123456789'' ! b"
  have "distinct ''0123456789''" by simp
  then show ?thesis using a by (simp add: nth_eq_iff_index_eq)
qed

lemma uitoa_length_small: "n < 10 \<Longrightarrow> length (uitoa n) = 1"
  by (subst uitoa.simps) simp

lemma uitoa_length_big: "\<not> n < 10 \<Longrightarrow> length (uitoa n) \<ge> 2"
proof -
  assume a: "\<not> n < 10"
  have "length (uitoa (n div 10)) \<ge> 1"
    using uitoa_nonempty [of "n div 10"] by (cases "uitoa (n div 10)") simp_all
  then show ?thesis using a by (subst uitoa.simps) simp
qed

lemma uitoa_inj: "uitoa a = uitoa b \<Longrightarrow> a = b"
proof (induction a arbitrary: b rule: uitoa.induct)
  case (1 n)
  show ?case
  proof (cases "n < 10")
    case True
    have b: "b < 10"
      using uitoa_length_small [OF True] uitoa_length_big [of b] "1.prems" by force
    have "[''0123456789'' ! n] = [''0123456789'' ! b]"
      using "1.prems" True b uitoa.simps [of n] uitoa.simps [of b] by simp
    then show ?thesis using digit_table_inj [OF True b] by simp
  next
    case False
    have b: "\<not> b < 10"
      using uitoa_length_small [of b] uitoa_length_big [OF False] "1.prems" by force
    have "uitoa (n div 10) @ [''0123456789'' ! (n mod 10)] =
          uitoa (b div 10) @ [''0123456789'' ! (b mod 10)]"
      using "1.prems" False b uitoa.simps [of n] uitoa.simps [of b] by simp
    then have e: "uitoa (n div 10) = uitoa (b div 10)"
      "''0123456789'' ! (n mod 10) = ''0123456789'' ! (b mod 10)"
      by simp_all
    have "n div 10 = b div 10" using "1.IH" [OF False e(1)] .
    moreover have "n mod 10 = b mod 10"
      using digit_table_inj [of "n mod 10" "b mod 10"] e(2) by simp
    ultimately show ?thesis by (metis div_mult_mod_eq)
  qed
qed

lemma uitoa_no_minus: "CHR ''-'' \<notin> set (uitoa r)"
  using uitoa_digits [of r] by auto

lemma itoa_nonempty [simp]: "itoa i \<noteq> ''''"
  by (simp add: itoa_def)

lemma itoa_tl_no_minus: "CHR ''-'' \<notin> set (tl (itoa i))"
proof (cases "i < 0")
  case True
  then show ?thesis using uitoa_no_minus by (simp add: itoa_def)
next
  case False
  have "set (tl (uitoa (nat i))) \<subseteq> set (uitoa (nat i))"
    by (cases "uitoa (nat i)") auto
  then show ?thesis using False uitoa_no_minus [of "nat i"] by (auto simp: itoa_def)
qed

lemma itoa_inj: "itoa a = itoa b \<Longrightarrow> a = b"
proof -
  assume e: "itoa a = itoa b"
  have hd: "\<And>r. hd (uitoa r) \<noteq> CHR ''-''"
  proof -
    fix r
    have "hd (uitoa r) \<in> set (uitoa r)" by simp
    then show "hd (uitoa r) \<noteq> CHR ''-''" using uitoa_no_minus [of r] by metis
  qed
  show ?thesis
  proof (cases "a < 0")
    case a: True
    show ?thesis
    proof (cases "b < 0")
      case True
      then have "uitoa (nat (- a)) = uitoa (nat (- b))" using e a by (simp add: itoa_def)
      then have "nat (- a) = nat (- b)" by (rule uitoa_inj)
      then show ?thesis using a True by simp
    next
      case False
      then have "CHR ''-'' # uitoa (nat (- a)) = uitoa (nat b)" using e a by (simp add: itoa_def)
      then have "hd (uitoa (nat b)) = CHR ''-''" by (metis list.sel(1))
      then show ?thesis using hd by blast
    qed
  next
    case a: False
    show ?thesis
    proof (cases "b < 0")
      case True
      then have "uitoa (nat a) = CHR ''-'' # uitoa (nat (- b))" using e a by (simp add: itoa_def)
      then have "hd (uitoa (nat a)) = CHR ''-''" by (metis list.sel(1))
      then show ?thesis using hd by blast
    next
      case False
      then have "uitoa (nat a) = uitoa (nat b)" using e a by (simp add: itoa_def)
      then have "nat a = nat b" by (rule uitoa_inj)
      then show ?thesis using a False by simp
    qed
  qed
qed

lemma itoa_split:
  assumes "itoa a @ CHR ''-'' # x = itoa c @ CHR ''-'' # y"
  shows "itoa a = itoa c \<and> x = y"
proof -
  from assms obtain us where
    us: "itoa a = itoa c @ us \<and> us @ CHR ''-'' # x = CHR ''-'' # y \<or>
         itoa a @ us = itoa c \<and> CHR ''-'' # x = us @ CHR ''-'' # y"
    by (auto simp: append_eq_append_conv2)
  have no: "\<And>i v w. itoa i \<noteq> itoa v @ CHR ''-'' # w"
  proof
    fix i v w assume "itoa i = itoa v @ CHR ''-'' # w"
    then have "tl (itoa i) = tl (itoa v) @ CHR ''-'' # w"
      by (cases "itoa v") simp_all
    then have "CHR ''-'' \<in> set (tl (itoa i))" by simp
    then show False using itoa_tl_no_minus by blast
  qed
  show ?thesis
  proof (cases "us = []")
    case True
    then show ?thesis using us by auto
  next
    case False
    then obtain u us' where u: "us = u # us'" by (cases us) auto
    have "u = CHR ''-''" using us u by auto
    then show ?thesis using us u no [of a c us'] no [of c a us'] by auto
  qed
qed

lemma makeETag_inj: "makeETag a b = makeETag c d \<longleftrightarrow> a = c \<and> b = d"
proof
  assume "makeETag a b = makeETag c d"
  then have "itoa a @ CHR ''-'' # itoa b = itoa c @ CHR ''-'' # itoa d"
    by (simp add: makeETag_def)
  from itoa_split [OF this] show "a = c \<and> b = d"
    using itoa_inj by blast
next
  assume "a = c \<and> b = d"
  then show "makeETag a b = makeETag c d" by simp
qed

subsection \<open>The examples\<close>

lemma room_names:
  "parentName ''room'' = ''''"
  "descriptionFileName exampleSys ''room'' = ''groups/room.json''"
  "path_Dir ''groups/room.json'' = ''groups''"
  "path_Dir ''groups/group.json'' = ''groups''"
  "joinPath ''groups'' (''room'' @ uitoa 7 @ ''.temp'') = ''groups/room7.temp''"
  by (simp_all add: parentName_def path_Split_def strings_TrimRight_def descriptionFileName_def
      exampleSys_def path_Clean_def Let_def filepath_Join_def path_Dir_def joinPath_def
      uitoa.simps)

lemma example_decode:
  "decode exampleSys docAuto =
     Inr (zeroDescription\<lparr>Description := ''Main room'', Public := True, AutoSubgroups := True\<rparr>)"
  "decode exampleSys docRoom = Inr (zeroDescription\<lparr>DisplayName := ''Room''\<rparr>)"
  "decode exampleSys docUsers =
     Inr (zeroDescription\<lparr>DisplayName := ''Room'', Users := Some jchUsers\<rparr>)"
  "decode exampleSys (docUsers @ newline) =
     Inr (zeroDescription\<lparr>DisplayName := ''Room'', Users := Some jchUsers\<rparr>)"
  "decode exampleSys (docHall @ newline) =
     Inr (zeroDescription\<lparr>DisplayName := ''Hall'', Users := Some jchUsers\<rparr>)"
  "decode exampleSys docOp =
     Inr (zeroDescription
            \<lparr>Op := Some [\<lparr>Username = ''jch'',
                  Password = Some \<lparr>Type = ''plain'', credential = ''topsecret''\<rparr>\<rparr>]\<rparr>)"
  "decode exampleSys ''{'' = Inl ''invalid character''"
  by (simp_all add: exampleSys_def exampleDecode_def chomp_def newline_def docAuto_def
      docLegacy_def docRoom_def docUsers_def docHall_def docOp_def)

lemma example_encode:
  "encode exampleSys (zeroDescription\<lparr>DisplayName := ''Room''\<rparr>) = Inr (docRoom @ newline)"
  "encode exampleSys (zeroDescription\<lparr>DisplayName := ''Hall'', Users := Some jchUsers\<rparr>) =
     Inr (docHall @ newline)"
  "encode exampleSys (zeroDescription\<lparr>DisplayName := ''Room'', Users := Some jchUsers\<rparr>) =
     Inr (docUsers @ newline)"
  by (simp_all add: exampleSys_def exampleEncode_def zeroDescription_def docRoom_def docHall_def
      docUsers_def)

lemma example_sizes:
  "Size \<lparr>bytes = docUsers, mtime = t, fault = x\<rparr> = 82"
  "Size \<lparr>bytes = docUsers @ newline, mtime = t, fault = x\<rparr> = 83"
  "Size \<lparr>bytes = docHall @ newline, mtime = t, fault = x\<rparr> = 83"
  "Size \<lparr>bytes = docAuto, mtime = t, fault = x\<rparr> = 63"
  "Size \<lparr>bytes = docRoom, mtime = t, fault = x\<rparr> = 22"
  "Size \<lparr>bytes = docOp, mtime = t, fault = x\<rparr> = 50"
  "Size \<lparr>bytes = ''{'', mtime = t, fault = x\<rparr> = 1"
  by (simp_all add: Size_def docUsers_def docHall_def docAuto_def docRoom_def docOp_def
      newline_def)

lemma quiet_flags:
  "failCreateTemp quietEnv = None" "failWrite quietEnv = None" "failSync quietEnv = None"
  "failClose quietEnv = None" "failRename quietEnv = None" "failRemove quietEnv = None"
  "\<not> failRemoveTemp quietEnv" "rands quietEnv = [7]" "now quietEnv = 300"
  by (simp_all add: quietEnv_def)

lemma example_upgraded:
  "upgradeDescription (zeroDescription\<lparr>DisplayName := x, Users := u\<rparr>) =
     zeroDescription\<lparr>DisplayName := x, Users := u\<rparr>"
  "upgradeDescription
     (zeroDescription
        \<lparr>Op := Some [\<lparr>Username = ''jch'',
              Password = Some \<lparr>Type = ''plain'', credential = ''topsecret''\<rparr>\<rparr>]\<rparr>) =
     zeroDescription\<lparr>Users := Some jchUsers\<rparr>"
  by (simp_all add: upgradeDescription_def zeroDescription_def upgradeUsers_def upgradeUser_def
      upgradePassword_def jchUsers_def Let_def)

lemma example_lengths:
  "int (length docUsers) = 82" "int (length (docUsers @ newline)) = 83"
  "int (length (docHall @ newline)) = 83" "int (length docAuto) = 63"
  "int (length docRoom) = 22" "int (length docOp) = 50"
  by (simp_all add: docUsers_def docHall_def docAuto_def docRoom_def docOp_def newline_def)

lemma example_update:
  assumes "fs ''groups/room.json'' = Present \<lparr>bytes = c, mtime = t, fault = NoFault\<rparr>"
    "decode exampleSys c = Inr d" "fs ''groups/room7.temp'' = Missing"
    "Users desc = None" "FallbackUsers desc = None" "AuthKeys desc = None"
    "desc\<lparr>Users := Users (upgradeDescription d),
          FallbackUsers := FallbackUsers (upgradeDescription d),
          AuthKeys := AuthKeys d\<rparr> = nd"
    "encode exampleSys nd = Inr b"
  shows "UpdateDescription exampleSys ev fs ''room'' etag desc =
     (if makeETag (int (length c)) t \<noteq> etag then (Some ErrTagMismatch, fs)
      else writeDescription exampleSys ev fs ''room'' ''groups/room.json'' nd)"
    and "UpdateDescription exampleSys quietEnv fs ''room'' (makeETag (int (length c)) t) desc =
     (None, fs(''groups/room.json'' := Present \<lparr>bytes = b, mtime = 300, fault = NoFault\<rparr>))"
proof -
  let ?f = "\<lparr>bytes = c, mtime = t, fault = NoFault\<rparr>"
  have k: "(parentName ^^ 0) ''room'' \<noteq> ''''"
    "\<forall>j < (0::nat). fs (descriptionFileName exampleSys ((parentName ^^ j) ''room'')) = Missing"
    "fs (descriptionFileName exampleSys ((parentName ^^ 0) ''room'')) = Present ?f"
    "fault ?f = NoFault" "decode exampleSys (bytes ?f) = Inr d"
    "0 < (0::nat) \<longrightarrow> AutoSubgroups d"
    using assms(1,2) by (simp_all add: room_names)
  show u: "\<And>ev etag. UpdateDescription exampleSys ev fs ''room'' etag desc =
     (if makeETag (int (length c)) t \<noteq> etag then (Some ErrTagMismatch, fs)
      else writeDescription exampleSys ev fs ''room'' ''groups/room.json'' nd)"
    using UpdateDescription_found [OF assms(4-6) k] assms(7)
    by (simp add: room_names Size_def)
  have t: "fs (joinPath (path_Dir ''groups/room.json'') (''room'' @ uitoa 7 @ ''.temp'')) = Missing"
    using assms(3) unfolding room_names(3) room_names(5) .
  have nf: "\<forall>m. fs ''groups/room.json'' \<noteq> Failing m" using assms(1) by simp
  have ns: "CHR ''/'' \<notin> set ''room''" by simp
  show "UpdateDescription exampleSys quietEnv fs ''room'' (makeETag (int (length c)) t) desc =
     (None, fs(''groups/room.json'' := Present \<lparr>bytes = b, mtime = 300, fault = NoFault\<rparr>))"
    unfolding u
    using writeDescription_quiet [OF quiet_flags(1-5) ns quiet_flags(8) t assms(8) nf]
    by (simp add: quiet_flags)
qed

lemma example_files:
  "fsUsers ''groups/room.json'' = Present \<lparr>bytes = docUsers, mtime = 100, fault = NoFault\<rparr>"
  "fsUsers ''groups/room7.temp'' = Missing"
  "fsSame ''groups/room.json'' =
     Present \<lparr>bytes = docUsers @ newline, mtime = 300, fault = NoFault\<rparr>"
  "fsSame ''groups/room7.temp'' = Missing"
  "fsHall ''groups/room.json'' =
     Present \<lparr>bytes = docHall @ newline, mtime = 300, fault = NoFault\<rparr>"
  "fsHall ''groups/room7.temp'' = Missing"
  "fsOp ''groups/room.json'' = Present \<lparr>bytes = docOp, mtime = 100, fault = NoFault\<rparr>"
  "fsOp ''groups/room7.temp'' = Missing"
  "fsBad ''groups/room.json'' = Present \<lparr>bytes = ''{'', mtime = 100, fault = NoFault\<rparr>"
  "noFiles p = Missing"
  by (simp_all add: fsUsers_def fsSame_def fsHall_def fsOp_def fsBad_def plainFile_def
      noFiles_def)

lemma example_written:
  "fsUsers(''groups/room.json'' :=
     Present \<lparr>bytes = docHall @ newline, mtime = 300, fault = NoFault\<rparr>) = fsHall"
  "fsOp(''groups/room.json'' :=
     Present \<lparr>bytes = docHall @ newline, mtime = 300, fault = NoFault\<rparr>) = fsHall"
  "fsSame(''groups/room.json'' :=
     Present \<lparr>bytes = docHall @ newline, mtime = 300, fault = NoFault\<rparr>) = fsHall"
  "fsHall(''groups/room.json'' :=
     Present \<lparr>bytes = docUsers @ newline, mtime = 300, fault = NoFault\<rparr>) = fsSame"
  "fsUsers(''groups/room.json'' := Missing) = noFiles"
  by (auto simp: fsUsers_def fsSame_def fsHall_def fsOp_def plainFile_def noFiles_def
      fun_eq_iff)

lemma hall_sanitised:
  "Users (zeroDescription\<lparr>DisplayName := x\<rparr>) = None"
  "FallbackUsers (zeroDescription\<lparr>DisplayName := x\<rparr>) = None"
  "AuthKeys (zeroDescription\<lparr>DisplayName := x\<rparr>) = None"
  by (simp_all add: zeroDescription_def)

lemma hall_newdesc:
  "(zeroDescription\<lparr>DisplayName := x\<rparr>)
     \<lparr>Users := Users (upgradeDescription (zeroDescription\<lparr>DisplayName := y, Users := u\<rparr>)),
      FallbackUsers :=
        FallbackUsers (upgradeDescription (zeroDescription\<lparr>DisplayName := y, Users := u\<rparr>)),
      AuthKeys := AuthKeys (zeroDescription\<lparr>DisplayName := y, Users := u\<rparr>)\<rparr> =
   zeroDescription\<lparr>DisplayName := x, Users := u\<rparr>"
  unfolding example_upgraded by (simp add: zeroDescription_def)

lemma update_room_users:
  "UpdateDescription exampleSys quietEnv fsUsers ''room'' (makeETag 82 100)
     (zeroDescription\<lparr>DisplayName := ''Hall''\<rparr>) = (None, fsHall)"
  using example_update(2) [OF example_files(1) example_decode(3) example_files(2)
      hall_sanitised hall_newdesc example_encode(2)]
  unfolding example_lengths example_written .

lemma update_room_same:
  "UpdateDescription exampleSys quietEnv fsSame ''room'' (makeETag 83 300)
     (zeroDescription\<lparr>DisplayName := ''Hall''\<rparr>) = (None, fsHall)"
  "UpdateDescription exampleSys quietEnv fsHall ''room'' (makeETag 83 300)
     (zeroDescription\<lparr>DisplayName := ''Room''\<rparr>) = (None, fsSame)"
  using example_update(2) [OF example_files(3) example_decode(4) example_files(4)
      hall_sanitised hall_newdesc example_encode(2)]
    example_update(2) [OF example_files(5) example_decode(5) example_files(6)
      hall_sanitised hall_newdesc example_encode(3)]
  unfolding example_lengths example_written by simp_all

lemma op_newdesc:
  "(zeroDescription\<lparr>DisplayName := x\<rparr>)
     \<lparr>Users := Users (upgradeDescription (zeroDescription
        \<lparr>Op := Some [\<lparr>Username = ''jch'',
              Password = Some \<lparr>Type = ''plain'', credential = ''topsecret''\<rparr>\<rparr>]\<rparr>)),
      FallbackUsers := FallbackUsers (upgradeDescription (zeroDescription
        \<lparr>Op := Some [\<lparr>Username = ''jch'',
              Password = Some \<lparr>Type = ''plain'', credential = ''topsecret''\<rparr>\<rparr>]\<rparr>)),
      AuthKeys := AuthKeys (zeroDescription
        \<lparr>Op := Some [\<lparr>Username = ''jch'',
              Password = Some \<lparr>Type = ''plain'', credential = ''topsecret''\<rparr>\<rparr>]\<rparr>)\<rparr> =
   zeroDescription\<lparr>DisplayName := x, Users := Some jchUsers\<rparr>"
  unfolding example_upgraded by (simp add: zeroDescription_def)

lemma update_room_op:
  "UpdateDescription exampleSys quietEnv fsOp ''room'' (makeETag 50 100)
     (zeroDescription\<lparr>DisplayName := ''Hall''\<rparr>) = (None, fsHall)"
  using example_update(2) [OF example_files(7) example_decode(6) example_files(8)
      hall_sanitised op_newdesc example_encode(2)]
  unfolding example_lengths example_written .

lemma create_room:
  "UpdateDescription exampleSys quietEnv noFiles ''room'' ''''
     (zeroDescription\<lparr>DisplayName := ''Room''\<rparr>) =
   (None, noFiles(''groups/room.json'' := plainFile (docRoom @ newline) 300))"
proof -
  let ?desc = "zeroDescription\<lparr>DisplayName := ''Room''\<rparr>"
  have rd: "readDescription exampleSys noFiles ''room'' = Inl ErrNotExist"
    by (rule readDescription_none) (simp add: example_files)
  have t: "noFiles (joinPath (path_Dir ''groups/room.json'') (''room'' @ uitoa 7 @ ''.temp'')) =
      Missing"
    by (rule example_files)
  have nf: "\<forall>m. noFiles ''groups/room.json'' \<noteq> Failing m" by (simp add: example_files)
  have ns: "CHR ''/'' \<notin> set ''room''" by simp
  show ?thesis
    using UpdateDescription_absent [OF hall_sanitised rd, of quietEnv "''''"]
      writeDescription_quiet [OF quiet_flags(1-5) ns quiet_flags(8) t example_encode(1) nf]
    by (simp add: room_names quiet_flags plainFile_def)
qed

lemma update_room_left_temp:
  "UpdateDescription exampleSys
     (quietEnv\<lparr>failSync := Some (EOTHER ''input/output error''), failRemoveTemp := True\<rparr>)
     fsUsers ''room'' (makeETag 82 100) (zeroDescription\<lparr>DisplayName := ''Hall''\<rparr>) =
   (Some (ErrOther ''input/output error''),
    fsUsers(''groups/room7.temp'' := plainFile (docHall @ newline) 300))"
proof -
  let ?ev = "quietEnv\<lparr>failSync := Some (EOTHER ''input/output error''), failRemoveTemp := True\<rparr>"
  let ?nd = "zeroDescription\<lparr>DisplayName := ''Hall'', Users := Some jchUsers\<rparr>"
  have u: "UpdateDescription exampleSys ?ev fsUsers ''room'' (makeETag 82 100)
             (zeroDescription\<lparr>DisplayName := ''Hall''\<rparr>) =
      writeDescription exampleSys ?ev fsUsers ''room'' ''groups/room.json'' ?nd"
    using example_update(1) [OF example_files(1) example_decode(3) example_files(2)
        hall_sanitised hall_newdesc example_encode(2), of ?ev "makeETag 82 100"]
    unfolding example_lengths by simp
  have ns: "CHR ''/'' \<notin> set ''room''" by simp
  have t: "fsUsers (joinPath ''groups'' (''room'' @ uitoa 7 @ ''.temp'')) = Missing"
    unfolding room_names(5) by (rule example_files)
  have ct: "os_CreateTemp fsUsers ''groups'' ''room*.temp'' 300 [7] =
      Inr (''groups/room7.temp'',
           fsUsers(''groups/room7.temp'' := Present \<lparr>bytes = '''', mtime = 300, fault = NoFault\<rparr>))"
    using os_CreateTemp_fresh [of "''room''" fsUsers "''groups''" 7 300 "[]"] ns t
    unfolding room_names(5) by simp
  show ?thesis
    unfolding u writeDescription_def
    by (simp add: quietEnv_def room_names(3) ct example_encode Let_def removeTemp_def
        osError_def plainFile_def)
qed

text \<open>
  C2. The claim is that a failing step always removes the temporary file. The source
  calls \<open>os.Remove(temp)\<close> on every error path and drops its result, so the file stays
  when the removal fails too. What holds is this. When the call returns an error and the
  removal of the temporary file does not fail, the file system is the one before the
  call. Whenever the call returns an error, every path that held something holds the same
  and the file of every group is as before: the one path that can differ is a new name
  ending in \<open>.temp\<close> in the directory of the target. A call that returns nil has met
  no failing step, had a new temporary name in the directory of the target, and leaves
  the file system as it was but for the file of the name, which holds the encoded
  description. And a call does return nil: for a name without slash that has a readable
  file, given its tag, a description without users and keys that the encoder accepts, no
  failing step and a free temporary name.
\<close>

theorem UpdateDescription_atomic:
  "(fst (UpdateDescription s ev fs n etag desc) \<noteq> None \<and> \<not> failRemoveTemp ev \<longrightarrow>
      snd (UpdateDescription s ev fs n etag desc) = fs) \<and>
   (fst (UpdateDescription s ev fs n etag desc) \<noteq> None \<longrightarrow>
      (\<forall>m. snd (UpdateDescription s ev fs n etag desc) (descriptionFileName s m) =
            fs (descriptionFileName s m)) \<and>
      (\<forall>p. fs p \<noteq> Missing \<longrightarrow> snd (UpdateDescription s ev fs n etag desc) p = fs p) \<and>
      (\<forall>p. snd (UpdateDescription s ev fs n etag desc) p \<noteq> fs p \<longrightarrow>
         (\<exists>k. \<exists>r \<in> set (rands ev).
            p = joinPath (path_Dir (descriptionFileName s ((parentName ^^ k) n)))
                  (n @ uitoa r @ ''.temp'')))) \<and>
   (fst (UpdateDescription s ev fs n etag desc) = None \<longrightarrow>
      failCreateTemp ev = None \<and> failWrite ev = None \<and> failSync ev = None \<and>
      failClose ev = None \<and> failRename ev = None \<and>
      (\<exists>r \<in> set (rands ev). \<exists>b.
         fs (joinPath (path_Dir (descriptionFileName s n)) (n @ uitoa r @ ''.temp'')) = Missing \<and>
         snd (UpdateDescription s ev fs n etag desc) =
           fs(descriptionFileName s n :=
                Present \<lparr>bytes = b, mtime = now ev, fault = NoFault\<rparr>) \<and>
         ((\<exists>f d. fs (descriptionFileName s n) = Present f \<and> decode s (bytes f) = Inr d \<and>
                 encode s (desc\<lparr>Users := Users (upgradeDescription d),
                                 FallbackUsers := FallbackUsers (upgradeDescription d),
                                 AuthKeys := AuthKeys d\<rparr>) = Inr b) \<or>
          ((n = '''' \<or> fs (descriptionFileName s n) = Missing) \<and> encode s desc = Inr b)))) \<and>
   (Users desc = None \<and> FallbackUsers desc = None \<and> AuthKeys desc = None \<and>
    n \<noteq> '''' \<and> CHR ''/'' \<notin> set n \<and>
    fs (descriptionFileName s n) = Present f \<and> fault f = NoFault \<and>
    decode s (bytes f) = Inr d \<and>
    encode s (desc\<lparr>Users := Users (upgradeDescription d),
                    FallbackUsers := FallbackUsers (upgradeDescription d),
                    AuthKeys := AuthKeys d\<rparr>) = Inr b \<and>
    failCreateTemp ev = None \<and> failWrite ev = None \<and> failSync ev = None \<and>
    failClose ev = None \<and> failRename ev = None \<and> rands ev = r # rs \<and>
    fs (joinPath (path_Dir (descriptionFileName s n)) (n @ uitoa r @ ''.temp'')) = Missing \<longrightarrow>
      UpdateDescription s ev fs n (makeETag (Size f) (mtime f)) desc =
        (None, fs(descriptionFileName s n :=
                    Present \<lparr>bytes = b, mtime = now ev, fault = NoFault\<rparr>)))"
proof -
  let ?U = "UpdateDescription s ev fs n etag desc"
  note oc = UpdateDescription_outcome [of s ev fs n etag desc]
  have err: "fst ?U \<noteq> None \<Longrightarrow>
      snd ?U = fs \<or>
      failRemoveTemp ev \<and>
      (\<exists>k. \<exists>r \<in> set (rands ev). \<exists>a.
         fs (joinPath (path_Dir (descriptionFileName s ((parentName ^^ k) n)))
               (n @ uitoa r @ ''.temp'')) = Missing \<and>
         snd ?U =
           fs(joinPath (path_Dir (descriptionFileName s ((parentName ^^ k) n)))
                (n @ uitoa r @ ''.temp'') := Present a))"
    using oc by auto
  have c1: "fst ?U \<noteq> None \<and> \<not> failRemoveTemp ev \<longrightarrow> snd ?U = fs"
    using err by blast
  have c2: "fst ?U \<noteq> None \<longrightarrow>
      (\<forall>m. snd ?U (descriptionFileName s m) = fs (descriptionFileName s m)) \<and>
      (\<forall>p. fs p \<noteq> Missing \<longrightarrow> snd ?U p = fs p) \<and>
      (\<forall>p. snd ?U p \<noteq> fs p \<longrightarrow>
         (\<exists>k. \<exists>r \<in> set (rands ev).
            p = joinPath (path_Dir (descriptionFileName s ((parentName ^^ k) n)))
                  (n @ uitoa r @ ''.temp'')))"
  proof
    assume "fst ?U \<noteq> None"
    from err [OF this] show "(\<forall>m. snd ?U (descriptionFileName s m) = fs (descriptionFileName s m)) \<and>
      (\<forall>p. fs p \<noteq> Missing \<longrightarrow> snd ?U p = fs p) \<and>
      (\<forall>p. snd ?U p \<noteq> fs p \<longrightarrow>
         (\<exists>k. \<exists>r \<in> set (rands ev).
            p = joinPath (path_Dir (descriptionFileName s ((parentName ^^ k) n)))
                  (n @ uitoa r @ ''.temp'')))"
    proof
      assume "snd ?U = fs"
      then show ?thesis by simp
    next
      assume "failRemoveTemp ev \<and>
        (\<exists>k. \<exists>r \<in> set (rands ev). \<exists>a.
           fs (joinPath (path_Dir (descriptionFileName s ((parentName ^^ k) n)))
                 (n @ uitoa r @ ''.temp'')) = Missing \<and>
           snd ?U =
             fs(joinPath (path_Dir (descriptionFileName s ((parentName ^^ k) n)))
                  (n @ uitoa r @ ''.temp'') := Present a))"
      then obtain k r a where r: "r \<in> set (rands ev)"
        and m: "fs (joinPath (path_Dir (descriptionFileName s ((parentName ^^ k) n)))
                 (n @ uitoa r @ ''.temp'')) = Missing"
        and u: "snd ?U =
             fs(joinPath (path_Dir (descriptionFileName s ((parentName ^^ k) n)))
                  (n @ uitoa r @ ''.temp'') := Present a)"
        by blast
      let ?t = "joinPath (path_Dir (descriptionFileName s ((parentName ^^ k) n)))
                  (n @ uitoa r @ ''.temp'')"
      have ne: "\<And>m. ?t \<noteq> descriptionFileName s m"
        using temp_not_description
          [of "path_Dir (descriptionFileName s ((parentName ^^ k) n))" "n @ uitoa r" s]
        by simp
      have a: "\<forall>m. snd ?U (descriptionFileName s m) = fs (descriptionFileName s m)"
        unfolding u using ne by (metis fun_upd_other)
      have b: "\<forall>p. fs p \<noteq> Missing \<longrightarrow> snd ?U p = fs p"
        unfolding u using m by auto
      have c: "\<forall>p. snd ?U p \<noteq> fs p \<longrightarrow>
         (\<exists>k. \<exists>r \<in> set (rands ev).
            p = joinPath (path_Dir (descriptionFileName s ((parentName ^^ k) n)))
                  (n @ uitoa r @ ''.temp''))"
      proof (intro allI impI)
        fix p assume "snd ?U p \<noteq> fs p"
        then have "p = ?t" unfolding u by (auto split: if_splits)
        then show "\<exists>k. \<exists>r \<in> set (rands ev).
            p = joinPath (path_Dir (descriptionFileName s ((parentName ^^ k) n)))
                  (n @ uitoa r @ ''.temp'')"
          using r by blast
      qed
      show ?thesis using a b c by blast
    qed
  qed
  have c3: "fst ?U = None \<longrightarrow>
      failCreateTemp ev = None \<and> failWrite ev = None \<and> failSync ev = None \<and>
      failClose ev = None \<and> failRename ev = None \<and>
      (\<exists>r \<in> set (rands ev). \<exists>b.
         fs (joinPath (path_Dir (descriptionFileName s n)) (n @ uitoa r @ ''.temp'')) = Missing \<and>
         snd ?U =
           fs(descriptionFileName s n :=
                Present \<lparr>bytes = b, mtime = now ev, fault = NoFault\<rparr>) \<and>
         ((\<exists>f d. fs (descriptionFileName s n) = Present f \<and> decode s (bytes f) = Inr d \<and>
                 encode s (desc\<lparr>Users := Users (upgradeDescription d),
                                 FallbackUsers := FallbackUsers (upgradeDescription d),
                                 AuthKeys := AuthKeys d\<rparr>) = Inr b) \<or>
          ((n = '''' \<or> fs (descriptionFileName s n) = Missing) \<and> encode s desc = Inr b)))"
  proof
    assume ok: "fst ?U = None"
    then have "Users desc = None \<and> FallbackUsers desc = None \<and> AuthKeys desc = None \<and>
      CHR ''/'' \<notin> set n \<and>
      failCreateTemp ev = None \<and> failWrite ev = None \<and> failSync ev = None \<and>
      failClose ev = None \<and> failRename ev = None \<and>
      (\<exists>r \<in> set (rands ev). \<exists>b.
         fs (joinPath (path_Dir (descriptionFileName s n)) (n @ uitoa r @ ''.temp'')) = Missing \<and>
         ?U = (None, fs(descriptionFileName s n :=
                     Present \<lparr>bytes = b, mtime = now ev, fault = NoFault\<rparr>)) \<and>
         ((\<exists>f d. n \<noteq> '''' \<and> fs (descriptionFileName s n) = Present f \<and> fault f = NoFault \<and>
                 decode s (bytes f) = Inr d \<and> etag = makeETag (Size f) (mtime f) \<and>
                 encode s (desc\<lparr>Users := Users (upgradeDescription d),
                                 FallbackUsers := FallbackUsers (upgradeDescription d),
                                 AuthKeys := AuthKeys d\<rparr>) = Inr b) \<or>
          ((n = '''' \<or> fs (descriptionFileName s n) = Missing) \<and> etag = '''' \<and>
           encode s desc = Inr b)))"
      using oc by auto
    then obtain r b where q: "failCreateTemp ev = None" "failWrite ev = None"
        "failSync ev = None" "failClose ev = None" "failRename ev = None"
      and r: "r \<in> set (rands ev)"
        "fs (joinPath (path_Dir (descriptionFileName s n)) (n @ uitoa r @ ''.temp'')) = Missing"
      and u: "?U = (None, fs(descriptionFileName s n :=
                     Present \<lparr>bytes = b, mtime = now ev, fault = NoFault\<rparr>))"
      and w: "(\<exists>f d. fs (descriptionFileName s n) = Present f \<and> decode s (bytes f) = Inr d \<and>
                 encode s (desc\<lparr>Users := Users (upgradeDescription d),
                                 FallbackUsers := FallbackUsers (upgradeDescription d),
                                 AuthKeys := AuthKeys d\<rparr>) = Inr b) \<or>
          ((n = '''' \<or> fs (descriptionFileName s n) = Missing) \<and> encode s desc = Inr b)"
      by blast
    have "snd ?U = fs(descriptionFileName s n :=
                     Present \<lparr>bytes = b, mtime = now ev, fault = NoFault\<rparr>)"
      unfolding u by simp
    then show "failCreateTemp ev = None \<and> failWrite ev = None \<and> failSync ev = None \<and>
      failClose ev = None \<and> failRename ev = None \<and>
      (\<exists>r \<in> set (rands ev). \<exists>b.
         fs (joinPath (path_Dir (descriptionFileName s n)) (n @ uitoa r @ ''.temp'')) = Missing \<and>
         snd ?U =
           fs(descriptionFileName s n :=
                Present \<lparr>bytes = b, mtime = now ev, fault = NoFault\<rparr>) \<and>
         ((\<exists>f d. fs (descriptionFileName s n) = Present f \<and> decode s (bytes f) = Inr d \<and>
                 encode s (desc\<lparr>Users := Users (upgradeDescription d),
                                 FallbackUsers := FallbackUsers (upgradeDescription d),
                                 AuthKeys := AuthKeys d\<rparr>) = Inr b) \<or>
          ((n = '''' \<or> fs (descriptionFileName s n) = Missing) \<and> encode s desc = Inr b)))"
      using q r w by blast
  qed
  have c4: "Users desc = None \<and> FallbackUsers desc = None \<and> AuthKeys desc = None \<and>
    n \<noteq> '''' \<and> CHR ''/'' \<notin> set n \<and>
    fs (descriptionFileName s n) = Present f \<and> fault f = NoFault \<and>
    decode s (bytes f) = Inr d \<and>
    encode s (desc\<lparr>Users := Users (upgradeDescription d),
                    FallbackUsers := FallbackUsers (upgradeDescription d),
                    AuthKeys := AuthKeys d\<rparr>) = Inr b \<and>
    failCreateTemp ev = None \<and> failWrite ev = None \<and> failSync ev = None \<and>
    failClose ev = None \<and> failRename ev = None \<and> rands ev = r # rs \<and>
    fs (joinPath (path_Dir (descriptionFileName s n)) (n @ uitoa r @ ''.temp'')) = Missing \<longrightarrow>
      UpdateDescription s ev fs n (makeETag (Size f) (mtime f)) desc =
        (None, fs(descriptionFileName s n :=
                    Present \<lparr>bytes = b, mtime = now ev, fault = NoFault\<rparr>))"
  proof
    assume h: "Users desc = None \<and> FallbackUsers desc = None \<and> AuthKeys desc = None \<and>
      n \<noteq> '''' \<and> CHR ''/'' \<notin> set n \<and>
      fs (descriptionFileName s n) = Present f \<and> fault f = NoFault \<and>
      decode s (bytes f) = Inr d \<and>
      encode s (desc\<lparr>Users := Users (upgradeDescription d),
                      FallbackUsers := FallbackUsers (upgradeDescription d),
                      AuthKeys := AuthKeys d\<rparr>) = Inr b \<and>
      failCreateTemp ev = None \<and> failWrite ev = None \<and> failSync ev = None \<and>
      failClose ev = None \<and> failRename ev = None \<and> rands ev = r # rs \<and>
      fs (joinPath (path_Dir (descriptionFileName s n)) (n @ uitoa r @ ''.temp'')) = Missing"
    have k: "(parentName ^^ 0) n \<noteq> ''''"
      "\<forall>j < (0::nat). fs (descriptionFileName s ((parentName ^^ j) n)) = Missing"
      "fs (descriptionFileName s ((parentName ^^ 0) n)) = Present f"
      "0 < (0::nat) \<longrightarrow> AutoSubgroups d"
      using h by simp_all
    have san: "Users desc = None" "FallbackUsers desc = None" "AuthKeys desc = None"
      and nf: "fault f = NoFault" and dec: "decode s (bytes f) = Inr d"
      using h by simp_all
    have u: "UpdateDescription s ev fs n (makeETag (Size f) (mtime f)) desc =
        writeDescription s ev fs n (descriptionFileName s n)
          (desc\<lparr>Users := Users (upgradeDescription d),
                FallbackUsers := FallbackUsers (upgradeDescription d),
                AuthKeys := AuthKeys d\<rparr>)"
      using UpdateDescription_found [OF san k(1,2,3) nf dec k(4), of ev
          "makeETag (Size f) (mtime f)"]
      by simp
    have e: "\<forall>m. fs (descriptionFileName s n) \<noteq> Failing m" using h by simp
    show "UpdateDescription s ev fs n (makeETag (Size f) (mtime f)) desc =
        (None, fs(descriptionFileName s n :=
                    Present \<lparr>bytes = b, mtime = now ev, fault = NoFault\<rparr>))"
      unfolding u
      using writeDescription_quiet [of ev n r rs fs "descriptionFileName s n" s _ b] h e
      by simp
  qed
  show ?thesis using c1 c2 c3 c4 by (intro conjI)
qed

theorem UpdateDescription_atomic_witness:
  "fst (UpdateDescription exampleSys
          (quietEnv\<lparr>failSync := Some (EOTHER ''input/output error'')\<rparr>) fsUsers ''room''
          (makeETag 82 100) (zeroDescription\<lparr>DisplayName := ''Hall''\<rparr>)) \<noteq> None \<and>
   snd (UpdateDescription exampleSys
          (quietEnv\<lparr>failSync := Some (EOTHER ''input/output error'')\<rparr>) fsUsers ''room''
          (makeETag 82 100) (zeroDescription\<lparr>DisplayName := ''Hall''\<rparr>)) = fsUsers \<and>
   fst (UpdateDescription exampleSys
          (quietEnv\<lparr>failSync := Some (EOTHER ''input/output error''), failRemoveTemp := True\<rparr>)
          fsUsers ''room'' (makeETag 82 100) (zeroDescription\<lparr>DisplayName := ''Hall''\<rparr>)) \<noteq> None \<and>
   snd (UpdateDescription exampleSys
          (quietEnv\<lparr>failSync := Some (EOTHER ''input/output error''), failRemoveTemp := True\<rparr>)
          fsUsers ''room'' (makeETag 82 100) (zeroDescription\<lparr>DisplayName := ''Hall''\<rparr>))
     ''groups/room.json'' = plainFile docUsers 100 \<and>
   fsUsers ''groups/room.json'' = Present \<lparr>bytes = docUsers, mtime = 100, fault = NoFault\<rparr> \<and>
   decode exampleSys docUsers =
     Inr (zeroDescription\<lparr>DisplayName := ''Room'', Users := Some jchUsers\<rparr>) \<and>
   encode exampleSys (zeroDescription\<lparr>DisplayName := ''Hall'', Users := Some jchUsers\<rparr>) =
     Inr (docHall @ newline) \<and>
   rands quietEnv = [7] \<and> fsUsers ''groups/room7.temp'' = Missing \<and>
   UpdateDescription exampleSys quietEnv fsUsers ''room'' (makeETag 82 100)
     (zeroDescription\<lparr>DisplayName := ''Hall''\<rparr>) =
     (None, fsUsers(''groups/room.json'' := plainFile (docHall @ newline) 300))"
proof -
  let ?e1 = "quietEnv\<lparr>failSync := Some (EOTHER ''input/output error'')\<rparr>"
  let ?e2 = "quietEnv\<lparr>failSync := Some (EOTHER ''input/output error''), failRemoveTemp := True\<rparr>"
  let ?desc = "zeroDescription\<lparr>DisplayName := ''Hall''\<rparr>"
  let ?f = "\<lparr>bytes = docUsers, mtime = 100, fault = NoFault\<rparr>"
  let ?d = "zeroDescription\<lparr>DisplayName := ''Room'', Users := Some jchUsers\<rparr>"
  note T1 = UpdateDescription_atomic [where s = exampleSys and ev = ?e1 and fs = fsUsers
      and n = "''room''" and etag = "makeETag 82 100" and desc = ?desc and f = ?f and d = ?d
      and b = "docHall @ newline" and r = 7 and rs = "[]"]
  note T2 = UpdateDescription_atomic [where s = exampleSys and ev = ?e2 and fs = fsUsers
      and n = "''room''" and etag = "makeETag 82 100" and desc = ?desc and f = ?f and d = ?d
      and b = "docHall @ newline" and r = 7 and rs = "[]"]
  note T3 = UpdateDescription_atomic [where s = exampleSys and ev = quietEnv and fs = fsUsers
      and n = "''room''" and etag = "''''" and desc = ?desc and f = ?f and d = ?d
      and b = "docHall @ newline" and r = 7 and rs = "[]"]
  have f1: "failSync ?e1 \<noteq> None" "\<not> failRemoveTemp ?e1" by (simp_all add: quietEnv_def)
  have f2: "failSync ?e2 \<noteq> None" by simp
  have 1: "fst (UpdateDescription exampleSys ?e1 fsUsers ''room'' (makeETag 82 100) ?desc) \<noteq> None"
    using T1 f1(1) by blast
  have 2: "snd (UpdateDescription exampleSys ?e1 fsUsers ''room'' (makeETag 82 100) ?desc) = fsUsers"
    using T1 1 f1(2) by blast
  have 3: "fst (UpdateDescription exampleSys ?e2 fsUsers ''room'' (makeETag 82 100) ?desc) \<noteq> None"
    using T2 f2 by blast
  have "snd (UpdateDescription exampleSys ?e2 fsUsers ''room'' (makeETag 82 100) ?desc)
          (descriptionFileName exampleSys ''room'') =
        fsUsers (descriptionFileName exampleSys ''room'')"
    using T2 3 by blast
  then have 4: "snd (UpdateDescription exampleSys ?e2 fsUsers ''room'' (makeETag 82 100) ?desc)
      ''groups/room.json'' = plainFile docUsers 100"
    unfolding room_names(2) example_files(1) plainFile_def .
  have h: "Users ?desc = None \<and> FallbackUsers ?desc = None \<and> AuthKeys ?desc = None \<and>
    ''room'' \<noteq> '''' \<and> CHR ''/'' \<notin> set ''room'' \<and>
    fsUsers (descriptionFileName exampleSys ''room'') = Present ?f \<and> fault ?f = NoFault \<and>
    decode exampleSys (bytes ?f) = Inr ?d \<and>
    encode exampleSys (?desc\<lparr>Users := Users (upgradeDescription ?d),
                    FallbackUsers := FallbackUsers (upgradeDescription ?d),
                    AuthKeys := AuthKeys ?d\<rparr>) = Inr (docHall @ newline) \<and>
    failCreateTemp quietEnv = None \<and> failWrite quietEnv = None \<and> failSync quietEnv = None \<and>
    failClose quietEnv = None \<and> failRename quietEnv = None \<and> rands quietEnv = 7 # [] \<and>
    fsUsers (joinPath (path_Dir (descriptionFileName exampleSys ''room''))
               (''room'' @ uitoa 7 @ ''.temp'')) = Missing"
    unfolding hall_newdesc room_names(2) room_names(3) room_names(5)
    using hall_sanitised example_files(1,2) example_decode(3) example_encode(2) quiet_flags
    by simp
  have "UpdateDescription exampleSys quietEnv fsUsers ''room'' (makeETag (Size ?f) (mtime ?f)) ?desc =
        (None, fsUsers(descriptionFileName exampleSys ''room'' :=
                    Present \<lparr>bytes = docHall @ newline, mtime = now quietEnv, fault = NoFault\<rparr>))"
    using T3 h by blast
  then have 5: "UpdateDescription exampleSys quietEnv fsUsers ''room'' (makeETag 82 100) ?desc =
     (None, fsUsers(''groups/room.json'' := plainFile (docHall @ newline) 300))"
    unfolding room_names(2) example_sizes quiet_flags plainFile_def by simp
  show ?thesis
    using 1 2 3 4 5 example_files(1,2) example_decode(3) example_encode(2) quiet_flags(8)
    by blast
qed

text \<open>
  The counterexample to C2 as it is worded. The sync fails and so does the removal of
  the temporary file: the update returns the error of the sync, and the temporary file,
  with the whole new document in it, is still there.
\<close>

theorem UpdateDescription_atomic_counterexample:
  "UpdateDescription exampleSys
     (quietEnv\<lparr>failSync := Some (EOTHER ''input/output error''), failRemoveTemp := True\<rparr>)
     fsUsers ''room'' (makeETag 82 100) (zeroDescription\<lparr>DisplayName := ''Hall''\<rparr>) =
   (Some (ErrOther ''input/output error''),
    fsUsers(''groups/room7.temp'' := plainFile (docHall @ newline) 300)) \<and>
   fsUsers ''groups/room7.temp'' = Missing"
  using update_room_left_temp example_files(2) by (intro conjI)

text \<open>
  C3. The claim is that the written document carries the users and keys of the stored
  version verbatim. \<open>UpdateDescription\<close> copies them from the description that
  \<open>readDescription\<close> returns, which is the stored one after the migration: for a stored
  file with obsolete lists the written users are the migrated ones, not those of the
  file. What holds is this. A description whose \<open>Users\<close>, \<open>FallbackUsers\<close> or
  \<open>AuthKeys\<close> is not nil is refused with the file system untouched. After a call that
  returns nil the three fields of the caller's description were nil, and the file of
  the name holds the encoding of the caller's description with, when the file existed and
  decoded to \<open>d\<close>, \<open>Users\<close> and \<open>FallbackUsers\<close> of the migrated \<open>d\<close> and \<open>AuthKeys\<close>
  of \<open>d\<close>, which are the three fields of \<open>d\<close> itself when \<open>d\<close> has no obsolete list;
  and the encoding of the caller's description as it is when the name had no file.
\<close>

theorem UpdateDescription_secrets:
  "(Users desc \<noteq> None \<or> FallbackUsers desc \<noteq> None \<or> AuthKeys desc \<noteq> None \<longrightarrow>
      UpdateDescription s ev fs n etag desc = (Some ErrNotSanitised, fs)) \<and>
   (fst (UpdateDescription s ev fs n etag desc) = None \<longrightarrow>
      Users desc = None \<and> FallbackUsers desc = None \<and> AuthKeys desc = None \<and>
      ((\<exists>f d b. fs (descriptionFileName s n) = Present f \<and> decode s (bytes f) = Inr d \<and>
           encode s (desc\<lparr>Users := Users (upgradeDescription d),
                           FallbackUsers := FallbackUsers (upgradeDescription d),
                           AuthKeys := AuthKeys d\<rparr>) = Inr b \<and>
           (Op d = None \<and> Presenter d = None \<and> Other d = None \<longrightarrow>
              encode s (desc\<lparr>Users := Users d, FallbackUsers := FallbackUsers d,
                              AuthKeys := AuthKeys d\<rparr>) = Inr b) \<and>
           snd (UpdateDescription s ev fs n etag desc) =
             fs(descriptionFileName s n :=
                  Present \<lparr>bytes = b, mtime = now ev, fault = NoFault\<rparr>)) \<or>
       ((n = '''' \<or> fs (descriptionFileName s n) = Missing) \<and>
        (\<exists>b. encode s desc = Inr b \<and>
           snd (UpdateDescription s ev fs n etag desc) =
             fs(descriptionFileName s n :=
                  Present \<lparr>bytes = b, mtime = now ev, fault = NoFault\<rparr>)))))"
proof (intro conjI impI)
  assume "Users desc \<noteq> None \<or> FallbackUsers desc \<noteq> None \<or> AuthKeys desc \<noteq> None"
  then show "UpdateDescription s ev fs n etag desc = (Some ErrNotSanitised, fs)"
    by (rule UpdateDescription_unsanitised)
next
  let ?U = "UpdateDescription s ev fs n etag desc"
  assume ok: "fst ?U = None"
  then have S: "Users desc = None \<and> FallbackUsers desc = None \<and> AuthKeys desc = None \<and>
      CHR ''/'' \<notin> set n \<and>
      failCreateTemp ev = None \<and> failWrite ev = None \<and> failSync ev = None \<and>
      failClose ev = None \<and> failRename ev = None \<and>
      (\<exists>r \<in> set (rands ev). \<exists>b.
         fs (joinPath (path_Dir (descriptionFileName s n)) (n @ uitoa r @ ''.temp'')) = Missing \<and>
         ?U = (None, fs(descriptionFileName s n :=
                     Present \<lparr>bytes = b, mtime = now ev, fault = NoFault\<rparr>)) \<and>
         ((\<exists>f d. n \<noteq> '''' \<and> fs (descriptionFileName s n) = Present f \<and> fault f = NoFault \<and>
                 decode s (bytes f) = Inr d \<and> etag = makeETag (Size f) (mtime f) \<and>
                 encode s (desc\<lparr>Users := Users (upgradeDescription d),
                                 FallbackUsers := FallbackUsers (upgradeDescription d),
                                 AuthKeys := AuthKeys d\<rparr>) = Inr b) \<or>
          ((n = '''' \<or> fs (descriptionFileName s n) = Missing) \<and> etag = '''' \<and>
           encode s desc = Inr b)))"
    using UpdateDescription_outcome [of s ev fs n etag desc] by auto
  show "Users desc = None" "FallbackUsers desc = None" "AuthKeys desc = None"
    using S by simp_all
  from S obtain b where
    u: "?U = (None, fs(descriptionFileName s n :=
                     Present \<lparr>bytes = b, mtime = now ev, fault = NoFault\<rparr>))"
    and w: "(\<exists>f d. fs (descriptionFileName s n) = Present f \<and>
                 decode s (bytes f) = Inr d \<and>
                 encode s (desc\<lparr>Users := Users (upgradeDescription d),
                                 FallbackUsers := FallbackUsers (upgradeDescription d),
                                 AuthKeys := AuthKeys d\<rparr>) = Inr b) \<or>
          ((n = '''' \<or> fs (descriptionFileName s n) = Missing) \<and> encode s desc = Inr b)"
    by blast
  have su: "snd ?U = fs(descriptionFileName s n :=
                     Present \<lparr>bytes = b, mtime = now ev, fault = NoFault\<rparr>)"
    unfolding u by simp
  from w show "(\<exists>f d b. fs (descriptionFileName s n) = Present f \<and> decode s (bytes f) = Inr d \<and>
           encode s (desc\<lparr>Users := Users (upgradeDescription d),
                           FallbackUsers := FallbackUsers (upgradeDescription d),
                           AuthKeys := AuthKeys d\<rparr>) = Inr b \<and>
           (Op d = None \<and> Presenter d = None \<and> Other d = None \<longrightarrow>
              encode s (desc\<lparr>Users := Users d, FallbackUsers := FallbackUsers d,
                              AuthKeys := AuthKeys d\<rparr>) = Inr b) \<and>
           snd ?U =
             fs(descriptionFileName s n :=
                  Present \<lparr>bytes = b, mtime = now ev, fault = NoFault\<rparr>)) \<or>
       ((n = '''' \<or> fs (descriptionFileName s n) = Missing) \<and>
        (\<exists>b. encode s desc = Inr b \<and>
           snd ?U =
             fs(descriptionFileName s n :=
                  Present \<lparr>bytes = b, mtime = now ev, fault = NoFault\<rparr>)))"
  proof
    assume "\<exists>f d. fs (descriptionFileName s n) = Present f \<and>
                 decode s (bytes f) = Inr d \<and>
                 encode s (desc\<lparr>Users := Users (upgradeDescription d),
                                 FallbackUsers := FallbackUsers (upgradeDescription d),
                                 AuthKeys := AuthKeys d\<rparr>) = Inr b"
    then obtain f d where f: "fs (descriptionFileName s n) = Present f"
      "decode s (bytes f) = Inr d"
      "encode s (desc\<lparr>Users := Users (upgradeDescription d),
                      FallbackUsers := FallbackUsers (upgradeDescription d),
                      AuthKeys := AuthKeys d\<rparr>) = Inr b"
      by blast
    have v: "Op d = None \<and> Presenter d = None \<and> Other d = None \<longrightarrow>
              encode s (desc\<lparr>Users := Users d, FallbackUsers := FallbackUsers d,
                              AuthKeys := AuthKeys d\<rparr>) = Inr b"
      using f(3) upgradeDescription_verbatim [of d] by auto
    show ?thesis using f v su by blast
  next
    assume "(n = '''' \<or> fs (descriptionFileName s n) = Missing) \<and> encode s desc = Inr b"
    then show ?thesis using su by blast
  qed
qed

theorem UpdateDescription_secrets_witness:
  "fst (UpdateDescription exampleSys quietEnv fsUsers ''room'' (makeETag 82 100)
          (zeroDescription\<lparr>DisplayName := ''Hall''\<rparr>)) = None \<and>
   fsUsers ''groups/room.json'' = Present \<lparr>bytes = docUsers, mtime = 100, fault = NoFault\<rparr> \<and>
   decode exampleSys docUsers =
     Inr (zeroDescription\<lparr>DisplayName := ''Room'', Users := Some jchUsers\<rparr>) \<and>
   encode exampleSys (zeroDescription\<lparr>DisplayName := ''Hall'', Users := Some jchUsers\<rparr>) =
     Inr (docHall @ newline) \<and>
   snd (UpdateDescription exampleSys quietEnv fsUsers ''room'' (makeETag 82 100)
          (zeroDescription\<lparr>DisplayName := ''Hall''\<rparr>)) =
     fsUsers(''groups/room.json'' := plainFile (docHall @ newline) 300) \<and>
   Users (zeroDescription\<lparr>Users := Some fmempty\<rparr>) \<noteq> None \<and>
   UpdateDescription exampleSys quietEnv fsUsers ''room'' (makeETag 82 100)
     (zeroDescription\<lparr>Users := Some fmempty\<rparr>) = (Some ErrNotSanitised, fsUsers)"
proof -
  let ?desc = "zeroDescription\<lparr>DisplayName := ''Hall''\<rparr>"
  let ?bad = "zeroDescription\<lparr>Users := Some fmempty\<rparr>"
  let ?d = "zeroDescription\<lparr>DisplayName := ''Room'', Users := Some jchUsers\<rparr>"
  let ?U = "UpdateDescription exampleSys quietEnv fsUsers ''room'' (makeETag 82 100) ?desc"
  note T = UpdateDescription_secrets [of ?desc exampleSys quietEnv fsUsers "''room''"
      "makeETag 82 100"]
  note B = UpdateDescription_secrets [of ?bad exampleSys quietEnv fsUsers "''room''"
      "makeETag 82 100"]
  have ok: "fst ?U = None" by (simp add: update_room_users)
  have own: "fsUsers (descriptionFileName exampleSys ''room'') =
      Present \<lparr>bytes = docUsers, mtime = 100, fault = NoFault\<rparr>"
    unfolding room_names(2) by (rule example_files)
  note D = T [THEN conjunct2, THEN mp, OF ok, THEN conjunct2, THEN conjunct2, THEN conjunct2]
  have nm: "\<not> (''room'' = '''' \<or> fsUsers (descriptionFileName exampleSys ''room'') = Missing)"
    using own by simp
  from D nm obtain f d b where
    f: "fsUsers (descriptionFileName exampleSys ''room'') = Present f"
      "decode exampleSys (bytes f) = Inr d"
      "Op d = None \<and> Presenter d = None \<and> Other d = None \<longrightarrow>
         encode exampleSys (?desc\<lparr>Users := Users d, FallbackUsers := FallbackUsers d,
                               AuthKeys := AuthKeys d\<rparr>) = Inr b"
      "snd ?U = fsUsers(descriptionFileName exampleSys ''room'' :=
                  Present \<lparr>bytes = b, mtime = now quietEnv, fault = NoFault\<rparr>)"
    by blast
  have ff: "f = \<lparr>bytes = docUsers, mtime = 100, fault = NoFault\<rparr>" using f(1) own by simp
  have dd: "d = ?d" using f(2) unfolding ff by (simp add: example_decode)
  have "encode exampleSys (?desc\<lparr>Users := Users ?d, FallbackUsers := FallbackUsers ?d,
                               AuthKeys := AuthKeys ?d\<rparr>) = Inr b"
    using f(3) unfolding dd by (simp add: zeroDescription_def)
  moreover have "?desc\<lparr>Users := Users ?d, FallbackUsers := FallbackUsers ?d,
                       AuthKeys := AuthKeys ?d\<rparr> =
      zeroDescription\<lparr>DisplayName := ''Hall'', Users := Some jchUsers\<rparr>"
    by (simp add: zeroDescription_def)
  ultimately have bb: "b = docHall @ newline" by (simp add: example_encode)
  have w: "snd ?U = fsUsers(''groups/room.json'' := plainFile (docHall @ newline) 300)"
    using f(4) unfolding bb room_names(2) quiet_flags plainFile_def .
  have u: "Users ?bad \<noteq> None" by simp
  have r: "UpdateDescription exampleSys quietEnv fsUsers ''room'' (makeETag 82 100) ?bad =
      (Some ErrNotSanitised, fsUsers)"
    using B u by blast
  show ?thesis using ok example_files(1) example_decode(3) example_encode(2) w u r by blast
qed

text \<open>
  The counterexample to C3 as it is worded. The stored file of \<open>room\<close> is in the
  obsolete format: it has the list \<open>op\<close> and no \<open>users\<close>. The update of the display
  name succeeds, and the document it writes has \<open>jch\<close> among its users, which the stored
  version did not have.
\<close>

theorem UpdateDescription_secrets_counterexample:
  "fsOp ''groups/room.json'' = Present \<lparr>bytes = docOp, mtime = 100, fault = NoFault\<rparr> \<and>
   decode exampleSys docOp =
     Inr (zeroDescription
            \<lparr>Op := Some [\<lparr>Username = ''jch'',
                  Password = Some \<lparr>Type = ''plain'', credential = ''topsecret''\<rparr>\<rparr>]\<rparr>) \<and>
   Users (zeroDescription
            \<lparr>Op := Some [\<lparr>Username = ''jch'',
                  Password = Some \<lparr>Type = ''plain'', credential = ''topsecret''\<rparr>\<rparr>]\<rparr>) = None \<and>
   UpdateDescription exampleSys quietEnv fsOp ''room'' (makeETag 50 100)
     (zeroDescription\<lparr>DisplayName := ''Hall''\<rparr>) = (None, fsHall) \<and>
   fsHall ''groups/room.json'' =
     Present \<lparr>bytes = docHall @ newline, mtime = 300, fault = NoFault\<rparr> \<and>
   decode exampleSys (docHall @ newline) =
     Inr (zeroDescription\<lparr>DisplayName := ''Hall'', Users := Some jchUsers\<rparr>) \<and>
   Users (zeroDescription\<lparr>DisplayName := ''Hall'', Users := Some jchUsers\<rparr>) = Some jchUsers"
proof -
  have u: "Users (zeroDescription
            \<lparr>Op := Some [\<lparr>Username = ''jch'',
                  Password = Some \<lparr>Type = ''plain'', credential = ''topsecret''\<rparr>\<rparr>]\<rparr>) = None"
    "Users (zeroDescription\<lparr>DisplayName := ''Hall'', Users := Some jchUsers\<rparr>) = Some jchUsers"
    by (simp_all add: zeroDescription_def)
  show ?thesis
    using example_files(7) example_decode(6) u(1) update_room_op example_files(5)
      example_decode(5) u(2)
    by (intro conjI)
qed

lemma writeDescription_not_conflict:
  "fst (writeDescription s ev fs n filename nd) \<noteq> Some ErrTagMismatch"
  using writeDescription_cases [of s ev fs n filename nd] by auto

lemma conflict_update_found:
  "Users desc = None \<and> FallbackUsers desc = None \<and> AuthKeys desc = None \<and>
    (parentName ^^ k) n \<noteq> '''' \<and>
    (\<forall>j < k. fs (descriptionFileName s ((parentName ^^ j) n)) = Missing) \<and>
    fs (descriptionFileName s ((parentName ^^ k) n)) = Present f \<and> fault f = NoFault \<and>
    decode s (bytes f) = Inr d \<and> (k = 0 \<or> AutoSubgroups d) \<longrightarrow>
      (fst (UpdateDescription s ev fs n etag desc) = Some ErrTagMismatch) =
      (etag \<noteq> makeETag (Size f) (mtime f))"
proof
  assume h: "Users desc = None \<and> FallbackUsers desc = None \<and> AuthKeys desc = None \<and>
    (parentName ^^ k) n \<noteq> '''' \<and>
    (\<forall>j < k. fs (descriptionFileName s ((parentName ^^ j) n)) = Missing) \<and>
    fs (descriptionFileName s ((parentName ^^ k) n)) = Present f \<and> fault f = NoFault \<and>
    decode s (bytes f) = Inr d \<and> (k = 0 \<or> AutoSubgroups d)"
  then have san: "Users desc = None" "FallbackUsers desc = None" "AuthKeys desc = None"
    and k: "(parentName ^^ k) n \<noteq> ''''"
      "\<forall>j < k. fs (descriptionFileName s ((parentName ^^ j) n)) = Missing"
      "fs (descriptionFileName s ((parentName ^^ k) n)) = Present f" "fault f = NoFault" "decode s (bytes f) = Inr d"
      "0 < k \<longrightarrow> AutoSubgroups d"
    by auto
  show "(fst (UpdateDescription s ev fs n etag desc) = Some ErrTagMismatch) = (etag \<noteq> makeETag (Size f) (mtime f))"
    unfolding UpdateDescription_found [OF san k]
    using writeDescription_not_conflict by auto
qed

lemma conflict_update_absent:
  "Users desc = None \<and> FallbackUsers desc = None \<and> AuthKeys desc = None \<and>
    ((\<forall>j. (parentName ^^ j) n \<noteq> '''' \<longrightarrow>
          fs (descriptionFileName s ((parentName ^^ j) n)) = Missing) \<or>
     0 < k \<and> (parentName ^^ k) n \<noteq> '''' \<and>
     (\<forall>j < k. fs (descriptionFileName s ((parentName ^^ j) n)) = Missing) \<and>
     fs (descriptionFileName s ((parentName ^^ k) n)) = Present f \<and> fault f = NoFault \<and>
     decode s (bytes f) = Inr d \<and> \<not> AutoSubgroups d) \<longrightarrow>
      (fst (UpdateDescription s ev fs n etag desc) = Some ErrTagMismatch) = (etag \<noteq> '''')"
proof
  assume h: "Users desc = None \<and> FallbackUsers desc = None \<and> AuthKeys desc = None \<and>
    ((\<forall>j. (parentName ^^ j) n \<noteq> '''' \<longrightarrow>
          fs (descriptionFileName s ((parentName ^^ j) n)) = Missing) \<or>
     0 < k \<and> (parentName ^^ k) n \<noteq> '''' \<and>
     (\<forall>j < k. fs (descriptionFileName s ((parentName ^^ j) n)) = Missing) \<and>
     fs (descriptionFileName s ((parentName ^^ k) n)) = Present f \<and> fault f = NoFault \<and>
     decode s (bytes f) = Inr d \<and> \<not> AutoSubgroups d)"
  then have san: "Users desc = None" "FallbackUsers desc = None" "AuthKeys desc = None"
    by simp_all
  have rd: "readDescription s fs n = Inl ErrNotExist"
  proof (cases "\<forall>j. (parentName ^^ j) n \<noteq> '''' \<longrightarrow>
          fs (descriptionFileName s ((parentName ^^ j) n)) = Missing")
    case True
    then show ?thesis by (rule readDescription_none)
  next
    case False
    then have a: "0 < k" "(parentName ^^ k) n \<noteq> ''''"
      "\<forall>j < k. fs (descriptionFileName s ((parentName ^^ j) n)) = Missing"
      "fs (descriptionFileName s ((parentName ^^ k) n)) = Present f" "fault f = NoFault"
      and b: "decode s (bytes f) = Inr d" "\<not> AutoSubgroups d"
      using h by auto
    show ?thesis using readDescription_ancestor [OF a] b by simp
  qed
  show "(fst (UpdateDescription s ev fs n etag desc) = Some ErrTagMismatch) = (etag \<noteq> '''')"
    unfolding UpdateDescription_absent [OF san rd]
    using writeDescription_not_conflict by auto
qed

lemma conflict_update_unsanitised:
  "Users desc \<noteq> None \<or> FallbackUsers desc \<noteq> None \<or> AuthKeys desc \<noteq> None \<longrightarrow>
      UpdateDescription s ev fs n etag desc = (Some ErrNotSanitised, fs)"
  by (simp add: UpdateDescription_unsanitised)

lemma conflict_update_failing:
  "Users desc = None \<and> FallbackUsers desc = None \<and> AuthKeys desc = None \<and>
    (parentName ^^ k) n \<noteq> '''' \<and>
    (\<forall>j < k. fs (descriptionFileName s ((parentName ^^ j) n)) = Missing) \<and>
    fs (descriptionFileName s ((parentName ^^ k) n)) = Failing m \<longrightarrow>
      UpdateDescription s ev fs n etag desc = (Some (ErrOther m), fs)"
proof
  assume h: "Users desc = None \<and> FallbackUsers desc = None \<and> AuthKeys desc = None \<and>
    (parentName ^^ k) n \<noteq> '''' \<and>
    (\<forall>j < k. fs (descriptionFileName s ((parentName ^^ j) n)) = Missing) \<and>
    fs (descriptionFileName s ((parentName ^^ k) n)) = Failing m"
  then have san: "Users desc = None" "FallbackUsers desc = None" "AuthKeys desc = None"
    and k: "(parentName ^^ k) n \<noteq> ''''"
      "\<forall>j < k. fs (descriptionFileName s ((parentName ^^ j) n)) = Missing"
      "fs (descriptionFileName s ((parentName ^^ k) n)) = Failing m"
    by auto
  have rd: "readDescription s fs n = Inl (ErrOther m)"
    using k by (rule readDescription_failing)
  show "UpdateDescription s ev fs n etag desc = (Some (ErrOther m), fs)"
    using san rd by (rule UpdateDescription_read_error) simp
qed

lemma conflict_update_malformed:
  "Users desc = None \<and> FallbackUsers desc = None \<and> AuthKeys desc = None \<and>
    (parentName ^^ k) n \<noteq> '''' \<and>
    (\<forall>j < k. fs (descriptionFileName s ((parentName ^^ j) n)) = Missing) \<and>
    fs (descriptionFileName s ((parentName ^^ k) n)) = Present f \<and> fault f = NoFault \<and>
    decode s (bytes f) = Inl msg \<longrightarrow>
      UpdateDescription s ev fs n etag desc = (Some (ErrDecode msg), fs)"
proof
  assume h: "Users desc = None \<and> FallbackUsers desc = None \<and> AuthKeys desc = None \<and>
    (parentName ^^ k) n \<noteq> '''' \<and>
    (\<forall>j < k. fs (descriptionFileName s ((parentName ^^ j) n)) = Missing) \<and>
    fs (descriptionFileName s ((parentName ^^ k) n)) = Present f \<and> fault f = NoFault \<and>
    decode s (bytes f) = Inl msg"
  then have san: "Users desc = None" "FallbackUsers desc = None" "AuthKeys desc = None"
    and k: "(parentName ^^ k) n \<noteq> ''''"
      "\<forall>j < k. fs (descriptionFileName s ((parentName ^^ j) n)) = Missing"
      "fs (descriptionFileName s ((parentName ^^ k) n)) = Present f" "fault f = NoFault"
    and dec: "decode s (bytes f) = Inl msg"
    by auto
  have rd: "readDescription s fs n = Inl (ErrDecode msg)"
    using readDescription_found [OF k] dec by simp
  show "UpdateDescription s ev fs n etag desc = (Some (ErrDecode msg), fs)"
    using san rd by (rule UpdateDescription_read_error) simp
qed

lemma conflict_delete_own:
  "n \<noteq> '''' \<and> fs (descriptionFileName s n) = Present f \<longrightarrow>
      DeleteDescription s ev fs n etag =
        (if etag \<noteq> makeETag (Size f) (mtime f) then (Some ErrTagMismatch, fs)
         else (case failRemove ev of
                 Some e \<Rightarrow> (Some (osError e), fs)
               | None \<Rightarrow> (None, fs(descriptionFileName s n := Missing))))"
  using DeleteDescription_own [of n fs s f ev etag] by blast

lemma conflict_delete_missing:
  "n = '''' \<or> fs (descriptionFileName s n) = Missing \<longrightarrow>
      snd (DeleteDescription s ev fs n etag) = fs \<and>
      (fst (DeleteDescription s ev fs n etag) = Some ErrNotExist \<or>
       (\<exists>j m. 0 < j \<and> (parentName ^^ j) n \<noteq> '''' \<and>
              fs (descriptionFileName s ((parentName ^^ j) n)) = Failing m \<and>
              fst (DeleteDescription s ev fs n etag) = Some (ErrOther m)))"
proof
  assume "n = '''' \<or> fs (descriptionFileName s n) = Missing"
  with DeleteDescription_missing [of n fs s ev etag]
  show "snd (DeleteDescription s ev fs n etag) = fs \<and>
      (fst (DeleteDescription s ev fs n etag) = Some ErrNotExist \<or>
       (\<exists>j m. 0 < j \<and> (parentName ^^ j) n \<noteq> '''' \<and>
              fs (descriptionFileName s ((parentName ^^ j) n)) = Failing m \<and>
              fst (DeleteDescription s ev fs n etag) = Some (ErrOther m)))"
    by auto
qed

lemma conflict_delete_failing:
  "n \<noteq> '''' \<and> fs (descriptionFileName s n) = Failing m \<longrightarrow>
      DeleteDescription s ev fs n etag = (Some (ErrOther m), fs)"
  using DeleteDescription_failing [of n fs s m ev etag] by blast

lemma conflict_create_only:
  "n \<noteq> '''' \<and> fst (UpdateDescription s ev fs n '''' desc) = None \<longrightarrow>
      fs (descriptionFileName s n) = Missing"
proof
  assume h: "n \<noteq> '''' \<and> fst (UpdateDescription s ev fs n '''' desc) = None"
  have "'''' \<noteq> makeETag a b" for a b using makeETag_nonempty [of a b] by simp
  then show "fs (descriptionFileName s n) = Missing"
    using h UpdateDescription_outcome [of s ev fs n "''''" desc] by auto
qed

lemma conflict_create:
  "Users desc = None \<and> FallbackUsers desc = None \<and> AuthKeys desc = None \<and>
    n \<noteq> '''' \<and> CHR ''/'' \<notin> set n \<and> fs (descriptionFileName s n) = Missing \<and>
    encode s desc = Inr b \<and>
    failCreateTemp ev = None \<and> failWrite ev = None \<and> failSync ev = None \<and>
    failClose ev = None \<and> failRename ev = None \<and> rands ev = r # rs \<and>
    fs (joinPath (path_Dir (descriptionFileName s n)) (n @ uitoa r @ ''.temp'')) = Missing \<longrightarrow>
      UpdateDescription s ev fs n '''' desc =
        (None, fs(descriptionFileName s n :=
                    Present \<lparr>bytes = b, mtime = now ev, fault = NoFault\<rparr>))"
proof
  assume h: "Users desc = None \<and> FallbackUsers desc = None \<and> AuthKeys desc = None \<and>
    n \<noteq> '''' \<and> CHR ''/'' \<notin> set n \<and> fs (descriptionFileName s n) = Missing \<and>
    encode s desc = Inr b \<and>
    failCreateTemp ev = None \<and> failWrite ev = None \<and> failSync ev = None \<and>
    failClose ev = None \<and> failRename ev = None \<and> rands ev = r # rs \<and>
    fs (joinPath (path_Dir (descriptionFileName s n)) (n @ uitoa r @ ''.temp'')) = Missing"
  then have san: "Users desc = None" "FallbackUsers desc = None" "AuthKeys desc = None"
    by simp_all
  have "\<forall>j. (parentName ^^ j) n \<noteq> '''' \<longrightarrow>
          fs (descriptionFileName s ((parentName ^^ j) n)) = Missing"
  proof (intro allI impI)
    fix j assume j: "(parentName ^^ j) n \<noteq> ''''"
    have "j = 0" using plain_name_parent [of n j] h j by (cases "j = 0") auto
    then show "fs (descriptionFileName s ((parentName ^^ j) n)) = Missing" using h by simp
  qed
  then have rd: "readDescription s fs n = Inl ErrNotExist" by (rule readDescription_none)
  have e: "\<forall>m. fs (descriptionFileName s n) \<noteq> Failing m" using h by simp
  show "UpdateDescription s ev fs n '''' desc =
        (None, fs(descriptionFileName s n :=
                    Present \<lparr>bytes = b, mtime = now ev, fault = NoFault\<rparr>))"
    unfolding UpdateDescription_absent [OF san rd]
    using writeDescription_quiet [of ev n r rs fs "descriptionFileName s n" s desc b] h e
    by simp
qed

lemma conflict_stale:
  "n \<noteq> '''' \<and> fs (descriptionFileName s n) = Present f \<and>
    UpdateDescription s ev fs n (makeETag (Size f) (mtime f)) desc = (None, fs') \<and>
    Users desc' = None \<and> FallbackUsers desc' = None \<and> AuthKeys desc' = None \<longrightarrow>
      (\<exists>g. fs' (descriptionFileName s n) = Present g \<and> fault g = NoFault \<and>
           mtime g = now ev \<and>
           (\<forall>d'. decode s (bytes g) = Inr d' \<longrightarrow>
              (fst (UpdateDescription s ev' fs' n (makeETag (Size f) (mtime f)) desc') =
                 Some ErrTagMismatch) =
              (Size g \<noteq> Size f \<or> now ev \<noteq> mtime f)))"
proof
  assume h: "n \<noteq> '''' \<and> fs (descriptionFileName s n) = Present f \<and>
    UpdateDescription s ev fs n (makeETag (Size f) (mtime f)) desc = (None, fs') \<and>
    Users desc' = None \<and> FallbackUsers desc' = None \<and> AuthKeys desc' = None"
  then have n: "n \<noteq> ''''" and own: "fs (descriptionFileName s n) = Present f"
    and u: "UpdateDescription s ev fs n (makeETag (Size f) (mtime f)) desc = (None, fs')"
    and san: "Users desc' = None" "FallbackUsers desc' = None" "AuthKeys desc' = None"
    by simp_all
  have ok: "fst (UpdateDescription s ev fs n (makeETag (Size f) (mtime f)) desc) = None"
    using u by simp
  obtain b where b: "UpdateDescription s ev fs n (makeETag (Size f) (mtime f)) desc =
      (None, fs(descriptionFileName s n :=
                  Present \<lparr>bytes = b, mtime = now ev, fault = NoFault\<rparr>))"
    using ok UpdateDescription_outcome [of s ev fs n "makeETag (Size f) (mtime f)" desc]
    by auto
  let ?g = "\<lparr>bytes = b, mtime = now ev, fault = NoFault\<rparr>"
  have fs': "fs' = fs(descriptionFileName s n := Present ?g)" using u b by simp
  have g: "fs' (descriptionFileName s n) = Present ?g" unfolding fs' by simp
  have k: "(parentName ^^ 0) n \<noteq> ''''"
    "\<forall>j < (0::nat). fs' (descriptionFileName s ((parentName ^^ j) n)) = Missing"
    "fs' (descriptionFileName s ((parentName ^^ 0) n)) = Present ?g" "fault ?g = NoFault"
    using n g by simp_all
  have c: "\<forall>d'. decode s (bytes ?g) = Inr d' \<longrightarrow>
      (fst (UpdateDescription s ev' fs' n (makeETag (Size f) (mtime f)) desc') =
         Some ErrTagMismatch) =
      (Size ?g \<noteq> Size f \<or> now ev \<noteq> mtime f)"
  proof (intro allI impI)
    fix d' assume d': "decode s (bytes ?g) = Inr d'"
    have z: "0 < (0::nat) \<longrightarrow> AutoSubgroups d'" by simp
    show "(fst (UpdateDescription s ev' fs' n (makeETag (Size f) (mtime f)) desc') =
         Some ErrTagMismatch) =
      (Size ?g \<noteq> Size f \<or> now ev \<noteq> mtime f)"
      unfolding UpdateDescription_found [OF san k d' z]
      using writeDescription_not_conflict by (auto simp: makeETag_inj)
  qed
  have "fs' (descriptionFileName s n) = Present ?g \<and> fault ?g = NoFault \<and>
      mtime ?g = now ev \<and>
      (\<forall>d'. decode s (bytes ?g) = Inr d' \<longrightarrow>
         (fst (UpdateDescription s ev' fs' n (makeETag (Size f) (mtime f)) desc') =
            Some ErrTagMismatch) =
         (Size ?g \<noteq> Size f \<or> now ev \<noteq> mtime f))"
    using g c by simp
  then show "(\<exists>g. fs' (descriptionFileName s n) = Present g \<and> fault g = NoFault \<and>
           mtime g = now ev \<and>
           (\<forall>d'. decode s (bytes g) = Inr d' \<longrightarrow>
              (fst (UpdateDescription s ev' fs' n (makeETag (Size f) (mtime f)) desc') =
                 Some ErrTagMismatch) =
              (Size g \<noteq> Size f \<or> now ev \<noteq> mtime f)))"
    by (rule exI)
qed

lemma conflict_delete_done:
  "DeleteDescription s ev fs n etag = (None, fs') \<longrightarrow>
      n \<noteq> '''' \<and> fs' = fs(descriptionFileName s n := Missing) \<and>
      (\<exists>f. fs (descriptionFileName s n) = Present f \<and> etag = makeETag (Size f) (mtime f))"
  using DeleteDescription_success [of s ev fs n etag fs'] by blast

lemma conflict_read_none:
  "DeleteDescription s ev fs n etag = (None, fs') \<and>
    (\<forall>j. 0 < j \<and> (parentName ^^ j) n \<noteq> '''' \<longrightarrow>
         fs' (descriptionFileName s ((parentName ^^ j) n)) = Missing) \<longrightarrow>
      readDescription s fs' n = Inl ErrNotExist"
proof
  assume h: "DeleteDescription s ev fs n etag = (None, fs') \<and>
    (\<forall>j. 0 < j \<and> (parentName ^^ j) n \<noteq> '''' \<longrightarrow>
         fs' (descriptionFileName s ((parentName ^^ j) n)) = Missing)"
  then have own: "fs' (descriptionFileName s n) = Missing"
    using DeleteDescription_success [of s ev fs n etag fs'] by simp
  have "\<forall>j. (parentName ^^ j) n \<noteq> '''' \<longrightarrow>
          fs' (descriptionFileName s ((parentName ^^ j) n)) = Missing"
  proof (intro allI impI)
    fix j assume "(parentName ^^ j) n \<noteq> ''''"
    then show "fs' (descriptionFileName s ((parentName ^^ j) n)) = Missing"
      using h own by (cases "j = 0") auto
  qed
  then show "readDescription s fs' n = Inl ErrNotExist" by (rule readDescription_none)
qed

lemma conflict_read_ancestor:
  "DeleteDescription s ev fs n etag = (None, fs') \<and>
    0 < k \<and> (parentName ^^ k) n \<noteq> '''' \<and>
    (\<forall>j < k. 0 < j \<longrightarrow> fs' (descriptionFileName s ((parentName ^^ j) n)) = Missing) \<and>
    fs' (descriptionFileName s ((parentName ^^ k) n)) = Present g \<and> fault g = NoFault \<and>
    decode s (bytes g) = Inr d \<longrightarrow>
      readDescription s fs' n =
        (if AutoSubgroups d
         then Inr ((upgradeDescription
                (d\<lparr>FileName := descriptionFileName s ((parentName ^^ k) n),
                   fileSize := Size g, modTime := mtime g\<rparr>))
             \<lparr>isSubgroup := True, Public := False, Description := ''''\<rparr>)
         else Inl ErrNotExist)"
proof
  assume h: "DeleteDescription s ev fs n etag = (None, fs') \<and>
    0 < k \<and> (parentName ^^ k) n \<noteq> '''' \<and>
    (\<forall>j < k. 0 < j \<longrightarrow> fs' (descriptionFileName s ((parentName ^^ j) n)) = Missing) \<and>
    fs' (descriptionFileName s ((parentName ^^ k) n)) = Present g \<and> fault g = NoFault \<and>
    decode s (bytes g) = Inr d"
  then have own: "fs' (descriptionFileName s n) = Missing"
    using DeleteDescription_success [of s ev fs n etag fs'] by simp
  have m: "\<forall>j < k. fs' (descriptionFileName s ((parentName ^^ j) n)) = Missing"
  proof (intro allI impI)
    fix j assume "j < k"
    then show "fs' (descriptionFileName s ((parentName ^^ j) n)) = Missing"
      using h own by (cases "j = 0") auto
  qed
  have a: "0 < k" "(parentName ^^ k) n \<noteq> ''''"
    and p: "fs' (descriptionFileName s ((parentName ^^ k) n)) = Present g" "fault g = NoFault"
    and dec: "decode s (bytes g) = Inr d"
    using h by simp_all
  show "readDescription s fs' n =
        (if AutoSubgroups d
         then Inr ((upgradeDescription
                (d\<lparr>FileName := descriptionFileName s ((parentName ^^ k) n),
                   fileSize := Size g, modTime := mtime g\<rparr>))
             \<lparr>isSubgroup := True, Public := False, Description := ''''\<rparr>)
         else Inl ErrNotExist)"
    using readDescription_ancestor [OF a m p] dec by simp
qed

lemma conflict_locked:
  "mu st \<longrightarrow>
      DeleteDescription_call s ev st n etag = None \<and>
      (Users desc = None \<and> FallbackUsers desc = None \<and> AuthKeys desc = None \<longrightarrow>
         UpdateDescription_call s ev st n etag desc = None)"
  by (simp add: DeleteDescription_call_def UpdateDescription_call_def mu_Lock_def)

lemma conflict_unlocked:
  "\<not> mu st \<longrightarrow>
      DeleteDescription_call s ev st n etag =
        Some (fst (DeleteDescription s ev (files st) n etag),
              st\<lparr>files := snd (DeleteDescription s ev (files st) n etag)\<rparr>) \<and>
      UpdateDescription_call s ev st n etag desc =
        Some (fst (UpdateDescription s ev (files st) n etag desc),
              st\<lparr>files := snd (UpdateDescription s ev (files st) n etag desc)\<rparr>)"
  by (cases st)
    (simp add: DeleteDescription_call_def UpdateDescription_call_def mu_Lock_def mu_Unlock_def
      Let_def UpdateDescription_unsanitised)

text \<open>
  C1. The claim is that the two calls fail with a conflict exactly when the expected tag
  differs from the current one, that a stale tag fails, and that a read after a delete
  fails. The comparison of the tags is not the first test of either call, a tag is the
  size and the time of the file and so does not change when these do not, and a read
  after a delete is resolved through the ancestors of the name. What holds is this.

  \<open>UpdateDescription\<close>, given a description without users and keys: when the name
  resolves to a readable file that decodes (its own, or that of the nearest ancestor that
  has one, if it sets \<open>AutoSubgroups\<close>), the call fails with \<open>ErrTagMismatch\<close> exactly
  when the expected tag differs from the tag made of the size and the time of that file;
  when nothing exists along the chain of the name, or the nearest file is an ancestor's
  without \<open>AutoSubgroups\<close>, exactly when the expected tag is not empty. A description
  with users or keys is refused first, with \<open>ErrNotSanitised\<close>; a path that answers
  another error and a malformed file give that error, whatever the tag.

  \<open>DeleteDescription\<close>: when the name has a file of its own, the call fails with
  \<open>ErrTagMismatch\<close> exactly when the expected tag differs from the tag of that file, and
  otherwise removes the file, unless the removal fails; when the name has none it fails
  with \<open>ErrNotExist\<close>, or with the error of a path of the chain, whatever the tag.

  A create with the empty tag returns nil only if nothing exists at the path of the name,
  and does return nil for a name without slash when no step fails. After an update that
  returned nil, a second update with the tag of before fails with \<open>ErrTagMismatch\<close>
  exactly when the size or the time of the file has changed. After a delete that
  returned nil the file of the name is gone; a read of the name fails with
  \<open>ErrNotExist\<close> when no ancestor has a file or the nearest one that has does not set
  \<open>AutoSubgroups\<close>, and returns the subgroup of that ancestor when it does.

  A call that finds the mutex held does not go on (an update, once it has tested the
  description); a call that finds it free does all of the above while it holds the
  mutex, and frees it.
\<close>

theorem mutation_conflict:
  "(Users desc = None \<and> FallbackUsers desc = None \<and> AuthKeys desc = None \<and>
    (parentName ^^ k) n \<noteq> '''' \<and>
    (\<forall>j < k. fs (descriptionFileName s ((parentName ^^ j) n)) = Missing) \<and>
    fs (descriptionFileName s ((parentName ^^ k) n)) = Present f \<and> fault f = NoFault \<and>
    decode s (bytes f) = Inr d \<and> (k = 0 \<or> AutoSubgroups d) \<longrightarrow>
      (fst (UpdateDescription s ev fs n etag desc) = Some ErrTagMismatch) =
      (etag \<noteq> makeETag (Size f) (mtime f))) \<and>
   (Users desc = None \<and> FallbackUsers desc = None \<and> AuthKeys desc = None \<and>
    ((\<forall>j. (parentName ^^ j) n \<noteq> '''' \<longrightarrow>
          fs (descriptionFileName s ((parentName ^^ j) n)) = Missing) \<or>
     0 < k \<and> (parentName ^^ k) n \<noteq> '''' \<and>
     (\<forall>j < k. fs (descriptionFileName s ((parentName ^^ j) n)) = Missing) \<and>
     fs (descriptionFileName s ((parentName ^^ k) n)) = Present f \<and> fault f = NoFault \<and>
     decode s (bytes f) = Inr d \<and> \<not> AutoSubgroups d) \<longrightarrow>
      (fst (UpdateDescription s ev fs n etag desc) = Some ErrTagMismatch) = (etag \<noteq> '''')) \<and>
   (Users desc \<noteq> None \<or> FallbackUsers desc \<noteq> None \<or> AuthKeys desc \<noteq> None \<longrightarrow>
      UpdateDescription s ev fs n etag desc = (Some ErrNotSanitised, fs)) \<and>
   (Users desc = None \<and> FallbackUsers desc = None \<and> AuthKeys desc = None \<and>
    (parentName ^^ k) n \<noteq> '''' \<and>
    (\<forall>j < k. fs (descriptionFileName s ((parentName ^^ j) n)) = Missing) \<and>
    fs (descriptionFileName s ((parentName ^^ k) n)) = Failing m \<longrightarrow>
      UpdateDescription s ev fs n etag desc = (Some (ErrOther m), fs)) \<and>
   (Users desc = None \<and> FallbackUsers desc = None \<and> AuthKeys desc = None \<and>
    (parentName ^^ k) n \<noteq> '''' \<and>
    (\<forall>j < k. fs (descriptionFileName s ((parentName ^^ j) n)) = Missing) \<and>
    fs (descriptionFileName s ((parentName ^^ k) n)) = Present f \<and> fault f = NoFault \<and>
    decode s (bytes f) = Inl msg \<longrightarrow>
      UpdateDescription s ev fs n etag desc = (Some (ErrDecode msg), fs)) \<and>
   (n \<noteq> '''' \<and> fs (descriptionFileName s n) = Present f \<longrightarrow>
      DeleteDescription s ev fs n etag =
        (if etag \<noteq> makeETag (Size f) (mtime f) then (Some ErrTagMismatch, fs)
         else (case failRemove ev of
                 Some e \<Rightarrow> (Some (osError e), fs)
               | None \<Rightarrow> (None, fs(descriptionFileName s n := Missing))))) \<and>
   (n = '''' \<or> fs (descriptionFileName s n) = Missing \<longrightarrow>
      snd (DeleteDescription s ev fs n etag) = fs \<and>
      (fst (DeleteDescription s ev fs n etag) = Some ErrNotExist \<or>
       (\<exists>j m. 0 < j \<and> (parentName ^^ j) n \<noteq> '''' \<and>
              fs (descriptionFileName s ((parentName ^^ j) n)) = Failing m \<and>
              fst (DeleteDescription s ev fs n etag) = Some (ErrOther m)))) \<and>
   (n \<noteq> '''' \<and> fs (descriptionFileName s n) = Failing m \<longrightarrow>
      DeleteDescription s ev fs n etag = (Some (ErrOther m), fs)) \<and>
   (n \<noteq> '''' \<and> fst (UpdateDescription s ev fs n '''' desc) = None \<longrightarrow>
      fs (descriptionFileName s n) = Missing) \<and>
   (Users desc = None \<and> FallbackUsers desc = None \<and> AuthKeys desc = None \<and>
    n \<noteq> '''' \<and> CHR ''/'' \<notin> set n \<and> fs (descriptionFileName s n) = Missing \<and>
    encode s desc = Inr b \<and>
    failCreateTemp ev = None \<and> failWrite ev = None \<and> failSync ev = None \<and>
    failClose ev = None \<and> failRename ev = None \<and> rands ev = r # rs \<and>
    fs (joinPath (path_Dir (descriptionFileName s n)) (n @ uitoa r @ ''.temp'')) = Missing \<longrightarrow>
      UpdateDescription s ev fs n '''' desc =
        (None, fs(descriptionFileName s n :=
                    Present \<lparr>bytes = b, mtime = now ev, fault = NoFault\<rparr>))) \<and>
   (n \<noteq> '''' \<and> fs (descriptionFileName s n) = Present f \<and>
    UpdateDescription s ev fs n (makeETag (Size f) (mtime f)) desc = (None, fs') \<and>
    Users desc' = None \<and> FallbackUsers desc' = None \<and> AuthKeys desc' = None \<longrightarrow>
      (\<exists>g. fs' (descriptionFileName s n) = Present g \<and> fault g = NoFault \<and>
           mtime g = now ev \<and>
           (\<forall>d'. decode s (bytes g) = Inr d' \<longrightarrow>
              (fst (UpdateDescription s ev' fs' n (makeETag (Size f) (mtime f)) desc') =
                 Some ErrTagMismatch) =
              (Size g \<noteq> Size f \<or> now ev \<noteq> mtime f)))) \<and>
   (DeleteDescription s ev fs n etag = (None, fs') \<longrightarrow>
      n \<noteq> '''' \<and> fs' = fs(descriptionFileName s n := Missing) \<and>
      (\<exists>f. fs (descriptionFileName s n) = Present f \<and> etag = makeETag (Size f) (mtime f))) \<and>
   (DeleteDescription s ev fs n etag = (None, fs') \<and>
    (\<forall>j. 0 < j \<and> (parentName ^^ j) n \<noteq> '''' \<longrightarrow>
         fs' (descriptionFileName s ((parentName ^^ j) n)) = Missing) \<longrightarrow>
      readDescription s fs' n = Inl ErrNotExist) \<and>
   (DeleteDescription s ev fs n etag = (None, fs') \<and>
    0 < k \<and> (parentName ^^ k) n \<noteq> '''' \<and>
    (\<forall>j < k. 0 < j \<longrightarrow> fs' (descriptionFileName s ((parentName ^^ j) n)) = Missing) \<and>
    fs' (descriptionFileName s ((parentName ^^ k) n)) = Present g \<and> fault g = NoFault \<and>
    decode s (bytes g) = Inr d \<longrightarrow>
      readDescription s fs' n =
        (if AutoSubgroups d
         then Inr ((upgradeDescription
                (d\<lparr>FileName := descriptionFileName s ((parentName ^^ k) n),
                   fileSize := Size g, modTime := mtime g\<rparr>))
             \<lparr>isSubgroup := True, Public := False, Description := ''''\<rparr>)
         else Inl ErrNotExist)) \<and>
   (mu st \<longrightarrow>
      DeleteDescription_call s ev st n etag = None \<and>
      (Users desc = None \<and> FallbackUsers desc = None \<and> AuthKeys desc = None \<longrightarrow>
         UpdateDescription_call s ev st n etag desc = None)) \<and>
   (\<not> mu st \<longrightarrow>
      DeleteDescription_call s ev st n etag =
        Some (fst (DeleteDescription s ev (files st) n etag),
              st\<lparr>files := snd (DeleteDescription s ev (files st) n etag)\<rparr>) \<and>
      UpdateDescription_call s ev st n etag desc =
        Some (fst (UpdateDescription s ev (files st) n etag desc),
              st\<lparr>files := snd (UpdateDescription s ev (files st) n etag desc)\<rparr>))"
  by (intro conjI)
    (rule conflict_update_found,
     rule conflict_update_absent,
     rule conflict_update_unsanitised,
     rule conflict_update_failing,
     rule conflict_update_malformed,
     rule conflict_delete_own,
     rule conflict_delete_missing,
     rule conflict_delete_failing,
     rule conflict_create_only,
     rule conflict_create,
     rule conflict_stale,
     rule conflict_delete_done,
     rule conflict_read_none,
     rule conflict_read_ancestor,
     rule conflict_locked,
     rule conflict_unlocked)

lemma group_files:
  "fsAuto ''groups/group.json'' = Present \<lparr>bytes = docAuto, mtime = 100, fault = NoFault\<rparr>"
  "fsAuto ''groups/group/subgroup.json'' = Missing"
  "fsBoth ''groups/group/subgroup.json'' =
     Present \<lparr>bytes = docRoom, mtime = 200, fault = NoFault\<rparr>"
  "fsBoth(''groups/group/subgroup.json'' := Missing) = fsAuto"
  by (auto simp: fsAuto_def fsBoth_def plainFile_def noFiles_def fun_eq_iff)

lemma read_subgroup_auto:
  "readDescription exampleSys fsAuto ''group/subgroup'' =
     Inr (zeroDescription\<lparr>AutoSubgroups := True, FileName := ''groups/group.json'',
            fileSize := 63, modTime := 100, isSubgroup := True\<rparr>)"
proof -
  let ?f = "\<lparr>bytes = docAuto, mtime = 100, fault = NoFault\<rparr>"
  have k: "0 < (1::nat)" "(parentName ^^ 1) ''group/subgroup'' \<noteq> ''''"
    "\<forall>j < (1::nat). fsAuto (descriptionFileName exampleSys ((parentName ^^ j) ''group/subgroup'')) =
       Missing"
    "fsAuto (descriptionFileName exampleSys ((parentName ^^ 1) ''group/subgroup'')) = Present ?f"
    "fault ?f = NoFault"
    by (simp_all add: example_names group_files)
  show ?thesis
    using readDescription_ancestor [OF k]
    by (simp add: example_names example_decode example_sizes upgradeDescription_def
        zeroDescription_def)
qed

lemma tags_differ: "makeETag 0 0 \<noteq> makeETag 82 100" "makeETag 82 100 \<noteq> makeETag 83 300"
  by (simp_all add: makeETag_inj)

lemma update_room_bad:
  "UpdateDescription exampleSys quietEnv fsBad ''room'' (makeETag 0 0)
     (zeroDescription\<lparr>DisplayName := ''Hall''\<rparr>) =
   (Some (ErrDecode ''invalid character''), fsBad)"
proof -
  let ?f = "\<lparr>bytes = ''{'', mtime = 100, fault = NoFault\<rparr>"
  have k: "(parentName ^^ 0) ''room'' \<noteq> ''''"
    "\<forall>j < (0::nat). fsBad (descriptionFileName exampleSys ((parentName ^^ j) ''room'')) = Missing"
    "fsBad (descriptionFileName exampleSys ((parentName ^^ 0) ''room'')) = Present ?f"
    "fault ?f = NoFault"
    by (simp_all add: room_names example_files)
  have rd: "readDescription exampleSys fsBad ''room'' = Inl (ErrDecode ''invalid character'')"
    using readDescription_found [OF k] by (simp add: example_decode)
  show ?thesis
    using hall_sanitised rd by (rule UpdateDescription_read_error) simp
qed

lemma delete_subgroup_auto:
  "DeleteDescription exampleSys quietEnv fsAuto ''group/subgroup'' (makeETag 0 0) =
     (Some ErrNotExist, fsAuto)"
proof -
  let ?f = "\<lparr>bytes = docAuto, mtime = 100, fault = NoFault\<rparr>"
  have "getDescriptionFile exampleSys ''group/subgroup'' (os_Stat fsAuto) =
      Inr (?f, descriptionFileName exampleSys ((parentName ^^ 1) ''group/subgroup''), 0 < (1::nat))"
    by (rule getDescriptionFile_found)
      (simp_all add: example_names group_files os_Stat_def)
  then show ?thesis by (simp add: DeleteDescription_def)
qed

theorem mutation_conflict_witness:
  "fsUsers ''groups/room.json'' = Present \<lparr>bytes = docUsers, mtime = 100, fault = NoFault\<rparr> \<and>
   decode exampleSys docUsers =
     Inr (zeroDescription\<lparr>DisplayName := ''Room'', Users := Some jchUsers\<rparr>) \<and>
   fst (UpdateDescription exampleSys quietEnv fsUsers ''room'' (makeETag 0 0)
          (zeroDescription\<lparr>DisplayName := ''Hall''\<rparr>)) = Some ErrTagMismatch \<and>
   fst (UpdateDescription exampleSys quietEnv fsUsers ''room'' (makeETag 82 100)
          (zeroDescription\<lparr>DisplayName := ''Hall''\<rparr>)) \<noteq> Some ErrTagMismatch \<and>
   DeleteDescription exampleSys quietEnv fsUsers ''room'' (makeETag 0 0) =
     (Some ErrTagMismatch, fsUsers) \<and>
   DeleteDescription exampleSys quietEnv fsUsers ''room'' (makeETag 82 100) = (None, noFiles) \<and>
   readDescription exampleSys noFiles ''room'' = Inl ErrNotExist \<and>
   UpdateDescription exampleSys quietEnv noFiles ''room'' ''''
     (zeroDescription\<lparr>DisplayName := ''Room''\<rparr>) =
     (None, noFiles(''groups/room.json'' := plainFile (docRoom @ newline) 300)) \<and>
   UpdateDescription exampleSys quietEnv fsUsers ''room'' (makeETag 82 100)
     (zeroDescription\<lparr>DisplayName := ''Hall''\<rparr>) = (None, fsHall) \<and>
   fst (UpdateDescription exampleSys quietEnv fsHall ''room'' (makeETag 82 100)
          (zeroDescription\<lparr>DisplayName := ''Room''\<rparr>)) = Some ErrTagMismatch \<and>
   DeleteDescription_call exampleSys quietEnv \<lparr>files = fsUsers, mu = True\<rparr> ''room''
     (makeETag 82 100) = None"
proof -
  let ?hall = "zeroDescription\<lparr>DisplayName := ''Hall''\<rparr>"
  let ?room = "zeroDescription\<lparr>DisplayName := ''Room''\<rparr>"
  let ?f = "\<lparr>bytes = docUsers, mtime = 100, fault = NoFault\<rparr>"
  let ?g = "\<lparr>bytes = docHall @ newline, mtime = 300, fault = NoFault\<rparr>"
  let ?d = "zeroDescription\<lparr>DisplayName := ''Room'', Users := Some jchUsers\<rparr>"
  let ?st = "\<lparr>files = fsUsers, mu = True\<rparr>"
  note A = mutation_conflict [where s = exampleSys and ev = quietEnv and fs = fsUsers
      and n = "''room''" and etag = "makeETag 0 0" and desc = ?hall and k = 0 and f = ?f
      and d = ?d and m = "''''" and msg = "''''" and b = "''''" and r = 7 and rs = "[]"
      and fs' = noFiles and desc' = ?room and ev' = quietEnv and g = ?g and st = ?st]
  note B = mutation_conflict [where s = exampleSys and ev = quietEnv and fs = fsUsers
      and n = "''room''" and etag = "makeETag 82 100" and desc = ?hall and k = 0 and f = ?f
      and d = ?d and m = "''''" and msg = "''''" and b = "''''" and r = 7 and rs = "[]"
      and fs' = noFiles and desc' = ?room and ev' = quietEnv and g = ?g and st = ?st]
  note C = mutation_conflict [where s = exampleSys and ev = quietEnv and fs = fsUsers
      and n = "''room''" and etag = "makeETag 82 100" and desc = ?hall and k = 0 and f = ?f
      and d = ?d and m = "''''" and msg = "''''" and b = "''''" and r = 7 and rs = "[]"
      and fs' = fsHall and desc' = ?room and ev' = quietEnv and g = ?g and st = ?st]
  note N = mutation_conflict [where s = exampleSys and ev = quietEnv and fs = noFiles
      and n = "''room''" and etag = "''''" and desc = ?room and k = 0 and f = ?f
      and d = ?d and m = "''''" and msg = "''''" and b = "docRoom @ newline" and r = 7
      and rs = "[]" and fs' = noFiles and desc' = ?room and ev' = quietEnv and g = ?g
      and st = ?st]
  have own: "fsUsers (descriptionFileName exampleSys ''room'') = Present ?f"
    unfolding room_names(2) by (rule example_files)
  have h1: "Users ?hall = None \<and> FallbackUsers ?hall = None \<and> AuthKeys ?hall = None \<and>
    (parentName ^^ 0) ''room'' \<noteq> '''' \<and>
    (\<forall>j < (0::nat). fsUsers (descriptionFileName exampleSys ((parentName ^^ j) ''room'')) = Missing) \<and>
    fsUsers (descriptionFileName exampleSys ((parentName ^^ 0) ''room'')) = Present ?f \<and>
    fault ?f = NoFault \<and> decode exampleSys (bytes ?f) = Inr ?d \<and>
    ((0::nat) = 0 \<or> AutoSubgroups ?d)"
    using own hall_sanitised example_decode(3) by simp
  have sz: "makeETag (Size ?f) (mtime ?f) = makeETag 82 100"
    by (simp add: example_sizes)
  have 1: "fst (UpdateDescription exampleSys quietEnv fsUsers ''room'' (makeETag 0 0) ?hall) =
      Some ErrTagMismatch"
    using A [THEN conjunct1, THEN mp, OF h1] tags_differ(1) unfolding sz by simp
  have 2: "fst (UpdateDescription exampleSys quietEnv fsUsers ''room'' (makeETag 82 100) ?hall) \<noteq>
      Some ErrTagMismatch"
    using B [THEN conjunct1, THEN mp, OF h1] unfolding sz by simp
  have h2: "''room'' \<noteq> '''' \<and> fsUsers (descriptionFileName exampleSys ''room'') = Present ?f"
    using own by simp
  have "DeleteDescription exampleSys quietEnv fsUsers ''room'' (makeETag 0 0) =
        (if makeETag 0 0 \<noteq> makeETag (Size ?f) (mtime ?f) then (Some ErrTagMismatch, fsUsers)
         else (case failRemove quietEnv of
                 Some e \<Rightarrow> (Some (osError e), fsUsers)
               | None \<Rightarrow> (None, fsUsers(descriptionFileName exampleSys ''room'' := Missing))))"
    by (rule A [THEN conjunct2, THEN conjunct2, THEN conjunct2, THEN conjunct2, THEN conjunct2, THEN conjunct1, THEN mp, OF h2])
  then have 3: "DeleteDescription exampleSys quietEnv fsUsers ''room'' (makeETag 0 0) =
      (Some ErrTagMismatch, fsUsers)"
    unfolding sz using tags_differ(1) by simp
  have "DeleteDescription exampleSys quietEnv fsUsers ''room'' (makeETag 82 100) =
        (if makeETag 82 100 \<noteq> makeETag (Size ?f) (mtime ?f) then (Some ErrTagMismatch, fsUsers)
         else (case failRemove quietEnv of
                 Some e \<Rightarrow> (Some (osError e), fsUsers)
               | None \<Rightarrow> (None, fsUsers(descriptionFileName exampleSys ''room'' := Missing))))"
    by (rule B [THEN conjunct2, THEN conjunct2, THEN conjunct2, THEN conjunct2, THEN conjunct2, THEN conjunct1, THEN mp, OF h2])
  then have 4: "DeleteDescription exampleSys quietEnv fsUsers ''room'' (makeETag 82 100) =
      (None, noFiles)"
    unfolding sz room_names(2) example_written(5) by (simp add: quiet_flags)
  have h5: "DeleteDescription exampleSys quietEnv fsUsers ''room'' (makeETag 82 100) =
      (None, noFiles) \<and>
    (\<forall>j. 0 < j \<and> (parentName ^^ j) ''room'' \<noteq> '''' \<longrightarrow>
         noFiles (descriptionFileName exampleSys ((parentName ^^ j) ''room'')) = Missing)"
    using 4 by (simp add: example_files)
  have 5: "readDescription exampleSys noFiles ''room'' = Inl ErrNotExist"
    by (rule B [THEN conjunct2, THEN conjunct2, THEN conjunct2, THEN conjunct2, THEN conjunct2, THEN conjunct2, THEN conjunct2, THEN conjunct2, THEN conjunct2, THEN conjunct2, THEN conjunct2, THEN conjunct2, THEN conjunct1, THEN mp, OF h5])
  have h6: "Users ?room = None \<and> FallbackUsers ?room = None \<and> AuthKeys ?room = None \<and>
    ''room'' \<noteq> '''' \<and> CHR ''/'' \<notin> set ''room'' \<and>
    noFiles (descriptionFileName exampleSys ''room'') = Missing \<and>
    encode exampleSys ?room = Inr (docRoom @ newline) \<and>
    failCreateTemp quietEnv = None \<and> failWrite quietEnv = None \<and> failSync quietEnv = None \<and>
    failClose quietEnv = None \<and> failRename quietEnv = None \<and> rands quietEnv = 7 # [] \<and>
    noFiles (joinPath (path_Dir (descriptionFileName exampleSys ''room''))
               (''room'' @ uitoa 7 @ ''.temp'')) = Missing"
    using hall_sanitised example_files(10) example_encode(1) quiet_flags by simp
  have "UpdateDescription exampleSys quietEnv noFiles ''room'' '''' ?room =
        (None, noFiles(descriptionFileName exampleSys ''room'' :=
                    Present \<lparr>bytes = docRoom @ newline, mtime = now quietEnv, fault = NoFault\<rparr>))"
    by (rule N [THEN conjunct2, THEN conjunct2, THEN conjunct2, THEN conjunct2, THEN conjunct2, THEN conjunct2, THEN conjunct2, THEN conjunct2, THEN conjunct2, THEN conjunct1, THEN mp, OF h6])
  then have 6: "UpdateDescription exampleSys quietEnv noFiles ''room'' '''' ?room =
     (None, noFiles(''groups/room.json'' := plainFile (docRoom @ newline) 300))"
    unfolding room_names(2) quiet_flags plainFile_def .
  have 7: "UpdateDescription exampleSys quietEnv fsUsers ''room'' (makeETag 82 100) ?hall =
      (None, fsHall)"
    by (rule update_room_users)
  have h8: "''room'' \<noteq> '''' \<and> fsUsers (descriptionFileName exampleSys ''room'') = Present ?f \<and>
    UpdateDescription exampleSys quietEnv fsUsers ''room'' (makeETag (Size ?f) (mtime ?f)) ?hall =
      (None, fsHall) \<and>
    Users ?room = None \<and> FallbackUsers ?room = None \<and> AuthKeys ?room = None"
    unfolding sz using own 7 hall_sanitised by simp
  have "\<exists>g. fsHall (descriptionFileName exampleSys ''room'') = Present g \<and> fault g = NoFault \<and>
           mtime g = now quietEnv \<and>
           (\<forall>d'. decode exampleSys (bytes g) = Inr d' \<longrightarrow>
              (fst (UpdateDescription exampleSys quietEnv fsHall ''room''
                      (makeETag (Size ?f) (mtime ?f)) ?room) = Some ErrTagMismatch) =
              (Size g \<noteq> Size ?f \<or> now quietEnv \<noteq> mtime ?f))"
    by (rule C [THEN conjunct2, THEN conjunct2, THEN conjunct2, THEN conjunct2, THEN conjunct2, THEN conjunct2, THEN conjunct2, THEN conjunct2, THEN conjunct2, THEN conjunct2, THEN conjunct1, THEN mp, OF h8])
  then obtain g where g: "fsHall (descriptionFileName exampleSys ''room'') = Present g"
    and e: "\<forall>d'. decode exampleSys (bytes g) = Inr d' \<longrightarrow>
              (fst (UpdateDescription exampleSys quietEnv fsHall ''room''
                      (makeETag (Size ?f) (mtime ?f)) ?room) = Some ErrTagMismatch) =
              (Size g \<noteq> Size ?f \<or> now quietEnv \<noteq> mtime ?f)"
    by blast
  have gg: "g = ?g" using g unfolding room_names(2) example_files(5) by simp
  have 8: "fst (UpdateDescription exampleSys quietEnv fsHall ''room'' (makeETag 82 100) ?room) =
      Some ErrTagMismatch"
    using e [rule_format, of "zeroDescription\<lparr>DisplayName := ''Hall'', Users := Some jchUsers\<rparr>"]
    unfolding gg sz by (simp add: example_decode example_sizes quiet_flags)
  have 9: "DeleteDescription_call exampleSys quietEnv ?st ''room'' (makeETag 82 100) = None"
    using B [THEN conjunct2, THEN conjunct2, THEN conjunct2, THEN conjunct2, THEN conjunct2, THEN conjunct2, THEN conjunct2, THEN conjunct2, THEN conjunct2, THEN conjunct2, THEN conjunct2, THEN conjunct2, THEN conjunct2, THEN conjunct2, THEN conjunct1, THEN mp] by simp
  show ?thesis
    using example_files(1) example_decode(3) 1 2 3 4 5 6 7 8 9 by (intro conjI)
qed

text \<open>
  The counterexample to C1 as it is worded. With the files of \<open>group\<close> (which sets
  \<open>auto-subgroups\<close>) and of \<open>group/subgroup\<close>, the delete of \<open>group/subgroup\<close> with
  its current tag succeeds, and the read that follows returns the subgroup derived from
  \<open>group\<close> instead of failing. A description with users and a stale tag is refused
  with \<open>ErrNotSanitised\<close>, not with a conflict; a delete of a name that has no file of
  its own fails with \<open>ErrNotExist\<close> whatever the tag; an update of a malformed file
  fails with the error of the decoder whatever the tag. And an update that leaves the
  size and the time of the file as they were leaves the tag as it was: the tag taken
  before it is accepted again.
\<close>

theorem mutation_conflict_counterexample:
  "DeleteDescription exampleSys quietEnv fsBoth ''group/subgroup'' (makeETag 22 200) =
     (None, fsAuto) \<and>
   readDescription exampleSys fsAuto ''group/subgroup'' =
     Inr (zeroDescription\<lparr>AutoSubgroups := True, FileName := ''groups/group.json'',
            fileSize := 63, modTime := 100, isSubgroup := True\<rparr>) \<and>
   fsUsers ''groups/room.json'' = plainFile docUsers 100 \<and>
   makeETag 0 0 \<noteq> makeETag 82 100 \<and>
   UpdateDescription exampleSys quietEnv fsUsers ''room'' (makeETag 0 0)
     (zeroDescription\<lparr>Users := Some fmempty\<rparr>) = (Some ErrNotSanitised, fsUsers) \<and>
   DeleteDescription exampleSys quietEnv fsAuto ''group/subgroup'' (makeETag 0 0) =
     (Some ErrNotExist, fsAuto) \<and>
   UpdateDescription exampleSys quietEnv fsBad ''room'' (makeETag 0 0)
     (zeroDescription\<lparr>DisplayName := ''Hall''\<rparr>) =
     (Some (ErrDecode ''invalid character''), fsBad) \<and>
   UpdateDescription exampleSys quietEnv fsSame ''room'' (makeETag 83 300)
     (zeroDescription\<lparr>DisplayName := ''Hall''\<rparr>) = (None, fsHall) \<and>
   UpdateDescription exampleSys quietEnv fsHall ''room'' (makeETag 83 300)
     (zeroDescription\<lparr>DisplayName := ''Room''\<rparr>) = (None, fsSame)"
proof -
  have 1: "DeleteDescription exampleSys quietEnv fsBoth ''group/subgroup'' (makeETag 22 200) =
     (None, fsAuto)"
    using DeleteDescription_own [of "''group/subgroup''" fsBoth exampleSys
        "\<lparr>bytes = docRoom, mtime = 200, fault = NoFault\<rparr>" quietEnv "makeETag 22 200"]
    by (simp add: example_names group_files example_sizes quiet_flags)
  have 3: "fsUsers ''groups/room.json'' = plainFile docUsers 100"
    by (simp add: fsUsers_def)
  have 5: "UpdateDescription exampleSys quietEnv fsUsers ''room'' (makeETag 0 0)
     (zeroDescription\<lparr>Users := Some fmempty\<rparr>) = (Some ErrNotSanitised, fsUsers)"
    by (rule UpdateDescription_unsanitised) simp
  show ?thesis
    using 1 read_subgroup_auto 3 tags_differ(1) 5 delete_subgroup_auto update_room_bad
      update_room_same
    by (intro conjI)
qed

text \<open>
  C9. The claim is that an update of a name which resolves to the file of an ancestor
  takes its expected tag from that file and, given that tag, writes the new description
  over the file of the ancestor. With \<open>groups/group.json\<close> setting \<open>auto-subgroups\<close>
  and no file for \<open>group/subgroup\<close>: the empty tag is refused with \<open>ErrTagMismatch\<close>, as
  claimed; with the tag of \<open>groups/group.json\<close> the call gets past the comparison and
  fails in \<open>os.CreateTemp\<close>, whose pattern \<open>group/subgroup*.temp\<close> contains a path
  separator, so that nothing is written and the file of the ancestor is left as it was.
\<close>

theorem UpdateDescription_subgroup_name:
  "fsAuto (descriptionFileName exampleSys ''group/subgroup'') = Missing \<and>
   readDescription exampleSys fsAuto ''group/subgroup'' =
     Inr (zeroDescription\<lparr>AutoSubgroups := True, FileName := ''groups/group.json'',
            fileSize := 63, modTime := 100, isSubgroup := True\<rparr>) \<and>
   GetDescriptionTag exampleSys fsAuto ''group'' = Inr (makeETag 63 100) \<and>
   UpdateDescription exampleSys quietEnv fsAuto ''group/subgroup'' ''''
     (zeroDescription\<lparr>DisplayName := ''Room''\<rparr>) = (Some ErrTagMismatch, fsAuto) \<and>
   UpdateDescription exampleSys quietEnv fsAuto ''group/subgroup'' (makeETag 63 100)
     (zeroDescription\<lparr>DisplayName := ''Room''\<rparr>) = (Some ErrPatternHasSeparator, fsAuto)"
proof -
  let ?desc = "zeroDescription\<lparr>DisplayName := ''Room''\<rparr>"
  let ?f = "\<lparr>bytes = docAuto, mtime = 100, fault = NoFault\<rparr>"
  let ?d = "zeroDescription\<lparr>Description := ''Main room'', Public := True, AutoSubgroups := True\<rparr>"
  have 0: "fsAuto (descriptionFileName exampleSys ''group/subgroup'') = Missing"
    by (simp add: example_names group_files)
  have t: "GetDescriptionTag exampleSys fsAuto ''group'' = Inr (makeETag 63 100)"
    using GetDescriptionTag_own [of "''group''" fsAuto exampleSys ?f]
    by (simp add: example_names group_files example_sizes)
  have k: "(parentName ^^ 1) ''group/subgroup'' \<noteq> ''''"
    "\<forall>j < (1::nat). fsAuto (descriptionFileName exampleSys ((parentName ^^ j) ''group/subgroup'')) =
       Missing"
    "fsAuto (descriptionFileName exampleSys ((parentName ^^ 1) ''group/subgroup'')) = Present ?f"
    "fault ?f = NoFault" "decode exampleSys (bytes ?f) = Inr ?d"
    "0 < (1::nat) \<longrightarrow> AutoSubgroups ?d"
    by (simp_all add: example_names group_files example_decode)
  note u = UpdateDescription_found [OF hall_sanitised [of "''Room''"] k, where ev = quietEnv]
  have sz: "makeETag (Size ?f) (mtime ?f) = makeETag 63 100" by (simp add: example_sizes)
  have 1: "UpdateDescription exampleSys quietEnv fsAuto ''group/subgroup'' '''' ?desc =
      (Some ErrTagMismatch, fsAuto)"
    using u [where etag = "''''"] makeETag_nonempty [of 63 100] unfolding sz by simp
  have sl: "CHR ''/'' \<in> set ''group/subgroup''" by simp
  have 2: "UpdateDescription exampleSys quietEnv fsAuto ''group/subgroup'' (makeETag 63 100) ?desc =
      (Some ErrPatternHasSeparator, fsAuto)"
    using u [where etag = "makeETag 63 100"] writeDescription_separator [OF sl quiet_flags(1)]
    unfolding sz by simp
  show ?thesis using 0 read_subgroup_auto t 1 2 by (intro conjI)
qed

theorem UpdateDescription_subgroup_name_witness:
  "fst (UpdateDescription exampleSys quietEnv fsAuto ''group/subgroup'' (makeETag 63 100)
          (zeroDescription\<lparr>DisplayName := ''Room''\<rparr>)) = Some ErrPatternHasSeparator \<and>
   snd (UpdateDescription exampleSys quietEnv fsAuto ''group/subgroup'' (makeETag 63 100)
          (zeroDescription\<lparr>DisplayName := ''Room''\<rparr>)) ''groups/group.json'' =
     Present \<lparr>bytes = docAuto, mtime = 100, fault = NoFault\<rparr>"
  using UpdateDescription_subgroup_name by (simp add: group_files)


end
